theory Spec2Isabelle
  imports Complex_Main
begin

section \<open>GLSL values and built-in functions\<close>

text \<open>
  The kernels are GLSL fragment shaders embedded as strings in the JavaScript sources.
  GLSL \<open>float\<close> is modelled by \<^typ>\<open>real\<close>: rounding, infinities and NaN of
  single-precision arithmetic are outside this model. The built-ins follow their
  definitions in the GLSL ES 1.00 specification, section 8.
\<close>

datatype vec2 = Vec2 (vx: real) (vy: real)

datatype vec4 = Vec4 (ch_r: real) (ch_g: real) (ch_b: real) (ch_a: real)

definition vadd :: "vec2 \<Rightarrow> vec2 \<Rightarrow> vec2" where
  "vadd p q = Vec2 (vx p + vx q) (vy p + vy q)"

definition vsub :: "vec2 \<Rightarrow> vec2 \<Rightarrow> vec2" where
  "vsub p q = Vec2 (vx p - vx q) (vy p - vy q)"

definition vneg :: "vec2 \<Rightarrow> vec2" where
  "vneg p = Vec2 (- vx p) (- vy p)"

definition vscale :: "vec2 \<Rightarrow> real \<Rightarrow> vec2" where
  "vscale p k = Vec2 (vx p * k) (vy p * k)"

definition vdiv :: "vec2 \<Rightarrow> real \<Rightarrow> vec2" where
  "vdiv p k = Vec2 (vx p / k) (vy p / k)"

definition vdot :: "vec2 \<Rightarrow> vec2 \<Rightarrow> real" where
  "vdot p q = vx p * vx q + vy p * vy q"

definition vlength :: "vec2 \<Rightarrow> real" where
  "vlength p = sqrt (vx p * vx p + vy p * vy p)"

definition vfloor :: "vec2 \<Rightarrow> vec2" where
  "vfloor p = Vec2 (of_int \<lfloor>vx p\<rfloor>) (of_int \<lfloor>vy p\<rfloor>)"

definition glsl_fract :: "real \<Rightarrow> real" where
  "glsl_fract x = x - of_int \<lfloor>x\<rfloor>"

definition vfract :: "vec2 \<Rightarrow> vec2" where
  "vfract p = Vec2 (glsl_fract (vx p)) (glsl_fract (vy p))"

definition glsl_clamp :: "real \<Rightarrow> real \<Rightarrow> real \<Rightarrow> real" where
  "glsl_clamp x lo hi = min (max x lo) hi"

definition glsl_mod :: "real \<Rightarrow> real \<Rightarrow> real" where
  "glsl_mod x y = x - y * of_int \<lfloor>x / y\<rfloor>"

definition glsl_mix :: "real \<Rightarrow> real \<Rightarrow> real \<Rightarrow> real" where
  "glsl_mix x y t = x * (1 - t) + y * t"

text \<open>
  The two-argument \<open>atan(y, x)\<close>. GLSL leaves the result undefined when both arguments
  are zero; the model returns 0 there.
\<close>

definition glsl_atan2 :: "real \<Rightarrow> real \<Rightarrow> real" where
  "glsl_atan2 y x =
     (if 0 < x then arctan (y / x)
      else if x < 0 then (if 0 \<le> y then arctan (y / x) + pi else arctan (y / x) - pi)
      else if 0 < y then pi / 2
      else if y < 0 then - (pi / 2)
      else 0)"

section \<open>Textures and sampling (webgl.js)\<close>

text \<open>
  A texture object holds its size, its two wrap parameters and its texels, addressed by
  column and row. \<open>createTexture\<close> sets both filters to \<open>NEAREST\<close>, and no other
  filter occurs in the repository, so only nearest-texel sampling is modelled.
\<close>

datatype wrap_mode = CLAMP_TO_EDGE | REPEAT

record texture =
  tex_w :: nat
  tex_h :: nat
  wrap_s :: wrap_mode
  wrap_t :: wrap_mode
  texels :: "nat \<Rightarrow> nat \<Rightarrow> vec4"

text \<open>
  The texel index that nearest sampling addresses along one axis of \<open>n\<close> texels for the
  normalised coordinate \<open>s\<close> (OpenGL ES 2.0, section 3.7.6 and 3.7.7):
  \<open>CLAMP_TO_EDGE\<close> clamps \<open>s\<close> to \<open>[1/(2n), 1 - 1/(2n)]\<close>, \<open>REPEAT\<close> keeps its
  fractional part; the texel is the floor of the scaled coordinate.
\<close>

definition wrap_coord :: "wrap_mode \<Rightarrow> nat \<Rightarrow> real \<Rightarrow> real" where
  "wrap_coord m n s =
     (case m of
        CLAMP_TO_EDGE \<Rightarrow> glsl_clamp s (1 / (2 * real n)) (1 - 1 / (2 * real n))
      | REPEAT \<Rightarrow> glsl_fract s)"

definition texel_index :: "wrap_mode \<Rightarrow> nat \<Rightarrow> real \<Rightarrow> nat" where
  "texel_index m n s = nat \<lfloor>wrap_coord m n s * real n\<rfloor>"

definition texel_at :: "texture \<Rightarrow> vec2 \<Rightarrow> nat \<times> nat" where
  "texel_at t uv =
     (texel_index (wrap_s t) (tex_w t) (vx uv), texel_index (wrap_t t) (tex_h t) (vy uv))"

definition texture2D :: "texture \<Rightarrow> vec2 \<Rightarrow> vec4" where
  "texture2D t uv = (case texel_at t uv of (i, j) \<Rightarrow> texels t i j)"

text \<open>Canvas dimensions (3:2 aspect).\<close>

definition SIM_W :: nat where
  "SIM_W = 768"

definition SIM_H :: nat where
  "SIM_H = 512"

text \<open>
  \<open>createTexture(width, height, data)\<close>: the texture object that the call configures.
  \<open>data\<close> is the \<open>Float32Array\<close>, four floats per texel, rows first.
\<close>

definition texImage2D :: "nat \<Rightarrow> (nat \<Rightarrow> real) \<Rightarrow> nat \<Rightarrow> nat \<Rightarrow> vec4" where
  "texImage2D width data i j =
     Vec4 (data ((j * width + i) * 4)) (data ((j * width + i) * 4 + 1))
          (data ((j * width + i) * 4 + 2)) (data ((j * width + i) * 4 + 3))"

definition new_texture :: "nat \<Rightarrow> nat \<Rightarrow> (nat \<Rightarrow> real) \<Rightarrow> texture" where
  "new_texture width height data =
     \<lparr> tex_w = width, tex_h = height, wrap_s = CLAMP_TO_EDGE, wrap_t = CLAMP_TO_EDGE,
       texels = texImage2D width data \<rparr>"

text \<open>
  The varying \<open>v_uv\<close> of the fragment at pixel \<open>(i, j)\<close> of a \<open>w \<times> h\<close> viewport covered
  by the full-screen quad: \<open>VERTEX_SHADER_SRC\<close> maps the quad's corners to
  \<open>a_position * 0.5 + 0.5\<close>, which interpolates to the pixel's centre.
\<close>

definition frag_uv :: "nat \<Rightarrow> nat \<Rightarrow> nat \<Rightarrow> nat \<Rightarrow> vec2" where
  "frag_uv w h i j = Vec2 ((real i + 1 / 2) / real w) ((real j + 1 / 2) / real h)"

section \<open>The WebGL context (webgl.js)\<close>

text \<open>
  The fragment and vertex sources of the repository. A shader is a GLSL string in the
  JavaScript; the model names each one and gives the compute kernels their meaning as
  HOL functions below. The step shaders of reaction-diffusion.js and kuramoto.js are both
  called \<open>STEP_SHADER\<close> in their modules and are told apart by a prefix here.
\<close>

datatype shader_src =
    VERTEX_SHADER_SRC
  | RD_STEP_SHADER | RD_DISPLAY_SHADER
  | OSC_STEP_SHADER | OSC_DISPLAY_SHADER
  | STEP_FS | TRAIL_FADE_FS | BOID_DRAW_VS | BOID_DRAW_FS | DISPLAY_FS

type_synonym uniforms = "string \<Rightarrow> real list"

record program =
  prog_vs :: shader_src
  prog_fs :: shader_src
  prog_uniforms :: uniforms

text \<open>
  One entry of the draw trace: the program a draw call ran, the values of its uniforms at
  the call, the texture it sampled and the framebuffer and texture it wrote.
\<close>

record draw =
  draw_program :: "nat option"
  draw_uniforms :: uniforms
  draw_source :: "nat option"
  draw_framebuffer :: "nat option"
  draw_target :: "nat option"

text \<open>
  The context. The first five fields are properties of the GPU driver: which sources
  compile, which pairs link, the info logs it reports for those that do not, and
  \<open>MAX_VERTEX_TEXTURE_IMAGE_UNITS\<close>. Object names are
  natural numbers handed out by \<open>next_name\<close>; each kind of object has its own table, and
  an object is allocated while its name is in the table. Only texture unit 0 is used by
  the repository, so there is one texture binding. \<open>console\<close> collects the messages of
  \<open>console.error\<close>, \<open>draws\<close> the draw calls, newest first.
\<close>

record glctx =
  compiles :: "shader_src \<Rightarrow> bool"
  links :: "shader_src \<Rightarrow> shader_src \<Rightarrow> bool"
  shader_info_log :: "shader_src \<Rightarrow> string"
  program_info_log :: "shader_src \<Rightarrow> shader_src \<Rightarrow> string"
  max_vertex_texture_image_units :: nat
  next_name :: nat
  gl_shaders :: "nat \<rightharpoonup> shader_src"
  gl_programs :: "nat \<rightharpoonup> program"
  gl_textures :: "nat \<rightharpoonup> texture"
  gl_framebuffers :: "nat \<rightharpoonup> nat option"
  gl_buffers :: "nat \<rightharpoonup> real list"
  current_program :: "nat option"
  texture_binding :: "nat option"
  framebuffer_binding :: "nat option"
  array_buffer_binding :: "nat option"
  viewport :: "nat \<times> nat"
  blend :: bool
  console :: "string list"
  draws :: "draw list"

text \<open>The object behind a name that may be \<open>null\<close>, in one of the context's tables.\<close>

definition deref :: "('a \<rightharpoonup> 'b) \<Rightarrow> 'a option \<Rightarrow> 'b option" where
  "deref table name = (case name of None \<Rightarrow> None | Some h \<Rightarrow> table h)"

definition console_error :: "string \<Rightarrow> glctx \<Rightarrow> glctx" where
  "console_error msg gl = gl\<lparr>console := console gl @ [msg]\<rparr>"

text \<open>A string between double quotes, as the template literals of the messages have it.\<close>

definition quoted :: "string \<Rightarrow> string" where
  "quoted s = CHR 0x22 # s @ [CHR 0x22]"

text \<open>
  \<open>compileShader(type, source, label)\<close>: a shader object is created, then compiled; on
  failure the message and the driver's info log are logged (the two arguments of
  \<open>console.error\<close>, which the console prints with a space between them) and \<open>null\<close>
  returned (the object is not deleted).
\<close>

definition compileShader :: "shader_src \<Rightarrow> string \<Rightarrow> glctx \<Rightarrow> nat option \<times> glctx" where
  "compileShader source label gl =
     (let shader = next_name gl;
          gl1 = gl\<lparr>next_name := Suc shader, gl_shaders := (gl_shaders gl)(shader \<mapsto> source)\<rparr>
      in if \<not> compiles gl source
         then (None, console_error (''Shader '' @ quoted label @ '' error: ''
                                      @ shader_info_log gl source) gl1)
         else (Some shader, gl1))"

text \<open>\<open>createProgram(vsSrc, fsSrc, label)\<close>.\<close>

definition createProgram ::
  "shader_src \<Rightarrow> shader_src \<Rightarrow> string \<Rightarrow> glctx \<Rightarrow> nat option \<times> glctx" where
  "createProgram vsSrc fsSrc label gl =
     (case compileShader vsSrc (label @ ''/vs'') gl of (vs, gl1) \<Rightarrow>
      case compileShader fsSrc (label @ ''/fs'') gl1 of (fs, gl2) \<Rightarrow>
        if vs = None \<or> fs = None then (None, gl2)
        else
          let prog = next_name gl2;
              gl3 = gl2\<lparr>next_name := Suc prog,
                        gl_programs := (gl_programs gl2)(prog \<mapsto>
                          \<lparr>prog_vs = vsSrc, prog_fs = fsSrc, prog_uniforms = (\<lambda>_. [])\<rparr>)\<rparr>
          in if \<not> links gl vsSrc fsSrc
             then (None, console_error (''Program '' @ quoted label @ '' link error: ''
                                          @ program_info_log gl vsSrc fsSrc) gl3)
             else (Some prog, gl3))"

text \<open>\<open>createTexture(width, height, data)\<close>; the new texture stays bound.\<close>

definition createTexture :: "nat \<Rightarrow> nat \<Rightarrow> (nat \<Rightarrow> real) \<Rightarrow> glctx \<Rightarrow> nat \<times> glctx" where
  "createTexture width height data gl =
     (let tex = next_name gl
      in (tex, gl\<lparr>next_name := Suc tex,
                  gl_textures := (gl_textures gl)(tex \<mapsto> new_texture width height data),
                  texture_binding := Some tex\<rparr>))"

text \<open>
  \<open>createFramebuffer(tex)\<close>: the framebuffer's colour attachment is \<open>tex\<close>. An
  incomplete framebuffer is logged and returned all the same; completeness is a property
  of the driver that the model does not track. The binding is reset to the canvas.
\<close>

definition createFramebuffer :: "nat option \<Rightarrow> glctx \<Rightarrow> nat \<times> glctx" where
  "createFramebuffer tex gl =
     (let fb = next_name gl
      in (fb, gl\<lparr>next_name := Suc fb,
                 gl_framebuffers := (gl_framebuffers gl)(fb \<mapsto> tex),
                 framebuffer_binding := None\<rparr>))"

text \<open>\<open>gl.createBuffer\<close>, \<open>gl.bindBuffer\<close> and \<open>gl.bufferData\<close> in one step.\<close>

definition createBuffer :: "real list \<Rightarrow> glctx \<Rightarrow> nat \<times> glctx" where
  "createBuffer data gl =
     (let buf = next_name gl
      in (buf, gl\<lparr>next_name := Suc buf,
                  gl_buffers := (gl_buffers gl)(buf \<mapsto> data),
                  array_buffer_binding := Some buf\<rparr>))"

definition useProgram :: "nat option \<Rightarrow> glctx \<Rightarrow> glctx" where
  "useProgram prog gl = gl\<lparr>current_program := prog\<rparr>"

definition bindTexture :: "nat option \<Rightarrow> glctx \<Rightarrow> glctx" where
  "bindTexture tex gl = gl\<lparr>texture_binding := tex\<rparr>"

definition bindFramebuffer :: "nat option \<Rightarrow> glctx \<Rightarrow> glctx" where
  "bindFramebuffer fb gl = gl\<lparr>framebuffer_binding := fb\<rparr>"

definition set_viewport :: "nat \<Rightarrow> nat \<Rightarrow> glctx \<Rightarrow> glctx" where
  "set_viewport w h gl = gl\<lparr>viewport := (w, h)\<rparr>"

text \<open>The uniforms each source declares; \<open>getUniformLocation\<close> is \<open>null\<close> for any other name.\<close>

fun uniform_names :: "shader_src \<Rightarrow> string list" where
  "uniform_names VERTEX_SHADER_SRC = []"
| "uniform_names RD_STEP_SHADER =
     [''u_state'', ''u_resolution'', ''u_f'', ''u_k'', ''u_Du'', ''u_Dv'', ''u_touch'',
      ''u_touchRadius'']"
| "uniform_names RD_DISPLAY_SHADER = [''u_state'', ''u_colourScheme'']"
| "uniform_names OSC_STEP_SHADER =
     [''u_state'', ''u_resolution'', ''u_K'', ''u_dt'', ''u_touch'', ''u_touchRadius'']"
| "uniform_names OSC_DISPLAY_SHADER = [''u_state'', ''u_colourScheme'']"
| "uniform_names STEP_FS =
     [''u_state'', ''u_separation'', ''u_alignment'', ''u_cohesion'', ''u_perception'',
      ''u_maxSpeed'', ''u_mode'', ''u_touch'', ''u_touchActive'', ''u_touchButton'']"
| "uniform_names TRAIL_FADE_FS = [''u_trail'', ''u_persistence'']"
| "uniform_names BOID_DRAW_VS = [''u_state'', ''u_stateRes'', ''u_maxSpeed'', ''u_pointSize'']"
| "uniform_names BOID_DRAW_FS = []"
| "uniform_names DISPLAY_FS = [''u_trail'', ''u_colourScheme'']"

text \<open>A missing argument of \<open>setUniform\<close> is \<open>undefined\<close> in JavaScript; the model reads 0.\<close>

definition js_arg :: "real list \<Rightarrow> nat \<Rightarrow> real" where
  "js_arg values n = (if n < length values then values ! n else 0)"

text \<open>
  \<open>setUniform(prog, name, type, ...values)\<close>. \<open>gl.uniform*\<close> writes to the program in
  use, so a location of another program has no effect.
\<close>

definition setUniform :: "nat option \<Rightarrow> string \<Rightarrow> string \<Rightarrow> real list \<Rightarrow> glctx \<Rightarrow> glctx" where
  "setUniform prog name type values gl =
     (case deref (gl_programs gl) prog of
        None \<Rightarrow> gl
      | Some p \<Rightarrow>
          if name \<notin> set (uniform_names (prog_vs p) @ uniform_names (prog_fs p)) then gl
          else if current_program gl \<noteq> prog then gl
          else
            let store = (\<lambda>v. gl\<lparr>gl_programs := (gl_programs gl)(the prog \<mapsto>
                           p\<lparr>prog_uniforms := (prog_uniforms p)(name := v)\<rparr>)\<rparr>)
            in if type = ''1f'' then store [js_arg values 0]
               else if type = ''2f'' then store [js_arg values 0, js_arg values 1]
               else if type = ''1i'' then store [js_arg values 0]
               else gl)"

definition uniform1f :: "uniforms \<Rightarrow> string \<Rightarrow> real" where
  "uniform1f U name = js_arg (U name) 0"

definition uniform2f :: "uniforms \<Rightarrow> string \<Rightarrow> vec2" where
  "uniform2f U name = Vec2 (js_arg (U name) 0) (js_arg (U name) 1)"

text \<open>
  The sampler of texture unit 0 at a draw call. Sampling with no texture bound, or a
  deleted one, yields opaque black.
\<close>

definition bound_sampler :: "glctx \<Rightarrow> vec2 \<Rightarrow> vec4" where
  "bound_sampler gl uv =
     (case deref (gl_textures gl) (texture_binding gl) of
        None \<Rightarrow> Vec4 0 0 0 1
      | Some t \<Rightarrow> texture2D t uv)"


text \<open>
  \<open>initWebGL(canvasEl)\<close>: the context of a new canvas, or \<open>null\<close> when the browser has
  no WebGL or no \<open>OES_texture_float\<close>. The first two arguments say whether the browser
  has them, the other five are the driver's properties. On success the full-screen quad
  is the one buffer allocated.
\<close>

definition initWebGL ::
  "bool \<Rightarrow> bool \<Rightarrow> (shader_src \<Rightarrow> bool) \<Rightarrow> (shader_src \<Rightarrow> shader_src \<Rightarrow> bool) \<Rightarrow>
   (shader_src \<Rightarrow> string) \<Rightarrow> (shader_src \<Rightarrow> shader_src \<Rightarrow> string) \<Rightarrow> nat
   \<Rightarrow> glctx option" where
  "initWebGL has_webgl has_float_textures c l slog plog vtu =
     (if \<not> has_webgl then None
      else if \<not> has_float_textures then None
      else Some (snd (createBuffer [- 1, - 1, 1, - 1, - 1, 1, 1, - 1, 1, 1, - 1, 1]
        \<lparr> compiles = c, links = l, shader_info_log = slog, program_info_log = plog,
          max_vertex_texture_image_units = vtu, next_name = 0,
          gl_shaders = Map.empty, gl_programs = Map.empty, gl_textures = Map.empty,
          gl_framebuffers = Map.empty, gl_buffers = Map.empty, current_program = None,
          texture_binding = None, framebuffer_binding = None, array_buffer_binding = None,
          viewport = (SIM_W, SIM_H), blend = False, console = [], draws = [] \<rparr>)))"

section \<open>The reaction-diffusion step kernel (reaction-diffusion.js, STEP_SHADER)\<close>

definition rd_main :: "uniforms \<Rightarrow> (vec2 \<Rightarrow> vec4) \<Rightarrow> vec2 \<Rightarrow> vec4" where
  "rd_main U u_state v_uv =
     (let u_resolution = uniform2f U ''u_resolution'';
          u_f = uniform1f U ''u_f'';
          u_k = uniform1f U ''u_k'';
          u_Du = uniform1f U ''u_Du'';
          u_Dv = uniform1f U ''u_Dv'';
          u_touch = uniform2f U ''u_touch'';
          u_touchRadius = uniform1f U ''u_touchRadius'';
          dx = Vec2 (1 / vx u_resolution) 0;
          dy = Vec2 0 (1 / vy u_resolution);
          here = u_state v_uv;
          u = ch_r here;
          v = ch_g here;
          u_up = ch_r (u_state (vadd v_uv dy));
          u_down = ch_r (u_state (vsub v_uv dy));
          u_left = ch_r (u_state (vsub v_uv dx));
          u_right = ch_r (u_state (vadd v_uv dx));
          lap_u = u_up + u_down + u_left + u_right - 4 * u;
          v_up = ch_g (u_state (vadd v_uv dy));
          v_down = ch_g (u_state (vsub v_uv dy));
          v_left = ch_g (u_state (vsub v_uv dx));
          v_right = ch_g (u_state (vadd v_uv dx));
          lap_v = v_up + v_down + v_left + v_right - 4 * v;
          uvv = u * v * v;
          new_u = u + u_Du * lap_u - uvv + u_f * (1 - u);
          new_v = v + u_Dv * lap_v + uvv - (u_f + u_k) * v;
          dist = vlength (vsub v_uv u_touch);
          strength = 1 - dist / u_touchRadius;
          touched = (vx u_touch \<ge> 0 \<and> dist < u_touchRadius);
          new_u' = (if touched then new_u - 0.1 * strength else new_u);
          new_v' = (if touched then new_v + 0.2 * strength else new_v)
      in Vec4 (glsl_clamp new_u' 0 1) (glsl_clamp new_v' 0 1) 0 1)"

section \<open>The coupled-oscillator step kernel (kuramoto.js, STEP_SHADER)\<close>

definition PI2 :: real where
  "PI2 = 6.28318530718"

text \<open>The last two statements of the kernel: reduction of the angle before output.\<close>

definition wrap_phase :: "real \<Rightarrow> real" where
  "wrap_phase new_theta =
     (let m = glsl_mod new_theta PI2 in if m < 0 then m + PI2 else m)"

definition osc_main :: "uniforms \<Rightarrow> (vec2 \<Rightarrow> vec4) \<Rightarrow> vec2 \<Rightarrow> vec4" where
  "osc_main U u_state v_uv =
     (let u_resolution = uniform2f U ''u_resolution'';
          u_K = uniform1f U ''u_K'';
          u_dt = uniform1f U ''u_dt'';
          u_touch = uniform2f U ''u_touch'';
          u_touchRadius = uniform1f U ''u_touchRadius'';
          dx = Vec2 (1 / vx u_resolution) 0;
          dy = Vec2 0 (1 / vy u_resolution);
          here = u_state v_uv;
          theta = ch_r here;
          omega = ch_g here;
          t_up = ch_r (u_state (vadd v_uv dy));
          t_down = ch_r (u_state (vsub v_uv dy));
          t_left = ch_r (u_state (vsub v_uv dx));
          t_right = ch_r (u_state (vadd v_uv dx));
          coupling = sin (t_up - theta) + sin (t_down - theta)
                   + sin (t_left - theta) + sin (t_right - theta);
          new_theta = theta + u_dt * (omega + u_K / 4 * coupling);
          dist = vlength (vsub v_uv u_touch);
          diff = vsub v_uv u_touch;
          angle = glsl_atan2 (vy diff) (vx diff);
          spiral = angle + dist * 30;
          strength = 1 - dist / u_touchRadius;
          new_theta' =
            (if vx u_touch \<ge> 0 \<and> dist < u_touchRadius \<and> dist > 0.001
             then glsl_mix new_theta spiral (strength * 0.8) else new_theta)
      in Vec4 (wrap_phase new_theta') omega 0 1)"

section \<open>The agent kernels (boids.js)\<close>

definition AGENT_RES :: nat where
  "AGENT_RES = 32"

definition AGENT_COUNT :: nat where
  "AGENT_COUNT = AGENT_RES * AGENT_RES"

definition ARES :: real where
  "ARES = 32"

definition PI :: real where
  "PI = 3.14159265"

text \<open>Steering: desired direction to clamped acceleration.\<close>

definition steer :: "vec2 \<Rightarrow> vec2 \<Rightarrow> real \<Rightarrow> real \<Rightarrow> vec2" where
  "steer desired vel maxSpd maxFrc =
     (let len = vlength desired
      in if len < 0.0001 then Vec2 0 0
         else
           let s = vsub (vscale (vdiv desired len) maxSpd) vel;
               sl = vlength s
           in if sl > maxFrc then vscale (vdiv s sl) maxFrc else s)"

record scan_acc =
  sepSum :: vec2
  aliSum :: vec2
  cohSum :: vec2
  sepCount :: real
  nCount :: real

text \<open>The body of the neighbour scan for one cell \<open>(gx, gy)\<close> of the agent table.\<close>

definition scan_cell ::
  "(vec2 \<Rightarrow> vec4) \<Rightarrow> vec2 \<Rightarrow> real \<Rightarrow> real \<Rightarrow> real \<times> real \<Rightarrow> scan_acc \<Rightarrow> scan_acc" where
  "scan_cell u_state pos percSq sepRSq g acc =
     (let nuv = vdiv (vadd (Vec2 (fst g) (snd g)) (Vec2 0.5 0.5)) ARES;
          other = u_state nuv;
          opos = Vec2 (ch_r other) (ch_g other);
          ovel = Vec2 (ch_b other) (ch_a other);
          diff0 = vsub pos opos;
          diff = vsub diff0 (vfloor (vadd diff0 (Vec2 0.5 0.5)));
          dSq = vdot diff diff
      in if dSq < 0.000001 \<or> dSq > percSq then acc
         else
           let d = sqrt dSq;
               acc1 = (if dSq < sepRSq
                       then acc\<lparr>sepSum := vadd (sepSum acc) (vdiv diff d),
                                sepCount := sepCount acc + 1\<rparr>
                       else acc)
           in acc1\<lparr>aliSum := vadd (aliSum acc1) ovel,
                    cohSum := vsub (cohSum acc1) diff,
                    nCount := nCount acc1 + 1\<rparr>)"

text \<open>The two nested loops visit the rows \<open>gy\<close> in order and, within a row, the columns \<open>gx\<close>.\<close>

definition scan_order :: "(real \<times> real) list" where
  "scan_order = concat (map (\<lambda>gy. map (\<lambda>gx. (real gx, real gy)) [0..<32]) [0..<32])"

definition neighbour_scan :: "(vec2 \<Rightarrow> vec4) \<Rightarrow> vec2 \<Rightarrow> real \<Rightarrow> real \<Rightarrow> scan_acc" where
  "neighbour_scan u_state pos percSq sepRSq =
     fold (scan_cell u_state pos percSq sepRSq) scan_order
       \<lparr>sepSum = Vec2 0 0, aliSum = Vec2 0 0, cohSum = Vec2 0 0, sepCount = 0, nCount = 0\<rparr>"

text \<open>The block under \<open>Integrate\<close>: the new velocity and the wrapped new position.\<close>

definition integrate :: "vec2 \<Rightarrow> vec2 \<Rightarrow> vec2 \<Rightarrow> real \<Rightarrow> vec4" where
  "integrate pos vel accel u_maxSpeed =
     (let vel1 = vadd vel accel;
          spd = vlength vel1;
          vel2 = (if spd > u_maxSpeed then vscale (vdiv vel1 spd) u_maxSpeed else vel1);
          vel3 = (if spd > 0 \<and> spd < u_maxSpeed * 0.12
                  then vscale (vscale (vdiv vel2 spd) u_maxSpeed) 0.12 else vel2);
          pos1 = vfract (vadd pos vel3)
      in Vec4 (vx pos1) (vy pos1) (vx vel3) (vy vel3))"

text \<open>The acceleration: mode weights, Reynolds forces, crowd jitter and touch.\<close>

definition boid_accel :: "uniforms \<Rightarrow> scan_acc \<Rightarrow> vec2 \<Rightarrow> vec2 \<Rightarrow> vec2" where
  "boid_accel U acc pos vel =
     (let u_separation = uniform1f U ''u_separation'';
          u_alignment = uniform1f U ''u_alignment'';
          u_cohesion = uniform1f U ''u_cohesion'';
          u_perception = uniform1f U ''u_perception'';
          u_maxSpeed = uniform1f U ''u_maxSpeed'';
          u_mode = uniform1f U ''u_mode'';
          u_touch = uniform2f U ''u_touch'';
          u_touchActive = uniform1f U ''u_touchActive'';
          u_touchButton = uniform1f U ''u_touchButton'';
          maxForce = u_maxSpeed * 0.2;
          crowd = (u_mode > 0.5 \<and> u_mode < 1.5);
          wS = (if crowd then u_separation * 1.5 else u_separation);
          wA = (if crowd then u_alignment * 0.25 else u_alignment);
          wC = (if crowd then u_cohesion * 0.25
                else if u_mode > 1.5 \<and> u_touchActive > 0.5 then u_cohesion * 2 else u_cohesion);
          accel0 = Vec2 0 0;
          accel1 = (if sepCount acc > 0
                    then vadd accel0 (vscale (steer (vdiv (sepSum acc) (sepCount acc)) vel
                                               u_maxSpeed maxForce) wS)
                    else accel0);
          accel2 = (if nCount acc > 0
                    then vadd accel1 (vscale (steer (vdiv (aliSum acc) (nCount acc)) vel
                                               u_maxSpeed maxForce) wA)
                    else accel1);
          accel3 = (if nCount acc > 0
                    then vadd accel2 (vscale (steer (vdiv (cohSum acc) (nCount acc)) vel
                                               u_maxSpeed maxForce) wC)
                    else accel2);
          h = glsl_fract (sin (vdot (vadd pos (vscale vel 137)) (Vec2 12.9898 78.233))
                          * 43758.5453);
          a = h * 2 * PI;
          accel4 = (if crowd then vadd accel3 (vscale (vscale (Vec2 (cos a) (sin a)) maxForce) 0.35)
                    else accel3);
          toT0 = vsub u_touch pos;
          toT = vsub toT0 (vfloor (vadd toT0 (Vec2 0.5 0.5)));
          tD = vlength toT;
          dir = (if u_touchButton < 0.5 then toT else vneg toT)
      in if u_touchActive > 0.5
         then
           (if u_mode > 1.5
            then (if tD < u_perception * 3 \<and> tD > 0.001
                  then vadd accel4 (vscale (steer (vneg toT) vel u_maxSpeed maxForce) 3.5)
                  else accel4)
            else (if tD < u_perception * 2.5 \<and> tD > 0.001
                  then vadd accel4 (vscale (steer dir vel u_maxSpeed maxForce) 2.5)
                  else accel4))
         else accel4)"

text \<open>\<open>STEP_FS\<close>: update one agent's position and velocity.\<close>

definition step_fs_main :: "uniforms \<Rightarrow> (vec2 \<Rightarrow> vec4) \<Rightarrow> vec2 \<Rightarrow> vec4" where
  "step_fs_main U u_state v_uv =
     (let u_perception = uniform1f U ''u_perception'';
          u_maxSpeed = uniform1f U ''u_maxSpeed'';
          self = u_state v_uv;
          pos = Vec2 (ch_r self) (ch_g self);
          vel = Vec2 (ch_b self) (ch_a self);
          percSq = u_perception * u_perception;
          sepR = u_perception * 0.45;
          sepRSq = sepR * sepR;
          acc = neighbour_scan u_state pos percSq sepRSq;
          accel = boid_accel U acc pos vel
      in integrate pos vel accel u_maxSpeed)"

text \<open>
  The velocity of \<open>STEP_FS\<close> after the statement \<open>vel += accel\<close>, before the two speed
  tests: the same bindings as in \<open>step_fs_main\<close>, up to the block under \<open>Integrate\<close>.
\<close>

definition integrated_velocity :: "uniforms \<Rightarrow> (vec2 \<Rightarrow> vec4) \<Rightarrow> vec2 \<Rightarrow> vec2" where
  "integrated_velocity U u_state v_uv =
     (let u_perception = uniform1f U ''u_perception'';
          self = u_state v_uv;
          pos = Vec2 (ch_r self) (ch_g self);
          vel = Vec2 (ch_b self) (ch_a self);
          percSq = u_perception * u_perception;
          sepR = u_perception * 0.45;
          sepRSq = sepR * sepR;
          acc = neighbour_scan u_state pos percSq sepRSq;
          accel = boid_accel U acc pos vel
      in vadd vel accel)"

definition v4scale :: "vec4 \<Rightarrow> real \<Rightarrow> vec4" where
  "v4scale c k = Vec4 (ch_r c * k) (ch_g c * k) (ch_b c * k) (ch_a c * k)"

definition v4add :: "vec4 \<Rightarrow> vec4 \<Rightarrow> vec4" where
  "v4add c d = Vec4 (ch_r c + ch_r d) (ch_g c + ch_g d) (ch_b c + ch_b d) (ch_a c + ch_a d)"

text \<open>\<open>TRAIL_FADE_FS\<close>.\<close>

definition trail_fade_main :: "uniforms \<Rightarrow> (vec2 \<Rightarrow> vec4) \<Rightarrow> vec2 \<Rightarrow> vec4" where
  "trail_fade_main U u_trail v_uv = v4scale (u_trail v_uv) (uniform1f U ''u_persistence'')"

text \<open>
  \<open>BOID_DRAW_VS\<close> for the vertex with attribute \<open>a_index\<close>: \<open>gl_Position.xy\<close>,
  \<open>gl_PointSize\<close>, \<open>v_angle\<close> and \<open>v_speed\<close>.
\<close>

record point_vertex =
  gl_Position :: vec2
  gl_PointSize :: real
  v_angle :: real
  v_speed :: real

definition boid_draw_vs :: "uniforms \<Rightarrow> (vec2 \<Rightarrow> vec4) \<Rightarrow> real \<Rightarrow> point_vertex" where
  "boid_draw_vs U u_state a_index =
     (let u_stateRes = uniform1f U ''u_stateRes'';
          u_maxSpeed = uniform1f U ''u_maxSpeed'';
          u_pointSize = uniform1f U ''u_pointSize'';
          col = glsl_mod a_index u_stateRes;
          row = of_int \<lfloor>a_index / u_stateRes\<rfloor>;
          uv = vdiv (vadd (Vec2 col row) (Vec2 0.5 0.5)) u_stateRes;
          state = u_state uv;
          pos = Vec2 (ch_r state) (ch_g state);
          vel = Vec2 (ch_b state) (ch_a state)
      in \<lparr> gl_Position = vsub (vscale pos 2) (Vec2 1 1),
           gl_PointSize = u_pointSize,
           v_angle = glsl_atan2 (vy vel) (vx vel) / (2 * PI) + 0.5,
           v_speed = glsl_clamp (vlength vel / u_maxSpeed) 0 1 \<rparr>)"

text \<open>\<open>BOID_DRAW_FS\<close> at \<open>gl_PointCoord\<close>.\<close>

definition boid_draw_fs :: "point_vertex \<Rightarrow> vec2 \<Rightarrow> vec4" where
  "boid_draw_fs pv gl_PointCoord =
     (let pc = vsub gl_PointCoord (Vec2 0.5 0.5);
          d = vlength pc * 2;
          a = exp (- d * d * 3.5)
      in Vec4 a (v_angle pv * a) (v_speed pv * a) 1)"


section \<open>Draw calls\<close>

text \<open>
  The meaning of the compute kernels. The display kernels only colour the canvas, which
  the model does not hold; a draw with one of them is recorded in the trace and writes
  nothing.
\<close>

fun frag_main :: "shader_src \<Rightarrow> (uniforms \<Rightarrow> (vec2 \<Rightarrow> vec4) \<Rightarrow> vec2 \<Rightarrow> vec4) option" where
  "frag_main RD_STEP_SHADER = Some rd_main"
| "frag_main OSC_STEP_SHADER = Some osc_main"
| "frag_main STEP_FS = Some step_fs_main"
| "frag_main TRAIL_FADE_FS = Some trail_fade_main"
| "frag_main _ = None"

text \<open>The texture that receives a draw: the colour attachment of the bound framebuffer.\<close>

definition attachment :: "glctx \<Rightarrow> nat option \<Rightarrow> nat option" where
  "attachment gl fb = (case deref (gl_framebuffers gl) fb of None \<Rightarrow> None | Some att \<Rightarrow> att)"

definition render_target :: "glctx \<Rightarrow> nat option" where
  "render_target gl = attachment gl (framebuffer_binding gl)"

text \<open>The value of a uniform of a program; a program that does not exist has none.\<close>

definition uniform_of :: "glctx \<Rightarrow> nat option \<Rightarrow> string \<Rightarrow> real list" where
  "uniform_of gl prog name =
     (case deref (gl_programs gl) prog of None \<Rightarrow> [] | Some p \<Rightarrow> prog_uniforms p name)"

text \<open>A draw call is entered into the trace with the state it finds.\<close>

definition log_draw :: "glctx \<Rightarrow> glctx" where
  "log_draw gl =
     gl\<lparr>draws := \<lparr> draw_program = current_program gl,
                    draw_uniforms = uniform_of gl (current_program gl),
                    draw_source = texture_binding gl,
                    draw_framebuffer = framebuffer_binding gl,
                    draw_target = render_target gl \<rparr> # draws gl\<rparr>"

text \<open>
  Writing fragments: \<open>frag i j\<close> is the colour of the fragment at pixel \<open>(i, j)\<close>, if
  the primitive produces one there. Pixels outside the viewport or the attachment are
  not written. With blending enabled the repository's blend function is \<open>(ONE, ONE)\<close>:
  the fragment is added to the stored value.
\<close>

definition write_pixels :: "(nat \<Rightarrow> nat \<Rightarrow> vec4 option) \<Rightarrow> glctx \<Rightarrow> glctx" where
  "write_pixels frag gl =
     (case deref (gl_textures gl) (render_target gl) of
        None \<Rightarrow> gl
      | Some t \<Rightarrow>
          gl\<lparr>gl_textures := (gl_textures gl)(the (render_target gl) \<mapsto>
            t\<lparr>texels := (\<lambda>i j.
                 if i < fst (viewport gl) \<and> j < snd (viewport gl) \<and> i < tex_w t \<and> j < tex_h t
                 then (case frag i j of
                         None \<Rightarrow> texels t i j
                       | Some c \<Rightarrow> if blend gl then v4add (texels t i j) c else c)
                 else texels t i j)\<rparr>)\<rparr>)"

text \<open>
  \<open>drawQuad(program)\<close>: two triangles that cover the viewport, one fragment per pixel.
  The quad programs of the repository all use \<open>VERTEX_SHADER_SRC\<close>.
\<close>

definition drawQuad :: "nat option \<Rightarrow> glctx \<Rightarrow> glctx" where
  "drawQuad prog gl =
     (let gl1 = useProgram prog gl
      in case deref (gl_programs gl1) prog of
           None \<Rightarrow> gl1
         | Some p \<Rightarrow>
             (case frag_main (prog_fs p) of
                None \<Rightarrow> log_draw gl1
              | Some main \<Rightarrow>
                  write_pixels
                    (\<lambda>i j. Some (main (prog_uniforms p) (bound_sampler gl1)
                                   (frag_uv (fst (viewport gl1)) (snd (viewport gl1)) i j)))
                    (log_draw gl1)))"

text \<open>
  Rasterisation of one point (OpenGL ES 2.0, section 3.3): a fragment for each pixel whose
  centre lies inside the square of side \<open>gl_PointSize\<close> around the point's window
  position, with its \<open>gl_PointCoord\<close>. A point whose centre is outside the clip volume is
  discarded.
\<close>

definition point_coord :: "nat \<times> nat \<Rightarrow> point_vertex \<Rightarrow> nat \<Rightarrow> nat \<Rightarrow> vec2 option" where
  "point_coord vp pv i j =
     (let xw = (vx (gl_Position pv) + 1) / 2 * real (fst vp);
          yw = (vy (gl_Position pv) + 1) / 2 * real (snd vp);
          ex = real i + 1 / 2 - xw;
          ey = real j + 1 / 2 - yw;
          size = gl_PointSize pv
      in if \<bar>vx (gl_Position pv)\<bar> \<le> 1 \<and> \<bar>vy (gl_Position pv)\<bar> \<le> 1
            \<and> \<bar>ex\<bar> < size / 2 \<and> \<bar>ey\<bar> < size / 2
         then Some (Vec2 (1 / 2 + ex / size) (1 / 2 - ey / size))
         else None)"

definition draw_point :: "uniforms \<Rightarrow> (vec2 \<Rightarrow> vec4) \<Rightarrow> real \<Rightarrow> glctx \<Rightarrow> glctx" where
  "draw_point U u_state a_index gl =
     (let pv = boid_draw_vs U u_state a_index
      in write_pixels
           (\<lambda>i j. case point_coord (viewport gl) pv i j of
                     None \<Rightarrow> None
                   | Some pc \<Rightarrow> Some (boid_draw_fs pv pc))
           gl)"

text \<open>
  \<open>gl.drawArrays(gl.POINTS, 0, count)\<close> with the attribute \<open>a_index\<close> read from the
  bound array buffer, for the point program of boids.js. The points are drawn in order.
\<close>

definition drawPoints :: "nat \<Rightarrow> glctx \<Rightarrow> glctx" where
  "drawPoints count gl =
     (case deref (gl_programs gl) (current_program gl) of
        None \<Rightarrow> gl
      | Some p \<Rightarrow>
          if prog_vs p = BOID_DRAW_VS \<and> prog_fs p = BOID_DRAW_FS
          then
            (let indices = (case deref (gl_buffers gl) (array_buffer_binding gl) of
                              None \<Rightarrow> []
                            | Some d \<Rightarrow> d)
             in fold (draw_point (prog_uniforms p) (bound_sampler gl))
                  (take count indices) (log_draw gl))
          else log_draw gl)"

section \<open>The generic field engine (fieldSim.js)\<close>

text \<open>
  The pointer state that the orchestrator passes to \<open>step\<close>. engine.js builds it without
  a \<open>button\<close> field; \<open>None\<close> stands for a missing one.
\<close>

record touch =
  pos :: "real \<times> real"
  active :: bool
  button :: "nat option"

text \<open>
  The declarative config, as far as the engine reads it. \<open>initState\<close> draws on
  \<open>Math.random\<close>; a config of the model fixes the draws. A uniform is its name, type and
  values.
\<close>

record 'p config =
  cfg_id :: string
  shader_step :: shader_src
  shader_display :: shader_src
  touchRadius :: "real option"
  initState :: "nat \<Rightarrow> nat \<Rightarrow> 'p \<Rightarrow> nat \<Rightarrow> real"
  getStepUniforms :: "'p \<Rightarrow> touch \<Rightarrow> (string \<times> string \<times> real list) list"

text \<open>The closure's internal state.\<close>

record field_state =
  stepProg :: "nat option"
  displayProg :: "nat option"
  textures :: "nat option list"
  framebuffers :: "nat option list"
  currentTex :: nat

definition field_init :: field_state where
  "field_init = \<lparr> stepProg = None, displayProg = None, textures = [None, None],
                  framebuffers = [None, None], currentTex = 0 \<rparr>"

text \<open>Reading a JavaScript array: an index past the end gives \<open>undefined\<close>.\<close>

definition elem :: "nat option list \<Rightarrow> nat \<Rightarrow> nat option" where
  "elem xs i = (if i < length xs then xs ! i else None)"

definition field_setup :: "'p config \<Rightarrow> 'p \<Rightarrow> glctx \<times> field_state \<Rightarrow> glctx \<times> field_state" where
  "field_setup config params s =
     (case s of (gl, st) \<Rightarrow>
      case createProgram VERTEX_SHADER_SRC (shader_step config) (cfg_id config @ ''/step'') gl
        of (sp, gl1) \<Rightarrow>
      case createProgram VERTEX_SHADER_SRC (shader_display config)
             (cfg_id config @ ''/display'') gl1
        of (dp, gl2) \<Rightarrow>
      let st1 = st\<lparr>stepProg := sp, displayProg := dp\<rparr>
      in if sp = None \<or> dp = None
         then (console_error (''Failed to compile shaders for '' @ quoted (cfg_id config)) gl2,
               st1)
         else
           let initData = initState config SIM_W SIM_H params
           in case createTexture SIM_W SIM_H initData gl2 of (t0, gl3) \<Rightarrow>
              case createTexture SIM_W SIM_H initData gl3 of (t1, gl4) \<Rightarrow>
              case createFramebuffer (Some t0) gl4 of (f0, gl5) \<Rightarrow>
              case createFramebuffer (Some t1) gl5 of (f1, gl6) \<Rightarrow>
                (gl6, st1\<lparr>textures := (textures st1)[0 := Some t0, 1 := Some t1],
                          framebuffers := (framebuffers st1)[0 := Some f0, 1 := Some f1],
                          currentTex := 0\<rparr>))"

definition deleteTexture :: "nat option \<Rightarrow> glctx \<Rightarrow> glctx" where
  "deleteTexture tex gl =
     (case tex of None \<Rightarrow> gl | Some h \<Rightarrow> gl\<lparr>gl_textures := (gl_textures gl)(h := None)\<rparr>)"

definition deleteFramebuffer :: "nat option \<Rightarrow> glctx \<Rightarrow> glctx" where
  "deleteFramebuffer fb gl =
     (case fb of None \<Rightarrow> gl | Some h \<Rightarrow> gl\<lparr>gl_framebuffers := (gl_framebuffers gl)(h := None)\<rparr>)"

definition deleteProgram :: "nat option \<Rightarrow> glctx \<Rightarrow> glctx" where
  "deleteProgram prog gl =
     (case prog of None \<Rightarrow> gl | Some h \<Rightarrow> gl\<lparr>gl_programs := (gl_programs gl)(h := None)\<rparr>)"

definition deleteBuffer :: "nat option \<Rightarrow> glctx \<Rightarrow> glctx" where
  "deleteBuffer buf gl =
     (case buf of None \<Rightarrow> gl | Some h \<Rightarrow> gl\<lparr>gl_buffers := (gl_buffers gl)(h := None)\<rparr>)"

definition field_teardown :: "glctx \<times> field_state \<Rightarrow> glctx \<times> field_state" where
  "field_teardown s =
     (case s of (gl, st) \<Rightarrow>
        (deleteProgram (displayProg st)
          (deleteProgram (stepProg st)
            (deleteFramebuffer (elem (framebuffers st) 1)
              (deleteFramebuffer (elem (framebuffers st) 0)
                (deleteTexture (elem (textures st) 1)
                  (deleteTexture (elem (textures st) 0) gl))))),
         field_init))"

text \<open>
  \<open>step(params, touch)\<close>: advance the simulation by one tick. \<open>field_bind\<close> is the body
  up to the draw call: the uniforms, the current buffer as source, the other buffer's
  framebuffer as target.
\<close>

definition field_bind :: "'p config \<Rightarrow> 'p \<Rightarrow> touch \<Rightarrow> field_state \<Rightarrow> glctx \<Rightarrow> glctx" where
  "field_bind config params touch st gl =
     (let gl1 = useProgram (stepProg st) gl;
          gl2 = setUniform (stepProg st) ''u_resolution'' ''2f'' [real SIM_W, real SIM_H] gl1;
          radius = (case touchRadius config of
                      None \<Rightarrow> 0.03
                    | Some r \<Rightarrow> if r = 0 then 0.03 else r);
          gl3 = setUniform (stepProg st) ''u_touchRadius'' ''1f'' [radius] gl2;
          gl4 = (if active touch
                 then setUniform (stepProg st) ''u_touch'' ''2f''
                        [fst (pos touch), snd (pos touch)] gl3
                 else setUniform (stepProg st) ''u_touch'' ''2f'' [- 1, - 1] gl3);
          gl5 = fold (\<lambda>u. setUniform (stepProg st) (fst u) (fst (snd u)) (snd (snd u)))
                  (getStepUniforms config params touch) gl4;
          gl6 = bindTexture (elem (textures st) (currentTex st)) gl5;
          gl7 = setUniform (stepProg st) ''u_state'' ''1i'' [0] gl6;
          target = 1 - currentTex st;
          gl8 = bindFramebuffer (elem (framebuffers st) target) gl7
      in set_viewport SIM_W SIM_H gl8)"

definition field_step ::
  "'p config \<Rightarrow> 'p \<Rightarrow> touch \<Rightarrow> glctx \<times> field_state \<Rightarrow> glctx \<times> field_state" where
  "field_step config params touch s =
     (case s of (gl, st) \<Rightarrow>
      if stepProg st = None then (gl, st)
      else (drawQuad (stepProg st) (field_bind config params touch st gl),
            st\<lparr>currentTex := 1 - currentTex st\<rparr>))"

text \<open>A run: one \<open>step\<close> per element of the list of inputs, in order.\<close>

definition field_run ::
  "'p config \<Rightarrow> ('p \<times> touch) list \<Rightarrow> glctx \<times> field_state \<Rightarrow> glctx \<times> field_state" where
  "field_run config ins s = fold (\<lambda>x. field_step config (fst x) (snd x)) ins s"

subsection \<open>The two field simulations\<close>

record rd_params =
  p_f :: real
  p_k :: real

definition rd_config :: "(nat \<Rightarrow> nat \<Rightarrow> rd_params \<Rightarrow> nat \<Rightarrow> real) \<Rightarrow> rd_params config" where
  "rd_config init =
     \<lparr> cfg_id = ''rd'', shader_step = RD_STEP_SHADER, shader_display = RD_DISPLAY_SHADER,
       touchRadius = Some 0.03, initState = init,
       getStepUniforms = (\<lambda>params _.
         [(''u_f'', ''1f'', [p_f params]), (''u_k'', ''1f'', [p_k params]),
          (''u_Du'', ''1f'', [0.16]), (''u_Dv'', ''1f'', [0.08])]) \<rparr>"

record osc_params =
  p_K :: real
  p_spread :: real
  p_omega :: real

definition osc_config :: "(nat \<Rightarrow> nat \<Rightarrow> osc_params \<Rightarrow> nat \<Rightarrow> real) \<Rightarrow> osc_params config" where
  "osc_config init =
     \<lparr> cfg_id = ''osc'', shader_step = OSC_STEP_SHADER, shader_display = OSC_DISPLAY_SHADER,
       touchRadius = Some 0.06, initState = init,
       getStepUniforms = (\<lambda>params _.
         [(''u_K'', ''1f'', [p_K params]), (''u_dt'', ''1f'', [0.12])]) \<rparr>"


section \<open>The agent engine (boids.js)\<close>

record boids_params =
  mode :: string
  separation :: real
  alignment :: real
  cohesion :: real
  perception :: real
  maxSpeed :: real
  trailPersistence :: real

text \<open>The module's internal state; the two program slots that share a name with the
  field engine's carry a suffix.\<close>

record boids_state =
  stepProg_b :: "nat option"
  trailFadeProg :: "nat option"
  boidDrawProg :: "nat option"
  displayProg_b :: "nat option"
  stateTex :: "nat option list"
  stateFB :: "nat option list"
  trailTex :: "nat option list"
  trailFB :: "nat option list"
  indexBuf :: "nat option"
  curState :: nat
  curTrail :: nat

definition boids_init :: boids_state where
  "boids_init =
     \<lparr> stepProg_b = None, trailFadeProg = None, boidDrawProg = None, displayProg_b = None,
       stateTex = [None, None], stateFB = [None, None], trailTex = [None, None],
       trailFB = [None, None], indexBuf = None, curState = 0, curTrail = 0 \<rparr>"

text \<open>
  The initial agent table: random positions and small random velocities. \<open>random\<close> is
  the sequence of results of \<open>Math.random()\<close>, four per agent in the order of the calls
  (angle, speed, x, y).
\<close>

definition stateData :: "(nat \<Rightarrow> real) \<Rightarrow> nat \<Rightarrow> real" where
  "stateData random n =
     (let i = n div 4;
          angle = random (4 * i) * pi * 2;
          speed = 0.001 + random (4 * i + 1) * 0.002
      in if n mod 4 = 0 then random (4 * i + 2)
         else if n mod 4 = 1 then random (4 * i + 3)
         else if n mod 4 = 2 then cos angle * speed
         else sin angle * speed)"

definition boids_setup ::
  "(nat \<Rightarrow> real) \<Rightarrow> boids_params \<Rightarrow> glctx \<times> boids_state \<Rightarrow> glctx \<times> boids_state" where
  "boids_setup random params s =
     (case s of (gl, st) \<Rightarrow>
      if max_vertex_texture_image_units gl < 1
      then (console_error ''Boids: vertex texture fetch not supported'' gl, st)
      else
        case createProgram VERTEX_SHADER_SRC STEP_FS ''boids/step'' gl of (sp, gl1) \<Rightarrow>
        case createProgram VERTEX_SHADER_SRC TRAIL_FADE_FS ''boids/trailFade'' gl1 of (tp, gl2) \<Rightarrow>
        case createProgram BOID_DRAW_VS BOID_DRAW_FS ''boids/boidDraw'' gl2 of (bp, gl3) \<Rightarrow>
        case createProgram VERTEX_SHADER_SRC DISPLAY_FS ''boids/display'' gl3 of (dp, gl4) \<Rightarrow>
        let st1 = st\<lparr>stepProg_b := sp, trailFadeProg := tp, boidDrawProg := bp,
                     displayProg_b := dp\<rparr>
        in if sp = None \<or> tp = None \<or> bp = None \<or> dp = None
           then (console_error ''Boids: shader compilation failed'' gl4, st1)
           else
             case createTexture AGENT_RES AGENT_RES (stateData random) gl4 of (s0, gl5) \<Rightarrow>
             case createTexture AGENT_RES AGENT_RES (stateData random) gl5 of (s1, gl6) \<Rightarrow>
             case createFramebuffer (Some s0) gl6 of (sf0, gl7) \<Rightarrow>
             case createFramebuffer (Some s1) gl7 of (sf1, gl8) \<Rightarrow>
             case createTexture SIM_W SIM_H (\<lambda>_. 0) gl8 of (t0, gl9) \<Rightarrow>
             case createTexture SIM_W SIM_H (\<lambda>_. 0) gl9 of (t1, gl10) \<Rightarrow>
             case createFramebuffer (Some t0) gl10 of (tf0, gl11) \<Rightarrow>
             case createFramebuffer (Some t1) gl11 of (tf1, gl12) \<Rightarrow>
             case createBuffer (map real [0..<AGENT_COUNT]) gl12 of (ib, gl13) \<Rightarrow>
               (gl13,
                st1\<lparr>stateTex := (stateTex st1)[0 := Some s0, 1 := Some s1],
                    stateFB := (stateFB st1)[0 := Some sf0, 1 := Some sf1],
                    trailTex := (trailTex st1)[0 := Some t0, 1 := Some t1],
                    trailFB := (trailFB st1)[0 := Some tf0, 1 := Some tf1],
                    indexBuf := Some ib, curState := 0, curTrail := 0\<rparr>))"

definition boids_teardown :: "glctx \<times> boids_state \<Rightarrow> glctx \<times> boids_state" where
  "boids_teardown s =
     (case s of (gl, st) \<Rightarrow>
        (let release = (\<lambda>i g.
               deleteFramebuffer (elem (trailFB st) i)
                 (deleteTexture (elem (trailTex st) i)
                   (deleteFramebuffer (elem (stateFB st) i)
                     (deleteTexture (elem (stateTex st) i) g))))
         in deleteProgram (displayProg_b st)
              (deleteProgram (boidDrawProg st)
                (deleteProgram (trailFadeProg st)
                  (deleteProgram (stepProg_b st)
                    (deleteBuffer (indexBuf st) (release 1 (release 0 gl)))))),
         boids_init))"

definition modeMap :: "string \<Rightarrow> real" where
  "modeMap m = (if m = ''boids'' then 0 else if m = ''crowd'' then 1
                else if m = ''predator'' then 2 else 0)"

text \<open>1. Update boid state (32 x 32 quad): the pass up to its draw call, and the whole of it.\<close>

definition update_bind :: "boids_params \<Rightarrow> touch \<Rightarrow> boids_state \<Rightarrow> glctx \<Rightarrow> glctx" where
  "update_bind params touch st gl =
     (let sp = stepProg_b st;
          nextState = 1 - curState st;
          gl1 = useProgram sp gl;
          gl2 = bindTexture (elem (stateTex st) (curState st)) gl1;
          gl3 = setUniform sp ''u_state'' ''1i'' [0] gl2;
          gl4 = setUniform sp ''u_separation'' ''1f'' [separation params] gl3;
          gl5 = setUniform sp ''u_alignment'' ''1f'' [alignment params] gl4;
          gl6 = setUniform sp ''u_cohesion'' ''1f'' [cohesion params] gl5;
          gl7 = setUniform sp ''u_perception'' ''1f'' [perception params] gl6;
          gl8 = setUniform sp ''u_maxSpeed'' ''1f'' [maxSpeed params] gl7;
          gl9 = setUniform sp ''u_mode'' ''1f'' [modeMap (mode params)] gl8;
          gl10 = (if active touch
                  then setUniform sp ''u_touchButton'' ''1f''
                         [if button touch = Some 2 then 1 else 0]
                         (setUniform sp ''u_touchActive'' ''1f'' [1]
                           (setUniform sp ''u_touch'' ''2f''
                              [fst (pos touch), snd (pos touch)] gl9))
                  else setUniform sp ''u_touchButton'' ''1f'' [0]
                         (setUniform sp ''u_touchActive'' ''1f'' [0]
                           (setUniform sp ''u_touch'' ''2f'' [- 1, - 1] gl9)));
          gl11 = bindFramebuffer (elem (stateFB st) nextState) gl10
      in set_viewport AGENT_RES AGENT_RES gl11)"

definition update_pass :: "boids_params \<Rightarrow> touch \<Rightarrow> boids_state \<Rightarrow> glctx \<Rightarrow> glctx" where
  "update_pass params touch st gl = drawQuad (stepProg_b st) (update_bind params touch st gl)"

text \<open>2. Fade trail (SIM_W x SIM_H quad).\<close>

definition fade_bind :: "boids_params \<Rightarrow> boids_state \<Rightarrow> glctx \<Rightarrow> glctx" where
  "fade_bind params st gl =
     (let fp = trailFadeProg st;
          nextTrail = 1 - curTrail st;
          gl1 = useProgram fp gl;
          gl2 = bindTexture (elem (trailTex st) (curTrail st)) gl1;
          gl3 = setUniform fp ''u_trail'' ''1i'' [0] gl2;
          gl4 = setUniform fp ''u_persistence'' ''1f'' [trailPersistence params] gl3;
          gl5 = bindFramebuffer (elem (trailFB st) nextTrail) gl4
      in set_viewport SIM_W SIM_H gl5)"

definition fade_pass :: "boids_params \<Rightarrow> boids_state \<Rightarrow> glctx \<Rightarrow> glctx" where
  "fade_pass params st gl = drawQuad (trailFadeProg st) (fade_bind params st gl)"

text \<open>
  3. Draw boid points onto the faded trail (additive). \<open>st\<close> is the state after the
  update pass has flipped \<open>curState\<close>; the framebuffer of the fade pass is still bound.
  \<open>points_bind\<close> is the pass up to the draw call, \<open>points_pass\<close> the whole of it.
\<close>

definition points_bind :: "boids_params \<Rightarrow> boids_state \<Rightarrow> glctx \<Rightarrow> glctx" where
  "points_bind params st gl =
     (let bp = boidDrawProg st;
          gl1 = useProgram bp gl;
          gl2 = bindTexture (elem (stateTex st) (curState st)) gl1;
          gl3 = setUniform bp ''u_state'' ''1i'' [0] gl2;
          gl4 = setUniform bp ''u_stateRes'' ''1f'' [real AGENT_RES] gl3;
          gl5 = setUniform bp ''u_maxSpeed'' ''1f'' [maxSpeed params] gl4;
          gl6 = setUniform bp ''u_pointSize'' ''1f'' [5] gl5;
          gl7 = gl6\<lparr>blend := True\<rparr>
      in gl7\<lparr>array_buffer_binding := indexBuf st\<rparr>)"

definition points_pass :: "boids_params \<Rightarrow> boids_state \<Rightarrow> glctx \<Rightarrow> glctx" where
  "points_pass params st gl =
     (let gl9 = drawPoints AGENT_COUNT (points_bind params st gl)
      in gl9\<lparr>blend := False\<rparr>)"

definition boids_step ::
  "boids_params \<Rightarrow> touch \<Rightarrow> glctx \<times> boids_state \<Rightarrow> glctx \<times> boids_state" where
  "boids_step params touch s =
     (case s of (gl, st) \<Rightarrow>
      if stepProg_b st = None then (gl, st)
      else
        let gl1 = update_pass params touch st gl;
            st1 = st\<lparr>curState := 1 - curState st\<rparr>;
            gl2 = fade_pass params st1 gl1;
            gl3 = points_pass params st1 gl2
        in (gl3, st1\<lparr>curTrail := 1 - curTrail st1\<rparr>))"

definition boids_run ::
  "(boids_params \<times> touch) list \<Rightarrow> glctx \<times> boids_state \<Rightarrow> glctx \<times> boids_state" where
  "boids_run ins s = fold (\<lambda>x. boids_step (fst x) (snd x)) ins s"


section \<open>Observations of the engines\<close>

text \<open>What the properties below speak about: the shaders of a program, a grid buffer of
  a given size as \<open>createTexture\<close> configures it, one texel of a texture.\<close>

definition prog_shape :: "glctx \<Rightarrow> nat option \<Rightarrow> (shader_src \<times> shader_src) option" where
  "prog_shape gl prog =
     (case deref (gl_programs gl) prog of None \<Rightarrow> None | Some p \<Rightarrow> Some (prog_vs p, prog_fs p))"

definition grid_texture :: "glctx \<Rightarrow> nat option \<Rightarrow> nat \<Rightarrow> nat \<Rightarrow> bool" where
  "grid_texture gl tex w h =
     (case deref (gl_textures gl) tex of
        None \<Rightarrow> False
      | Some t \<Rightarrow> tex_w t = w \<and> tex_h t = h \<and> wrap_s t = CLAMP_TO_EDGE
                   \<and> wrap_t t = CLAMP_TO_EDGE)"

definition texel :: "glctx \<Rightarrow> nat option \<Rightarrow> nat \<Rightarrow> nat \<Rightarrow> vec4" where
  "texel gl tex i j =
     (case deref (gl_textures gl) tex of None \<Rightarrow> Vec4 0 0 0 1 | Some t \<Rightarrow> texels t i j)"

text \<open>The current buffer of a field simulation, cell by cell.\<close>

definition current_cell :: "glctx \<times> field_state \<Rightarrow> nat \<Rightarrow> nat \<Rightarrow> vec4" where
  "current_cell s i j = texel (fst s) (elem (textures (snd s)) (currentTex (snd s))) i j"

text \<open>The sampler \<open>u_state\<close> that the next step binds: the current buffer.\<close>

definition current_sampler :: "glctx \<times> field_state \<Rightarrow> vec2 \<Rightarrow> vec4" where
  "current_sampler s =
     bound_sampler (bindTexture (elem (textures (snd s)) (currentTex (snd s))) (fst s))"

text \<open>The sampler \<open>u_state\<close> that the next update pass of the agent engine binds.\<close>

definition agent_sampler :: "glctx \<times> boids_state \<Rightarrow> vec2 \<Rightarrow> vec4" where
  "agent_sampler s =
     bound_sampler (bindTexture (elem (stateTex (snd s)) (curState (snd s))) (fst s))"

text \<open>\<open>setup\<close> ran to its end: both programs are there.\<close>

definition field_setup_ok :: "glctx \<times> field_state \<Rightarrow> bool" where
  "field_setup_ok s = (stepProg (snd s) \<noteq> None \<and> displayProg (snd s) \<noteq> None)"

text \<open>
  The state of a field simulation between \<open>setup\<close> and \<open>teardown\<close>: the step program is
  linked from the config's step source, the two grid buffers are distinct textures of the
  grid's size, each framebuffer renders into the texture of its index, and blending is off.
\<close>

definition field_ok :: "'p config \<Rightarrow> glctx \<times> field_state \<Rightarrow> bool" where
  "field_ok config s =
     (case s of (gl, st) \<Rightarrow>
        prog_shape gl (stepProg st) = Some (VERTEX_SHADER_SRC, shader_step config) \<and>
        length (textures st) = 2 \<and> length (framebuffers st) = 2 \<and>
        grid_texture gl (elem (textures st) 0) SIM_W SIM_H \<and>
        grid_texture gl (elem (textures st) 1) SIM_W SIM_H \<and>
        elem (textures st) 0 \<noteq> elem (textures st) 1 \<and>
        attachment gl (elem (framebuffers st) 0) = elem (textures st) 0 \<and>
        attachment gl (elem (framebuffers st) 1) = elem (textures st) 1 \<and>
        currentTex st < 2 \<and> \<not> blend gl)"

text \<open>The agent table and the trail buffer of the agent engine, cell by cell.\<close>

definition agent_cell :: "glctx \<times> boids_state \<Rightarrow> nat \<Rightarrow> nat \<Rightarrow> vec4" where
  "agent_cell s i j = texel (fst s) (elem (stateTex (snd s)) (curState (snd s))) i j"

definition trail_cell :: "glctx \<times> boids_state \<Rightarrow> nat \<Rightarrow> nat \<Rightarrow> vec4" where
  "trail_cell s i j = texel (fst s) (elem (trailTex (snd s)) (curTrail (snd s))) i j"

definition boids_setup_ok :: "glctx \<times> boids_state \<Rightarrow> bool" where
  "boids_setup_ok s =
     (stepProg_b (snd s) \<noteq> None \<and> trailFadeProg (snd s) \<noteq> None \<and>
      boidDrawProg (snd s) \<noteq> None \<and> displayProg_b (snd s) \<noteq> None)"

text \<open>
  The state of the agent engine between \<open>setup\<close> and \<open>teardown\<close>: three programs linked
  from their sources, four distinct textures of the right sizes, each framebuffer rendering
  into the texture of its index, the index buffer filled, blending off between steps.
\<close>

definition boids_ok :: "glctx \<times> boids_state \<Rightarrow> bool" where
  "boids_ok s =
     (case s of (gl, st) \<Rightarrow>
        prog_shape gl (stepProg_b st) = Some (VERTEX_SHADER_SRC, STEP_FS) \<and>
        prog_shape gl (trailFadeProg st) = Some (VERTEX_SHADER_SRC, TRAIL_FADE_FS) \<and>
        prog_shape gl (boidDrawProg st) = Some (BOID_DRAW_VS, BOID_DRAW_FS) \<and>
        length (stateTex st) = 2 \<and> length (stateFB st) = 2 \<and>
        length (trailTex st) = 2 \<and> length (trailFB st) = 2 \<and>
        grid_texture gl (elem (stateTex st) 0) AGENT_RES AGENT_RES \<and>
        grid_texture gl (elem (stateTex st) 1) AGENT_RES AGENT_RES \<and>
        grid_texture gl (elem (trailTex st) 0) SIM_W SIM_H \<and>
        grid_texture gl (elem (trailTex st) 1) SIM_W SIM_H \<and>
        distinct [elem (stateTex st) 0, elem (stateTex st) 1,
                  elem (trailTex st) 0, elem (trailTex st) 1] \<and>
        attachment gl (elem (stateFB st) 0) = elem (stateTex st) 0 \<and>
        attachment gl (elem (stateFB st) 1) = elem (stateTex st) 1 \<and>
        attachment gl (elem (trailFB st) 0) = elem (trailTex st) 0 \<and>
        attachment gl (elem (trailFB st) 1) = elem (trailTex st) 1 \<and>
        deref (gl_buffers gl) (indexBuf st) = Some (map real [0..<AGENT_COUNT]) \<and>
        curState st < 2 \<and> curTrail st < 2 \<and> \<not> blend gl)"

text \<open>
  No agent contributes to the pixel \<open>(i, j)\<close> in the step from \<open>s\<close>: at the point draw
  call of that step, no point of the index buffer produces a fragment there.
\<close>

definition no_contribution ::
  "boids_params \<Rightarrow> touch \<Rightarrow> glctx \<times> boids_state \<Rightarrow> nat \<Rightarrow> nat \<Rightarrow> bool" where
  "no_contribution params touch s i j =
     (let st1 = (snd s)\<lparr>curState := 1 - curState (snd s)\<rparr>;
          gl8 = points_bind params st1
                  (fade_pass params st1 (update_pass params touch (snd s) (fst s)))
      in case deref (gl_programs gl8) (current_program gl8) of
           None \<Rightarrow> True
         | Some p \<Rightarrow>
             list_all (\<lambda>a. point_coord (viewport gl8)
                              (boid_draw_vs (prog_uniforms p) (bound_sampler gl8) a) i j = None)
               (take AGENT_COUNT
                  (case deref (gl_buffers gl8) (array_buffer_binding gl8) of
                     None \<Rightarrow> [] | Some d \<Rightarrow> d)))"

text \<open>No agent contributes to the pixel in any step of the run.\<close>

fun quiet_run ::
  "(boids_params \<times> touch) list \<Rightarrow> glctx \<times> boids_state \<Rightarrow> nat \<Rightarrow> nat \<Rightarrow> bool" where
  "quiet_run [] s i j = True"
| "quiet_run (x # xs) s i j =
     (no_contribution (fst x) (snd x) s i j \<and> quiet_run xs (boids_step (fst x) (snd x) s) i j)"

text \<open>The speed stored in an agent's cell: the length of its velocity channels.\<close>

definition speed :: "vec4 \<Rightarrow> real" where
  "speed c = vlength (Vec2 (ch_b c) (ch_a c))"


section \<open>Example inputs\<close>

text \<open>
  Concrete inputs for the instances below: the context of a new canvas on a driver that
  compiles and links every shader; a reaction-diffusion grid filled with \<open>u = 1\<close>,
  \<open>v = 0\<close>; an oscillator grid whose phase grows along each row, with frequency 0.6;
  default control values; a pointer that is up, and one that is down.
\<close>

definition demo_gl :: glctx where
  "demo_gl = the (initWebGL True True (\<lambda>s. True) (\<lambda>v f. True) (\<lambda>s. []) (\<lambda>v f. []) 4)"

definition rd_flat :: "nat \<Rightarrow> nat \<Rightarrow> rd_params \<Rightarrow> nat \<Rightarrow> real" where
  "rd_flat w h p n = (if n mod 4 = 0 \<or> n mod 4 = 3 then 1 else 0)"

definition osc_ramp :: "nat \<Rightarrow> nat \<Rightarrow> osc_params \<Rightarrow> nat \<Rightarrow> real" where
  "osc_ramp w h p n =
     (if n mod 4 = 0 then real ((n div 4) mod w) / real w
      else if n mod 4 = 1 then 0.6 else if n mod 4 = 3 then 1 else 0)"

definition rd_defaults :: rd_params where
  "rd_defaults = \<lparr>p_f = 0.042, p_k = 0.063\<rparr>"

definition osc_defaults :: osc_params where
  "osc_defaults = \<lparr>p_K = 1.5, p_spread = 0.4, p_omega = 0.6\<rparr>"

definition boids_defaults :: boids_params where
  "boids_defaults =
     \<lparr>mode = ''boids'', separation = 1.5, alignment = 1, cohesion = 1, perception = 0.08,
      maxSpeed = 0.004, trailPersistence = 0.96\<rparr>"

text \<open>Draws of \<open>Math.random\<close> that put every agent at the centre, heading right at speed 0.002.\<close>

definition flock_random :: "nat \<Rightarrow> real" where
  "flock_random n = (if n mod 4 = 0 then 0 else 1 / 2)"

definition touch_up :: touch where
  "touch_up = \<lparr>pos = (0.3, 0.7), active = False, button = None\<rparr>"

text \<open>The pointer down just behind the flock of \<open>flock_random\<close>.\<close>

definition touch_behind :: touch where
  "touch_behind = \<lparr>pos = (0.45, 0.5), active = True, button = None\<rparr>"

definition touch_down :: touch where
  "touch_down = \<lparr>pos = (0.5, 0.5), active = True, button = None\<rparr>"



text \<open>A kernel input for an agent at rest at the centre, no neighbour in range, no pointer.\<close>

definition rest_uniforms :: uniforms where
  "rest_uniforms = (\<lambda>_. [])(''u_maxSpeed'' := [0.004], ''u_perception'' := [0.08])"

definition flock_at_rest :: "vec2 \<Rightarrow> vec4" where
  "flock_at_rest uv = Vec4 0.5 0.5 0 0"

text \<open>
  Neighbour indices on a row or column of \<open>n\<close> cells: clamped at the edges, and wrapped
  around a torus. \<open>lattice_reads\<close> is the sampler that answers the five reads of a step
  kernel at the cell \<open>(i, j)\<close>, the cell itself and \<open>v_uv \<plusminus> dy\<close>, \<open>v_uv \<plusminus> dx\<close>, from
  the cells that the given index functions name.
\<close>

definition clamp_next :: "nat \<Rightarrow> nat \<Rightarrow> nat" where
  "clamp_next n k = min (k + 1) (n - 1)"

definition clamp_prev :: "nat \<Rightarrow> nat \<Rightarrow> nat" where
  "clamp_prev n k = k - 1"

definition torus_next :: "nat \<Rightarrow> nat \<Rightarrow> nat" where
  "torus_next n k = (k + 1) mod n"

definition torus_prev :: "nat \<Rightarrow> nat \<Rightarrow> nat" where
  "torus_prev n k = (k + n - 1) mod n"

definition lattice_reads ::
  "(nat \<Rightarrow> nat \<Rightarrow> nat) \<Rightarrow> (nat \<Rightarrow> nat \<Rightarrow> nat) \<Rightarrow> (nat \<Rightarrow> nat \<Rightarrow> vec4) \<Rightarrow> nat \<Rightarrow> nat
   \<Rightarrow> vec2 \<Rightarrow> vec4" where
  "lattice_reads nxt prv cell i j p =
     (let v_uv = frag_uv SIM_W SIM_H i j;
          dx = Vec2 (1 / real SIM_W) 0;
          dy = Vec2 0 (1 / real SIM_H)
      in if p = v_uv then cell i j
         else if p = vadd v_uv dy then cell i (nxt SIM_H j)
         else if p = vsub v_uv dy then cell i (prv SIM_H j)
         else if p = vsub v_uv dx then cell (prv SIM_W i) j
         else if p = vadd v_uv dx then cell (nxt SIM_W i) j
         else Vec4 0 0 0 0)"

text \<open>A reaction-diffusion grid whose \<open>u\<close> grows along each row, with \<open>v = 0\<close>.\<close>

definition rd_ramp :: "nat \<Rightarrow> nat \<Rightarrow> rd_params \<Rightarrow> nat \<Rightarrow> real" where
  "rd_ramp w h p n =
     (if n mod 4 = 0 then real ((n div 4) mod w) / real w
      else if n mod 4 = 3 then 1 else 0)"


text \<open>The default control values with the maximum speed raised to 0.005.\<close>

definition boids_brisk :: boids_params where
  "boids_brisk =
     \<lparr>mode = ''boids'', separation = 1.5, alignment = 1, cohesion = 1, perception = 0.08,
      maxSpeed = 0.005, trailPersistence = 0.96\<rparr>"

section \<open>An aborted step\<close>

text \<open>
  C3. A call to \<open>step\<close> that finds no step program returns at once: the context, the
  current-buffer index and every other field of the engine's state are what they were,
  in the field engine and in the agent engine.
\<close>

theorem aborted_step_unchanged:
  "(stepProg st = None \<longrightarrow> field_step config params touch (gl, st) = (gl, st)) \<and>
   (stepProg_b bst = None \<longrightarrow> boids_step bparams touch (gl, bst) = (gl, bst))"
  by (simp add: field_step_def boids_step_def)

text \<open>The theorem at two engines that were never set up, with the pointer down.\<close>

theorem aborted_step_unchanged_witness:
  "field_step (rd_config rd_flat) rd_defaults touch_down (demo_gl, field_init)
     = (demo_gl, field_init) \<and>
   boids_step boids_defaults touch_down (demo_gl, boids_init) = (demo_gl, boids_init)"
  using aborted_step_unchanged
    [of field_init "rd_config rd_flat" rd_defaults touch_down demo_gl boids_init boids_defaults]
  by (simp add: field_init_def boids_init_def)

section \<open>Frame facts of the context operations\<close>

lemma console_error_frame [simp]:
  "gl_textures (console_error m gl) = gl_textures gl"
  "gl_framebuffers (console_error m gl) = gl_framebuffers gl"
  "gl_buffers (console_error m gl) = gl_buffers gl"
  "gl_programs (console_error m gl) = gl_programs gl"
  "gl_shaders (console_error m gl) = gl_shaders gl"
  "next_name (console_error m gl) = next_name gl"
  "blend (console_error m gl) = blend gl"
  "draws (console_error m gl) = draws gl"
  "console (console_error m gl) = console gl @ [m]"
  by (simp_all add: console_error_def)

lemma compileShader_frame [simp]:
  "gl_textures (snd (compileShader src l gl)) = gl_textures gl"
  "gl_framebuffers (snd (compileShader src l gl)) = gl_framebuffers gl"
  "gl_buffers (snd (compileShader src l gl)) = gl_buffers gl"
  "gl_programs (snd (compileShader src l gl)) = gl_programs gl"
  "blend (snd (compileShader src l gl)) = blend gl"
  "compiles (snd (compileShader src l gl)) = compiles gl"
  "links (snd (compileShader src l gl)) = links gl"
  "draws (snd (compileShader src l gl)) = draws gl"
  "next_name (snd (compileShader src l gl)) = Suc (next_name gl)"
  by (simp_all add: compileShader_def Let_def console_error_def)

lemma createProgram_frame [simp]:
  "gl_textures (snd (createProgram vs fs l gl)) = gl_textures gl"
  "gl_framebuffers (snd (createProgram vs fs l gl)) = gl_framebuffers gl"
  "gl_buffers (snd (createProgram vs fs l gl)) = gl_buffers gl"
  "blend (snd (createProgram vs fs l gl)) = blend gl"
  "compiles (snd (createProgram vs fs l gl)) = compiles gl"
  "links (snd (createProgram vs fs l gl)) = links gl"
  "draws (snd (createProgram vs fs l gl)) = draws gl"
  by (simp_all add: createProgram_def Let_def split: prod.splits)
     (auto simp add: compileShader_def Let_def console_error_def split: if_splits)

lemma createProgram_Some:
  assumes "createProgram vs fs l gl = (Some h, gl')"
  shows "h = Suc (Suc (next_name gl))"
    and "gl_programs gl'
           = (gl_programs gl)(h \<mapsto> \<lparr>prog_vs = vs, prog_fs = fs, prog_uniforms = (\<lambda>_. [])\<rparr>)"
    and "next_name gl' = Suc h"
  using assms
  by (auto simp add: createProgram_def compileShader_def Let_def console_error_def
           split: prod.splits if_splits)

lemma setUniform_frame [simp]:
  "gl_textures (setUniform p n t v gl) = gl_textures gl"
  "gl_framebuffers (setUniform p n t v gl) = gl_framebuffers gl"
  "gl_buffers (setUniform p n t v gl) = gl_buffers gl"
  "gl_shaders (setUniform p n t v gl) = gl_shaders gl"
  "texture_binding (setUniform p n t v gl) = texture_binding gl"
  "framebuffer_binding (setUniform p n t v gl) = framebuffer_binding gl"
  "array_buffer_binding (setUniform p n t v gl) = array_buffer_binding gl"
  "current_program (setUniform p n t v gl) = current_program gl"
  "viewport (setUniform p n t v gl) = viewport gl"
  "blend (setUniform p n t v gl) = blend gl"
  "console (setUniform p n t v gl) = console gl"
  "draws (setUniform p n t v gl) = draws gl"
  "next_name (setUniform p n t v gl) = next_name gl"
  by (simp_all add: setUniform_def Let_def split: option.splits)

lemma setUniform_shape [simp]: "prog_shape (setUniform p n t v gl) q = prog_shape gl q"
  by (cases q; cases p)
     (auto simp add: prog_shape_def setUniform_def deref_def Let_def split: option.splits)

lemma fold_setUniform_frame [simp]:
  "gl_textures (fold (\<lambda>u. setUniform p (fst u) (fst (snd u)) (snd (snd u))) us gl) = gl_textures gl"
  "gl_framebuffers (fold (\<lambda>u. setUniform p (fst u) (fst (snd u)) (snd (snd u))) us gl) = gl_framebuffers gl"
  "gl_buffers (fold (\<lambda>u. setUniform p (fst u) (fst (snd u)) (snd (snd u))) us gl) = gl_buffers gl"
  "texture_binding (fold (\<lambda>u. setUniform p (fst u) (fst (snd u)) (snd (snd u))) us gl) = texture_binding gl"
  "framebuffer_binding (fold (\<lambda>u. setUniform p (fst u) (fst (snd u)) (snd (snd u))) us gl) = framebuffer_binding gl"
  "current_program (fold (\<lambda>u. setUniform p (fst u) (fst (snd u)) (snd (snd u))) us gl) = current_program gl"
  "viewport (fold (\<lambda>u. setUniform p (fst u) (fst (snd u)) (snd (snd u))) us gl) = viewport gl"
  "blend (fold (\<lambda>u. setUniform p (fst u) (fst (snd u)) (snd (snd u))) us gl) = blend gl"
  "draws (fold (\<lambda>u. setUniform p (fst u) (fst (snd u)) (snd (snd u))) us gl) = draws gl"
  "prog_shape (fold (\<lambda>u. setUniform p (fst u) (fst (snd u)) (snd (snd u))) us gl) q = prog_shape gl q"
  by (induction us arbitrary: gl; simp)+

lemma binders_frame [simp]:
  "gl_textures (useProgram p gl) = gl_textures gl"
  "gl_programs (useProgram p gl) = gl_programs gl"
  "gl_framebuffers (useProgram p gl) = gl_framebuffers gl"
  "gl_buffers (useProgram p gl) = gl_buffers gl"
  "texture_binding (useProgram p gl) = texture_binding gl"
  "framebuffer_binding (useProgram p gl) = framebuffer_binding gl"
  "array_buffer_binding (useProgram p gl) = array_buffer_binding gl"
  "current_program (useProgram p gl) = p"
  "viewport (useProgram p gl) = viewport gl"
  "blend (useProgram p gl) = blend gl"
  "draws (useProgram p gl) = draws gl"
  "gl_textures (bindTexture b gl) = gl_textures gl"
  "gl_programs (bindTexture b gl) = gl_programs gl"
  "gl_framebuffers (bindTexture b gl) = gl_framebuffers gl"
  "gl_buffers (bindTexture b gl) = gl_buffers gl"
  "texture_binding (bindTexture b gl) = b"
  "framebuffer_binding (bindTexture b gl) = framebuffer_binding gl"
  "array_buffer_binding (bindTexture b gl) = array_buffer_binding gl"
  "current_program (bindTexture b gl) = current_program gl"
  "viewport (bindTexture b gl) = viewport gl"
  "blend (bindTexture b gl) = blend gl"
  "draws (bindTexture b gl) = draws gl"
  "gl_textures (bindFramebuffer b gl) = gl_textures gl"
  "gl_programs (bindFramebuffer b gl) = gl_programs gl"
  "gl_framebuffers (bindFramebuffer b gl) = gl_framebuffers gl"
  "gl_buffers (bindFramebuffer b gl) = gl_buffers gl"
  "texture_binding (bindFramebuffer b gl) = texture_binding gl"
  "framebuffer_binding (bindFramebuffer b gl) = b"
  "array_buffer_binding (bindFramebuffer b gl) = array_buffer_binding gl"
  "current_program (bindFramebuffer b gl) = current_program gl"
  "viewport (bindFramebuffer b gl) = viewport gl"
  "blend (bindFramebuffer b gl) = blend gl"
  "draws (bindFramebuffer b gl) = draws gl"
  "gl_textures (set_viewport vw vh gl) = gl_textures gl"
  "gl_programs (set_viewport vw vh gl) = gl_programs gl"
  "gl_framebuffers (set_viewport vw vh gl) = gl_framebuffers gl"
  "gl_buffers (set_viewport vw vh gl) = gl_buffers gl"
  "texture_binding (set_viewport vw vh gl) = texture_binding gl"
  "framebuffer_binding (set_viewport vw vh gl) = framebuffer_binding gl"
  "array_buffer_binding (set_viewport vw vh gl) = array_buffer_binding gl"
  "current_program (set_viewport vw vh gl) = current_program gl"
  "viewport (set_viewport vw vh gl) = (vw, vh)"
  "blend (set_viewport vw vh gl) = blend gl"
  "draws (set_viewport vw vh gl) = draws gl"
  by (simp_all add: useProgram_def bindTexture_def bindFramebuffer_def set_viewport_def)

lemma log_draw_frame [simp]:
  "gl_framebuffers (log_draw gl) = gl_framebuffers gl"
  "gl_programs (log_draw gl) = gl_programs gl"
  "gl_textures (log_draw gl) = gl_textures gl"
  "gl_buffers (log_draw gl) = gl_buffers gl"
  "texture_binding (log_draw gl) = texture_binding gl"
  "framebuffer_binding (log_draw gl) = framebuffer_binding gl"
  "array_buffer_binding (log_draw gl) = array_buffer_binding gl"
  "current_program (log_draw gl) = current_program gl"
  "viewport (log_draw gl) = viewport gl"
  "blend (log_draw gl) = blend gl"
  by (simp_all add: log_draw_def)

lemma write_pixels_frame [simp]:
  "gl_framebuffers (write_pixels f gl) = gl_framebuffers gl"
  "gl_programs (write_pixels f gl) = gl_programs gl"
  "gl_buffers (write_pixels f gl) = gl_buffers gl"
  "texture_binding (write_pixels f gl) = texture_binding gl"
  "framebuffer_binding (write_pixels f gl) = framebuffer_binding gl"
  "array_buffer_binding (write_pixels f gl) = array_buffer_binding gl"
  "current_program (write_pixels f gl) = current_program gl"
  "viewport (write_pixels f gl) = viewport gl"
  "blend (write_pixels f gl) = blend gl"
  "draws (write_pixels f gl) = draws gl"
  by (simp_all add: write_pixels_def split: option.splits)

lemma write_pixels_grid [simp]:
  "grid_texture (write_pixels f gl) x w h = grid_texture gl x w h"
  by (cases x; cases "render_target gl")
     (auto simp add: grid_texture_def write_pixels_def deref_def split: option.splits)

lemma drawQuad_frame [simp]:
  "gl_framebuffers (drawQuad p gl) = gl_framebuffers gl"
  "gl_programs (drawQuad p gl) = gl_programs gl"
  "gl_buffers (drawQuad p gl) = gl_buffers gl"
  "blend (drawQuad p gl) = blend gl"
  "viewport (drawQuad p gl) = viewport gl"
  "texture_binding (drawQuad p gl) = texture_binding gl"
  "framebuffer_binding (drawQuad p gl) = framebuffer_binding gl"
  "array_buffer_binding (drawQuad p gl) = array_buffer_binding gl"
  "current_program (drawQuad p gl) = p"
  by (simp_all add: drawQuad_def Let_def split: option.splits)

lemma drawQuad_grid [simp]:
  "grid_texture (drawQuad p gl) x w h = grid_texture gl x w h"
proof -
  have "grid_texture (useProgram p gl) x w h = grid_texture gl x w h"
    "grid_texture (log_draw (useProgram p gl)) x w h = grid_texture gl x w h"
    by (simp_all add: grid_texture_def)
  then show ?thesis
    by (simp add: drawQuad_def Let_def split: option.splits)
qed

lemma observers_frame [simp]:
  "prog_shape (useProgram p gl) q = prog_shape gl q"
  "grid_texture (useProgram p gl) x w h = grid_texture gl x w h"
  "attachment (useProgram p gl) fb = attachment gl fb"
  "render_target (useProgram p gl) = render_target gl"
  "bound_sampler (useProgram p gl) = bound_sampler gl"
  "texel (useProgram p gl) x i j = texel gl x i j"
  "prog_shape (bindTexture b gl) q = prog_shape gl q"
  "grid_texture (bindTexture b gl) x w h = grid_texture gl x w h"
  "attachment (bindTexture b gl) fb = attachment gl fb"
  "render_target (bindTexture b gl) = render_target gl"
  "texel (bindTexture b gl) x i j = texel gl x i j"
  "prog_shape (bindFramebuffer b gl) q = prog_shape gl q"
  "grid_texture (bindFramebuffer b gl) x w h = grid_texture gl x w h"
  "attachment (bindFramebuffer b gl) fb = attachment gl fb"
  "bound_sampler (bindFramebuffer b gl) = bound_sampler gl"
  "texel (bindFramebuffer b gl) x i j = texel gl x i j"
  "prog_shape (set_viewport vw vh gl) q = prog_shape gl q"
  "grid_texture (set_viewport vw vh gl) x w h = grid_texture gl x w h"
  "attachment (set_viewport vw vh gl) fb = attachment gl fb"
  "render_target (set_viewport vw vh gl) = render_target gl"
  "bound_sampler (set_viewport vw vh gl) = bound_sampler gl"
  "texel (set_viewport vw vh gl) x i j = texel gl x i j"
  "grid_texture (setUniform p n t v gl) x w h = grid_texture gl x w h"
  "attachment (setUniform p n t v gl) fb = attachment gl fb"
  "render_target (setUniform p n t v gl) = render_target gl"
  "bound_sampler (setUniform p n t v gl) = bound_sampler gl"
  "texel (setUniform p n t v gl) x i j = texel gl x i j"
  "grid_texture (fold (\<lambda>u. setUniform p (fst u) (fst (snd u)) (snd (snd u))) us gl) x w h = grid_texture gl x w h"
  "attachment (fold (\<lambda>u. setUniform p (fst u) (fst (snd u)) (snd (snd u))) us gl) fb = attachment gl fb"
  "render_target (fold (\<lambda>u. setUniform p (fst u) (fst (snd u)) (snd (snd u))) us gl) = render_target gl"
  "bound_sampler (fold (\<lambda>u. setUniform p (fst u) (fst (snd u)) (snd (snd u))) us gl) = bound_sampler gl"
  "texel (fold (\<lambda>u. setUniform p (fst u) (fst (snd u)) (snd (snd u))) us gl) x i j = texel gl x i j"
  "prog_shape (log_draw gl) q = prog_shape gl q"
  "grid_texture (log_draw gl) x w h = grid_texture gl x w h"
  "attachment (log_draw gl) fb = attachment gl fb"
  "render_target (log_draw gl) = render_target gl"
  "bound_sampler (log_draw gl) = bound_sampler gl"
  "texel (log_draw gl) x i j = texel gl x i j"
  "prog_shape (write_pixels f gl) q = prog_shape gl q"
  "attachment (write_pixels f gl) fb = attachment gl fb"
  "render_target (write_pixels f gl) = render_target gl"
  "prog_shape (drawQuad p gl) q = prog_shape gl q"
  "attachment (drawQuad p gl) fb = attachment gl fb"
  "render_target (drawQuad p gl) = render_target gl"
  by (simp_all add: prog_shape_def grid_texture_def attachment_def render_target_def
        bound_sampler_def texel_def fun_eq_iff)

section \<open>The field engine between setup and teardown\<close>

lemma field_bind_frame [simp]:
  "gl_textures (field_bind config params touch st gl) = gl_textures gl"
  "gl_framebuffers (field_bind config params touch st gl) = gl_framebuffers gl"
  "gl_buffers (field_bind config params touch st gl) = gl_buffers gl"
  "blend (field_bind config params touch st gl) = blend gl"
  "draws (field_bind config params touch st gl) = draws gl"
  "viewport (field_bind config params touch st gl) = (SIM_W, SIM_H)"
  "current_program (field_bind config params touch st gl) = stepProg st"
  "texture_binding (field_bind config params touch st gl) = elem (textures st) (currentTex st)"
  "framebuffer_binding (field_bind config params touch st gl)
     = elem (framebuffers st) (1 - currentTex st)"
  "prog_shape (field_bind config params touch st gl) q = prog_shape gl q"
  by (simp_all add: field_bind_def Let_def)

lemma field_bind_observers [simp]:
  "grid_texture (field_bind config params touch st gl) x w h = grid_texture gl x w h"
  "attachment (field_bind config params touch st gl) fb = attachment gl fb"
  "texel (field_bind config params touch st gl) x i j = texel gl x i j"
  "render_target (field_bind config params touch st gl)
     = attachment gl (elem (framebuffers st) (1 - currentTex st))"
  "bound_sampler (field_bind config params touch st gl) = current_sampler (gl, st)"
  by (simp_all add: grid_texture_def attachment_def texel_def render_target_def
        current_sampler_def bound_sampler_def fun_eq_iff)

lemma prog_shape_SomeD:
  "prog_shape gl p = Some x \<Longrightarrow>
     \<exists>h q. p = Some h \<and> gl_programs gl h = Some q \<and> x = (prog_vs q, prog_fs q)"
  by (cases p) (auto simp add: prog_shape_def deref_def split: option.splits)

lemma grid_texture_SomeD:
  "grid_texture gl x w h \<Longrightarrow>
     \<exists>n t. x = Some n \<and> gl_textures gl n = Some t \<and> tex_w t = w \<and> tex_h t = h
           \<and> wrap_s t = CLAMP_TO_EDGE \<and> wrap_t t = CLAMP_TO_EDGE"
  by (cases x) (auto simp add: grid_texture_def deref_def split: option.splits)

lemma field_setup_establishes:
  assumes "field_setup_ok (field_setup config params (gl0, field_init))" and "\<not> blend gl0"
  shows "field_ok config (field_setup config params (gl0, field_init))"
proof -
  obtain sp gl1 where c1:
    "createProgram VERTEX_SHADER_SRC (shader_step config) (cfg_id config @ ''/step'') gl0 = (sp, gl1)"
    by (cases "createProgram VERTEX_SHADER_SRC (shader_step config) (cfg_id config @ ''/step'') gl0")
  obtain dp gl2 where c2:
    "createProgram VERTEX_SHADER_SRC (shader_display config) (cfg_id config @ ''/display'') gl1 = (dp, gl2)"
    by (cases "createProgram VERTEX_SHADER_SRC (shader_display config) (cfg_id config @ ''/display'') gl1")
  from assms(1) c1 c2 have ok: "sp \<noteq> None" "dp \<noteq> None"
    by (auto simp add: field_setup_ok_def field_setup_def Let_def split: if_splits)
  then obtain hs hd where h: "sp = Some hs" "dp = Some hd" by auto
  from createProgram_Some[OF c1[unfolded h]]
  have p1: "gl_programs gl1 = (gl_programs gl0)(hs \<mapsto> \<lparr>prog_vs = VERTEX_SHADER_SRC,
              prog_fs = shader_step config, prog_uniforms = (\<lambda>_. [])\<rparr>)"
    and n1: "next_name gl1 = Suc hs" by auto
  from createProgram_Some[OF c2[unfolded h]]
  have p2: "gl_programs gl2 = (gl_programs gl1)(hd \<mapsto> \<lparr>prog_vs = VERTEX_SHADER_SRC,
              prog_fs = shader_display config, prog_uniforms = (\<lambda>_. [])\<rparr>)"
    and n2: "hd = Suc (Suc (next_name gl1))" by auto
  have ne: "hs \<noteq> hd" using n1 n2 by simp
  have "blend gl1 = blend gl0" using createProgram_frame(4)[of VERTEX_SHADER_SRC _ _ gl0] c1
    by (metis snd_conv)
  moreover have "blend gl2 = blend gl1" using createProgram_frame(4)[of VERTEX_SHADER_SRC _ _ gl1] c2
    by (metis snd_conv)
  ultimately have b2: "\<not> blend gl2" using assms(2) by simp
  show ?thesis
    using c1 c2 h p1 p2 ne b2
    by (simp add: field_ok_def field_setup_def Let_def field_init_def createTexture_def
          createFramebuffer_def prog_shape_def grid_texture_def attachment_def elem_def
          new_texture_def deref_def)
qed

lemma field_step_preserves:
  assumes "field_ok config s"
  shows "field_ok config (field_step config params touch s)"
proof -
  obtain gl st where s: "s = (gl, st)" by (cases s)
  from assms obtain h where h: "stepProg st = Some h"
    unfolding s field_ok_def by (auto dest: prog_shape_SomeD)
  have c: "Suc 0 - currentTex st < 2" by simp
  show ?thesis
    using assms c unfolding s
    by (simp add: field_ok_def field_step_def Let_def h del: One_nat_def)
qed

lemma field_run_preserves:
  "field_ok config s \<Longrightarrow> field_ok config (field_run config ins s)"
  unfolding field_run_def
  by (induction ins arbitrary: s) (simp_all add: field_step_preserves)

lemma drawQuad_draws:
  assumes "gl_programs gl h = Some p"
  shows "draws (drawQuad (Some h) gl) =
           \<lparr> draw_program = Some h, draw_uniforms = uniform_of gl (Some h),
             draw_source = texture_binding gl,
             draw_framebuffer = framebuffer_binding gl, draw_target = render_target gl \<rparr>
           # draws gl"
  using assms
  by (simp add: drawQuad_def Let_def log_draw_def deref_def render_target_def attachment_def
           uniform_of_def fun_eq_iff useProgram_def split: option.splits)

lemma elem_two: "length xs = 2 \<Longrightarrow> c < 2 \<Longrightarrow> elem xs c = (if c = 0 then elem xs 0 else elem xs 1)"
  by (cases "c = 0") (auto simp add: elem_def less_Suc_eq numeral_2_eq_2)

lemma field_step_draws:
  assumes "field_ok config (gl, st)"
  shows "draws (fst (field_step config params touch (gl, st))) =
           \<lparr> draw_program = stepProg st,
             draw_uniforms = uniform_of (field_bind config params touch st gl) (stepProg st),
             draw_source = elem (textures st) (currentTex st),
             draw_framebuffer = elem (framebuffers st) (1 - currentTex st),
             draw_target = elem (textures st) (1 - currentTex st) \<rparr> # draws gl"
    and "snd (field_step config params touch (gl, st)) = st\<lparr>currentTex := 1 - currentTex st\<rparr>"
    and "elem (textures st) (currentTex st) \<noteq> elem (textures st) (1 - currentTex st)"
    and "elem (textures st) (currentTex st) \<noteq> None"
    and "elem (textures st) (1 - currentTex st) \<noteq> None"
proof -
  from assms obtain h q where h: "stepProg st = Some h" "gl_programs gl h = Some q"
    unfolding field_ok_def by (auto dest: prog_shape_SomeD)
  from assms have c: "currentTex st < 2"
    and ne: "elem (textures st) 0 \<noteq> elem (textures st) 1"
    and att: "attachment gl (elem (framebuffers st) 0) = elem (textures st) 0"
             "attachment gl (elem (framebuffers st) 1) = elem (textures st) 1"
    and g: "grid_texture gl (elem (textures st) 0) SIM_W SIM_H"
           "grid_texture gl (elem (textures st) 1) SIM_W SIM_H"
    unfolding field_ok_def by auto
  have c': "currentTex st = 0 \<or> currentTex st = 1" using c by auto
  show "snd (field_step config params touch (gl, st)) = st\<lparr>currentTex := 1 - currentTex st\<rparr>"
    by (simp add: field_step_def h)
  show "elem (textures st) (currentTex st) \<noteq> elem (textures st) (1 - currentTex st)"
    using c' ne by auto
  show "elem (textures st) (currentTex st) \<noteq> None"
    using c' g by (auto dest: grid_texture_SomeD)
  show "elem (textures st) (1 - currentTex st) \<noteq> None"
    using c' g by (auto dest: grid_texture_SomeD)
  let ?gl9 = "field_bind config params touch st gl"
  have step: "fst (field_step config params touch (gl, st)) = drawQuad (Some h) ?gl9"
    by (simp add: field_step_def h)
  have "prog_shape ?gl9 (Some h) = prog_shape gl (Some h)" by simp
  then obtain q' where q': "gl_programs ?gl9 h = Some q'"
    using h(2) by (auto simp add: prog_shape_def deref_def split: option.splits)
  have "attachment gl (elem (framebuffers st) (1 - currentTex st))
          = elem (textures st) (1 - currentTex st)"
    using c' att by auto
  then have rt': "render_target ?gl9 = elem (textures st) (1 - currentTex st)" by simp
  show "draws (fst (field_step config params touch (gl, st))) =
           \<lparr> draw_program = stepProg st,
             draw_uniforms = uniform_of (field_bind config params touch st gl) (stepProg st),
             draw_source = elem (textures st) (currentTex st),
             draw_framebuffer = elem (framebuffers st) (1 - currentTex st),
             draw_target = elem (textures st) (1 - currentTex st) \<rparr> # draws gl"
    unfolding step drawQuad_draws[OF q'] rt' by (simp add: h)
qed

lemma drawQuad_texel:
  assumes "gl_programs gl h = Some p" and "frag_main (prog_fs p) = Some main"
    and "render_target gl = Some n" and "gl_textures gl n = Some t" and "\<not> blend gl"
    and "i < fst (viewport gl)" and "j < snd (viewport gl)" and "i < tex_w t" and "j < tex_h t"
  shows "texel (drawQuad (Some h) gl) (Some n) i j =
           main (prog_uniforms p) (bound_sampler gl)
             (frag_uv (fst (viewport gl)) (snd (viewport gl)) i j)"
proof -
  let ?gl1 = "log_draw (useProgram (Some h) gl)"
  have d: "drawQuad (Some h) gl =
        write_pixels (\<lambda>i j. Some (main (prog_uniforms p) (bound_sampler gl)
                        (frag_uv (fst (viewport gl)) (snd (viewport gl)) i j))) ?gl1"
    using assms(1,2) by (simp add: drawQuad_def Let_def deref_def)
  show ?thesis
    unfolding d using assms(3-9)
    by (simp add: texel_def write_pixels_def deref_def)
qed

lemma field_step_cell:
  assumes "field_ok config (gl, st)" and "frag_main (shader_step config) = Some main"
    and "i < SIM_W" and "j < SIM_H"
  shows "current_cell (field_step config params touch (gl, st)) i j
           = main (uniform_of (field_bind config params touch st gl) (stepProg st))
               (current_sampler (gl, st)) (frag_uv SIM_W SIM_H i j)"
proof -
  from assms(1) obtain h q where h: "stepProg st = Some h" "gl_programs gl h = Some q"
      "prog_fs q = shader_step config"
    unfolding field_ok_def by (auto dest!: prog_shape_SomeD)
  from assms(1) have c: "currentTex st < 2"
    and att: "attachment gl (elem (framebuffers st) 0) = elem (textures st) 0"
             "attachment gl (elem (framebuffers st) 1) = elem (textures st) 1"
    and g: "grid_texture gl (elem (textures st) 0) SIM_W SIM_H"
           "grid_texture gl (elem (textures st) 1) SIM_W SIM_H"
    and b: "\<not> blend gl"
    unfolding field_ok_def by auto
  have c': "currentTex st = 0 \<or> currentTex st = 1" using c by auto
  have tg: "grid_texture gl (elem (textures st) (1 - currentTex st)) SIM_W SIM_H"
    using c' g by auto
  then obtain n t where n: "elem (textures st) (1 - currentTex st) = Some n"
      "gl_textures gl n = Some t" "tex_w t = SIM_W" "tex_h t = SIM_H"
    by (auto dest: grid_texture_SomeD)
  have at: "attachment gl (elem (framebuffers st) (1 - currentTex st)) = Some n"
    using c' att n(1) by auto
  let ?gl9 = "field_bind config params touch st gl"
  have step: "field_step config params touch (gl, st)
                = (drawQuad (Some h) ?gl9, st\<lparr>currentTex := 1 - currentTex st\<rparr>)"
    by (simp add: field_step_def h)
  have "prog_shape ?gl9 (Some h) = prog_shape gl (Some h)" by simp
  then obtain q' where q': "gl_programs ?gl9 h = Some q'" "prog_fs q' = shader_step config"
    using h(2,3) by (auto simp add: prog_shape_def deref_def split: option.splits)
  have rt: "render_target ?gl9 = Some n" using at by simp
  have tx: "gl_textures ?gl9 n = Some t" using n(2) by simp
  have bl: "\<not> blend ?gl9" using b by simp
  have "texel (drawQuad (Some h) ?gl9) (Some n) i j =
           main (prog_uniforms q') (bound_sampler ?gl9)
             (frag_uv (fst (viewport ?gl9)) (snd (viewport ?gl9)) i j)"
    by (rule drawQuad_texel[OF q'(1) _ rt tx bl])
       (simp_all add: q'(2) assms(2,3,4) n(3,4))
  then have "current_cell (field_step config params touch (gl, st)) i j =
           main (prog_uniforms q') (current_sampler (gl, st)) (frag_uv SIM_W SIM_H i j)"
    unfolding step using n(1) by (simp add: current_cell_def)
  moreover have "uniform_of ?gl9 (stepProg st) = prog_uniforms q'"
    by (simp add: uniform_of_def deref_def h(1) q'(1) fun_eq_iff)
  ultimately show ?thesis by simp
qed

section \<open>Lattice neighbour reads\<close>

lemma glsl_clamp_cases:
  "lo \<le> hi \<Longrightarrow> hi \<le> x \<Longrightarrow> glsl_clamp x lo hi = hi"
  "lo \<le> hi \<Longrightarrow> x \<le> lo \<Longrightarrow> glsl_clamp x lo hi = lo"
  "lo \<le> x \<Longrightarrow> x \<le> hi \<Longrightarrow> glsl_clamp x lo hi = x"
  by (auto simp add: glsl_clamp_def min_def max_def)

lemma clamp_index_interior:
  assumes "k < n"
  shows "texel_index CLAMP_TO_EDGE n ((real k + 1 / 2) / real n) = k"
proof -
  have n: "0 < real n" using assms by simp
  have lo: "1 / (2 * real n) \<le> (real k + 1 / 2) / real n"
    using n by (simp add: field_simps)
  have "real k + 1 \<le> real n" using assms by linarith
  then have "(real k + 1 / 2) / real n \<le> (real n - 1 / 2) / real n"
    using n by (intro divide_right_mono) simp_all
  also have "\<dots> = 1 - 1 / (2 * real n)"
    using n by (simp add: diff_divide_distrib)
  finally have hi: "(real k + 1 / 2) / real n \<le> 1 - 1 / (2 * real n)" .
  have "wrap_coord CLAMP_TO_EDGE n ((real k + 1 / 2) / real n) * real n = real k + 1 / 2"
    using lo hi n by (simp add: wrap_coord_def glsl_clamp_def min_def max_def)
  moreover have "\<lfloor>real k + 1 / 2\<rfloor> = int k" by linarith
  ultimately show ?thesis by (simp add: texel_index_def)
qed

lemma clamp_index_above:
  assumes "0 < n" and "1 - 1 / (2 * real n) \<le> s"
  shows "texel_index CLAMP_TO_EDGE n s = n - 1"
proof -
  have n: "0 < real n" using assms by simp
  have "1 / (2 * real n) \<le> 1 - 1 / (2 * real n)"
  proof -
    have "1 \<le> real n" using assms(1) by simp
    then have "1 / real n \<le> 1" using n by (simp add: field_simps)
    then show ?thesis by (simp add: field_simps)
  qed
  then have "wrap_coord CLAMP_TO_EDGE n s = 1 - 1 / (2 * real n)"
    using assms(2) unfolding wrap_coord_def by (simp only: wrap_mode.case glsl_clamp_cases(1))
  then have "wrap_coord CLAMP_TO_EDGE n s * real n = real n - 1 / 2"
    using n by (simp add: field_simps)
  moreover have "\<lfloor>real n - 1 / 2\<rfloor> = int n - 1" by linarith
  ultimately show ?thesis using assms(1) by (simp add: texel_index_def nat_diff_distrib')
qed

lemma clamp_index_below:
  assumes "0 < n" and "s \<le> 1 / (2 * real n)"
  shows "texel_index CLAMP_TO_EDGE n s = 0"
proof -
  have n: "0 < real n" using assms by simp
  have "1 / (2 * real n) \<le> 1 - 1 / (2 * real n)"
  proof -
    have "1 \<le> real n" using assms(1) by simp
    then have "1 / real n \<le> 1" using n by (simp add: field_simps)
    then show ?thesis by (simp add: field_simps)
  qed
  then have "wrap_coord CLAMP_TO_EDGE n s = 1 / (2 * real n)"
    using assms(2) unfolding wrap_coord_def by (simp only: wrap_mode.case glsl_clamp_cases(2))
  then have "wrap_coord CLAMP_TO_EDGE n s * real n = 1 / 2"
    using n by (simp add: field_simps)
  then show ?thesis by (simp add: texel_index_def)
qed

lemma clamp_index_next:
  assumes "k < n"
  shows "texel_index CLAMP_TO_EDGE n ((real k + 1 / 2) / real n + 1 / real n) = min (k + 1) (n - 1)"
proof (cases "k + 1 < n")
  case True
  have "(real k + 1 / 2) / real n + 1 / real n = (real (k + 1) + 1 / 2) / real n"
    by (simp add: add_divide_distrib)
  then show ?thesis using clamp_index_interior[OF True] True by simp
next
  case False
  then have k: "k = n - 1" and n: "0 < n" using assms by auto
  have rn: "0 < real n" using n by simp
  have "real k = real n - 1" using k n by simp
  then have "(real k + 1 / 2) / real n + 1 / real n = (real n + 1 / 2) / real n"
    by (simp add: add_divide_distrib diff_divide_distrib)
  moreover have "1 - 1 / (2 * real n) \<le> (real n + 1 / 2) / real n"
    using rn by (simp add: field_simps)
  ultimately show ?thesis using clamp_index_above[OF n] k by simp
qed

lemma clamp_index_prev:
  assumes "k < n"
  shows "texel_index CLAMP_TO_EDGE n ((real k + 1 / 2) / real n - 1 / real n) = k - 1"
proof (cases "0 < k")
  case True
  then have "real (k - 1) = real k - 1" by simp
  then have "(real k + 1 / 2) / real n - 1 / real n = (real (k - 1) + 1 / 2) / real n"
    by (simp add: add_divide_distrib diff_divide_distrib)
  moreover have "k - 1 < n" using assms by simp
  ultimately show ?thesis using clamp_index_interior[of "k - 1" n] by simp
next
  case False
  then have k: "k = 0" by simp
  have n: "0 < n" using assms by simp
  have rn: "0 < real n" using n by simp
  have "(real k + 1 / 2) / real n - 1 / real n \<le> 1 / (2 * real n)"
    using rn k by (simp add: field_simps)
  then show ?thesis using clamp_index_below[OF n] k by simp
qed

lemma clamped_neighbours:
  assumes "wrap_s t = CLAMP_TO_EDGE" and "wrap_t t = CLAMP_TO_EDGE"
    and "i < tex_w t" and "j < tex_h t"
  shows "texture2D t (frag_uv (tex_w t) (tex_h t) i j) = texels t i j"
    and "texture2D t (vadd (frag_uv (tex_w t) (tex_h t) i j) (Vec2 0 (1 / real (tex_h t))))
           = texels t i (min (j + 1) (tex_h t - 1))"
    and "texture2D t (vsub (frag_uv (tex_w t) (tex_h t) i j) (Vec2 0 (1 / real (tex_h t))))
           = texels t i (j - 1)"
    and "texture2D t (vsub (frag_uv (tex_w t) (tex_h t) i j) (Vec2 (1 / real (tex_w t)) 0))
           = texels t (i - 1) j"
    and "texture2D t (vadd (frag_uv (tex_w t) (tex_h t) i j) (Vec2 (1 / real (tex_w t)) 0))
           = texels t (min (i + 1) (tex_w t - 1)) j"
  using assms clamp_index_interior[of i "tex_w t"] clamp_index_interior[of j "tex_h t"]
    clamp_index_next[of i "tex_w t"] clamp_index_next[of j "tex_h t"]
    clamp_index_prev[of i "tex_w t"] clamp_index_prev[of j "tex_h t"]
  by (simp_all add: texture2D_def texel_at_def frag_uv_def vadd_def vsub_def)

lemma field_setup_succeeds:
  assumes "compiles gl VERTEX_SHADER_SRC" and "compiles gl (shader_step config)"
    and "compiles gl (shader_display config)"
    and "links gl VERTEX_SHADER_SRC (shader_step config)"
    and "links gl VERTEX_SHADER_SRC (shader_display config)"
  shows "field_setup_ok (field_setup config params (gl, st))"
  using assms
  by (simp add: field_setup_ok_def field_setup_def createProgram_def compileShader_def Let_def
        createTexture_def createFramebuffer_def split: prod.splits)

lemma demo_gl_driver [simp]:
  "compiles demo_gl src" "links demo_gl vs fs" "\<not> blend demo_gl"
  "max_vertex_texture_image_units demo_gl = 4"
  by (simp_all add: demo_gl_def initWebGL_def createBuffer_def Let_def)

lemma field_reach_ok:
  assumes "field_setup_ok (field_setup config params0 (gl0, field_init))" and "\<not> blend gl0"
  shows "field_ok config (field_run config ins (field_setup config params0 (gl0, field_init)))"
  by (rule field_run_preserves) (rule field_setup_establishes[OF assms])

lemma field_ok_sampler:
  assumes "field_ok config s" and "i < SIM_W" and "j < SIM_H"
  shows "current_sampler s (frag_uv SIM_W SIM_H i j) = current_cell s i j"
    and "current_sampler s (vadd (frag_uv SIM_W SIM_H i j) (Vec2 0 (1 / real SIM_H)))
           = current_cell s i (min (j + 1) (SIM_H - 1))"
    and "current_sampler s (vsub (frag_uv SIM_W SIM_H i j) (Vec2 0 (1 / real SIM_H)))
           = current_cell s i (j - 1)"
    and "current_sampler s (vsub (frag_uv SIM_W SIM_H i j) (Vec2 (1 / real SIM_W) 0))
           = current_cell s (i - 1) j"
    and "current_sampler s (vadd (frag_uv SIM_W SIM_H i j) (Vec2 (1 / real SIM_W) 0))
           = current_cell s (min (i + 1) (SIM_W - 1)) j"
proof -
  obtain gl st where s: "s = (gl, st)" by (cases s)
  from assms(1) have c: "currentTex st = 0 \<or> currentTex st = 1"
    and g: "grid_texture gl (elem (textures st) 0) SIM_W SIM_H"
           "grid_texture gl (elem (textures st) 1) SIM_W SIM_H"
    unfolding s field_ok_def by auto
  then have "grid_texture gl (elem (textures st) (currentTex st)) SIM_W SIM_H" by auto
  then obtain n t where n: "elem (textures st) (currentTex st) = Some n"
      "gl_textures gl n = Some t" "tex_w t = SIM_W" "tex_h t = SIM_H"
      "wrap_s t = CLAMP_TO_EDGE" "wrap_t t = CLAMP_TO_EDGE"
    by (auto dest: grid_texture_SomeD)
  have smp: "current_sampler s = texture2D t"
    by (simp add: s current_sampler_def bound_sampler_def fun_eq_iff n(1,2) deref_def)
  have cell: "\<And>a b. current_cell s a b = texels t a b"
    by (simp add: s current_cell_def texel_def n(1,2) deref_def)
  from assms(2,3) have ij: "i < tex_w t" "j < tex_h t" using n(3,4) by simp_all
  note cn = clamped_neighbours[OF n(5) n(6) ij, unfolded n(3) n(4)]
  show "current_sampler s (frag_uv SIM_W SIM_H i j) = current_cell s i j"
    unfolding smp cell by (rule cn(1))
  show "current_sampler s (vadd (frag_uv SIM_W SIM_H i j) (Vec2 0 (1 / real SIM_H)))
           = current_cell s i (min (j + 1) (SIM_H - 1))"
    unfolding smp cell by (rule cn(2))
  show "current_sampler s (vsub (frag_uv SIM_W SIM_H i j) (Vec2 0 (1 / real SIM_H)))
           = current_cell s i (j - 1)"
    unfolding smp cell by (rule cn(3))
  show "current_sampler s (vsub (frag_uv SIM_W SIM_H i j) (Vec2 (1 / real SIM_W) 0))
           = current_cell s (i - 1) j"
    unfolding smp cell by (rule cn(4))
  show "current_sampler s (vadd (frag_uv SIM_W SIM_H i j) (Vec2 (1 / real SIM_W) 0))
           = current_cell s (min (i + 1) (SIM_W - 1)) j"
    unfolding smp cell by (rule cn(5))
qed

lemma osc_setup_cell:
  "current_cell (field_setup (osc_config osc_ramp) osc_defaults (demo_gl, field_init)) i j
     = texImage2D SIM_W (osc_ramp SIM_W SIM_H osc_defaults) i j"
  by (simp add: field_setup_def createProgram_def compileShader_def Let_def
        createTexture_def createFramebuffer_def current_cell_def texel_def deref_def
        field_init_def elem_def new_texture_def osc_config_def split: prod.splits)

section \<open>Concentration clamping\<close>

lemma glsl_clamp_unit: "0 \<le> glsl_clamp x 0 1 \<and> glsl_clamp x 0 1 \<le> 1"
  by (simp add: glsl_clamp_def)

lemma rd_main_range:
  "0 \<le> ch_r (rd_main U smp uv) \<and> ch_r (rd_main U smp uv) \<le> 1 \<and>
   0 \<le> ch_g (rd_main U smp uv) \<and> ch_g (rd_main U smp uv) \<le> 1"
  by (simp add: rd_main_def Let_def glsl_clamp_unit)

text \<open>
  C6. The reaction-diffusion kernel outputs both chemical channels within \<open>[0, 1]\<close> for
  every value of its uniforms, of the sampled state and of the pointer; and in a
  simulation that was set up, the cell \<open>(i, j)\<close> of the current buffer holds both channels
  within \<open>[0, 1]\<close> after every step, whatever the control values and pointer states of
  this and all earlier ticks. No condition on the initial state is needed once a step has
  run.
\<close>

theorem concentration_clamped:
  assumes "field_setup_ok (field_setup (rd_config init) params0 (gl0, field_init))"
    and "\<not> blend gl0" and "i < SIM_W" and "j < SIM_H"
    and "c = current_cell (field_step (rd_config init) params touch
                (field_run (rd_config init) ins
                   (field_setup (rd_config init) params0 (gl0, field_init)))) i j"
  shows "(0 \<le> ch_r (rd_main U u_state v_uv) \<and> ch_r (rd_main U u_state v_uv) \<le> 1 \<and>
          0 \<le> ch_g (rd_main U u_state v_uv) \<and> ch_g (rd_main U u_state v_uv) \<le> 1) \<and>
         (0 \<le> ch_r c \<and> ch_r c \<le> 1 \<and> 0 \<le> ch_g c \<and> ch_g c \<le> 1)"
proof -
  let ?s = "field_run (rd_config init) ins (field_setup (rd_config init) params0 (gl0, field_init))"
  obtain gl st where s: "?s = (gl, st)" by (cases ?s)
  have ok: "field_ok (rd_config init) (gl, st)"
    using field_reach_ok[OF assms(1,2), of ins] s by simp
  have m: "frag_main (shader_step (rd_config init)) = Some rd_main"
    by (simp add: rd_config_def)
  from field_step_cell[OF ok m assms(3,4), of params touch]
  have "c = rd_main (uniform_of (field_bind (rd_config init) params touch st gl) (stepProg st))
              (current_sampler (gl, st)) (frag_uv SIM_W SIM_H i j)"
    unfolding assms(5) s by simp
  then show ?thesis using rd_main_range by simp
qed

text \<open>The theorem at the second tick, with the feed rate at its maximum control bound.\<close>

theorem concentration_clamped_witness:
  "field_setup_ok (field_setup (rd_config rd_flat) rd_defaults (demo_gl, field_init)) \<and>
   0 \<le> ch_r (current_cell (field_step (rd_config rd_flat) \<lparr>p_f = 0.08, p_k = 0.04\<rparr> touch_down
                (field_run (rd_config rd_flat) [(rd_defaults, touch_up)]
                   (field_setup (rd_config rd_flat) rd_defaults (demo_gl, field_init)))) 5 7) \<and>
   ch_g (current_cell (field_step (rd_config rd_flat) \<lparr>p_f = 0.08, p_k = 0.04\<rparr> touch_down
                (field_run (rd_config rd_flat) [(rd_defaults, touch_up)]
                   (field_setup (rd_config rd_flat) rd_defaults (demo_gl, field_init)))) 5 7) \<le> 1"
proof -
  have ok: "field_setup_ok (field_setup (rd_config rd_flat) rd_defaults (demo_gl, field_init))"
    by (simp add: field_setup_succeeds)
  have b: "\<not> blend demo_gl" by simp
  have i: "5 < SIM_W" "7 < SIM_H" by (simp_all add: SIM_W_def SIM_H_def)
  from concentration_clamped[OF ok b i refl] ok
  show ?thesis by simp
qed

section \<open>Facts about draw calls\<close>

lemma write_pixels_texel_other:
  "x \<noteq> render_target gl \<Longrightarrow> texel (write_pixels f gl) x i j = texel gl x i j"
  by (cases x; cases "render_target gl")
     (auto simp add: texel_def write_pixels_def deref_def split: option.splits)

lemma write_pixels_texel_none:
  "f i j = None \<Longrightarrow> texel (write_pixels f gl) x i j = texel gl x i j"
  by (cases x; cases "render_target gl")
     (auto simp add: texel_def write_pixels_def deref_def split: option.splits)

lemma drawQuad_texel_other:
  "x \<noteq> render_target gl \<Longrightarrow> texel (drawQuad p gl) x i j = texel gl x i j"
  by (simp add: drawQuad_def Let_def write_pixels_texel_other split: option.splits)

lemma draw_point_frame [simp]:
  "gl_framebuffers (draw_point U smp a gl) = gl_framebuffers gl"
  "gl_programs (draw_point U smp a gl) = gl_programs gl"
  "gl_buffers (draw_point U smp a gl) = gl_buffers gl"
  "texture_binding (draw_point U smp a gl) = texture_binding gl"
  "framebuffer_binding (draw_point U smp a gl) = framebuffer_binding gl"
  "array_buffer_binding (draw_point U smp a gl) = array_buffer_binding gl"
  "current_program (draw_point U smp a gl) = current_program gl"
  "viewport (draw_point U smp a gl) = viewport gl"
  "blend (draw_point U smp a gl) = blend gl"
  "draws (draw_point U smp a gl) = draws gl"
  "grid_texture (draw_point U smp a gl) x w h = grid_texture gl x w h"
  "prog_shape (draw_point U smp a gl) q = prog_shape gl q"
  "attachment (draw_point U smp a gl) fb = attachment gl fb"
  "render_target (draw_point U smp a gl) = render_target gl"
  by (simp_all add: draw_point_def Let_def)

lemma fold_draw_point_frame [simp]:
  "gl_framebuffers (fold (draw_point U smp) as gl) = gl_framebuffers gl"
  "gl_programs (fold (draw_point U smp) as gl) = gl_programs gl"
  "gl_buffers (fold (draw_point U smp) as gl) = gl_buffers gl"
  "texture_binding (fold (draw_point U smp) as gl) = texture_binding gl"
  "framebuffer_binding (fold (draw_point U smp) as gl) = framebuffer_binding gl"
  "array_buffer_binding (fold (draw_point U smp) as gl) = array_buffer_binding gl"
  "current_program (fold (draw_point U smp) as gl) = current_program gl"
  "viewport (fold (draw_point U smp) as gl) = viewport gl"
  "blend (fold (draw_point U smp) as gl) = blend gl"
  "draws (fold (draw_point U smp) as gl) = draws gl"
  "grid_texture (fold (draw_point U smp) as gl) x w h = grid_texture gl x w h"
  "prog_shape (fold (draw_point U smp) as gl) q = prog_shape gl q"
  "attachment (fold (draw_point U smp) as gl) fb = attachment gl fb"
  "render_target (fold (draw_point U smp) as gl) = render_target gl"
  by (induction as arbitrary: gl; simp)+

lemma fold_draw_point_texel_other:
  "x \<noteq> render_target gl \<Longrightarrow> texel (fold (draw_point U smp) as gl) x i j = texel gl x i j"
  by (induction as arbitrary: gl) (simp_all add: draw_point_def Let_def write_pixels_texel_other)

lemma fold_draw_point_texel_none:
  "list_all (\<lambda>a. point_coord (viewport gl) (boid_draw_vs U smp a) i j = None) as \<Longrightarrow>
     texel (fold (draw_point U smp) as gl) x i j = texel gl x i j"
proof (induction as arbitrary: gl)
  case Nil
  then show ?case by simp
next
  case (Cons a as)
  have "texel (draw_point U smp a gl) x i j = texel gl x i j"
    using Cons.prems by (simp add: draw_point_def Let_def write_pixels_texel_none)
  moreover have "texel (fold (draw_point U smp) as (draw_point U smp a gl)) x i j
                   = texel (draw_point U smp a gl) x i j"
    using Cons.prems by (intro Cons.IH) simp
  ultimately show ?case by simp
qed

lemma drawPoints_frame [simp]:
  "gl_framebuffers (drawPoints n gl) = gl_framebuffers gl"
  "gl_programs (drawPoints n gl) = gl_programs gl"
  "gl_buffers (drawPoints n gl) = gl_buffers gl"
  "texture_binding (drawPoints n gl) = texture_binding gl"
  "framebuffer_binding (drawPoints n gl) = framebuffer_binding gl"
  "array_buffer_binding (drawPoints n gl) = array_buffer_binding gl"
  "current_program (drawPoints n gl) = current_program gl"
  "viewport (drawPoints n gl) = viewport gl"
  "blend (drawPoints n gl) = blend gl"
  "grid_texture (drawPoints n gl) x w h = grid_texture gl x w h"
  "prog_shape (drawPoints n gl) q = prog_shape gl q"
  "attachment (drawPoints n gl) fb = attachment gl fb"
  by (simp_all add: drawPoints_def Let_def split: option.splits)

lemma drawPoints_texel_other:
  "x \<noteq> render_target gl \<Longrightarrow> texel (drawPoints n gl) x i j = texel gl x i j"
  by (simp add: drawPoints_def Let_def fold_draw_point_texel_other split: option.splits)

lemma drawPoints_draws:
  assumes "deref (gl_programs gl) (current_program gl) = Some p"
  shows "draws (drawPoints n gl) =
           \<lparr> draw_program = current_program gl,
             draw_uniforms = uniform_of gl (current_program gl),
             draw_source = texture_binding gl,
             draw_framebuffer = framebuffer_binding gl, draw_target = render_target gl \<rparr>
           # draws gl"
  using assms by (simp add: drawPoints_def Let_def log_draw_def)

section \<open>The agent engine between setup and teardown\<close>

lemma createProgram_blend: "createProgram vs fs l gl = (x, gl') \<Longrightarrow> blend gl' = blend gl"
  using createProgram_frame(4)[of vs fs l gl] by simp

lemma createProgram_other:
  assumes "createProgram vs fs l gl = (x, gl')" and "h < next_name gl"
  shows "gl_programs gl' h = gl_programs gl h" and "next_name gl < next_name gl'"
  using assms
  by (auto simp add: createProgram_def compileShader_def Let_def console_error_def
           split: prod.splits if_splits)

lemma boids_setup_establishes:
  assumes "boids_setup_ok (boids_setup random params (gl0, boids_init))" and "\<not> blend gl0"
  shows "boids_ok (boids_setup random params (gl0, boids_init))"
proof -
  obtain sp gl1 where c1: "createProgram VERTEX_SHADER_SRC STEP_FS ''boids/step'' gl0 = (sp, gl1)"
    by (cases "createProgram VERTEX_SHADER_SRC STEP_FS ''boids/step'' gl0")
  obtain tp gl2 where c2:
    "createProgram VERTEX_SHADER_SRC TRAIL_FADE_FS ''boids/trailFade'' gl1 = (tp, gl2)"
    by (cases "createProgram VERTEX_SHADER_SRC TRAIL_FADE_FS ''boids/trailFade'' gl1")
  obtain bp gl3 where c3:
    "createProgram BOID_DRAW_VS BOID_DRAW_FS ''boids/boidDraw'' gl2 = (bp, gl3)"
    by (cases "createProgram BOID_DRAW_VS BOID_DRAW_FS ''boids/boidDraw'' gl2")
  obtain dp gl4 where c4:
    "createProgram VERTEX_SHADER_SRC DISPLAY_FS ''boids/display'' gl3 = (dp, gl4)"
    by (cases "createProgram VERTEX_SHADER_SRC DISPLAY_FS ''boids/display'' gl3")
  have vtu: "\<not> max_vertex_texture_image_units gl0 < 1"
  proof
    assume "max_vertex_texture_image_units gl0 < 1"
    then have "snd (boids_setup random params (gl0, boids_init)) = boids_init"
      by (simp add: boids_setup_def)
    then show False using assms(1) by (simp add: boids_setup_ok_def boids_init_def)
  qed
  from assms(1) vtu c1 c2 c3 c4 have "sp \<noteq> None" "tp \<noteq> None" "bp \<noteq> None" "dp \<noteq> None"
    by (auto simp add: boids_setup_ok_def boids_setup_def Let_def split: if_splits)
  then obtain hs ht hb hd where h: "sp = Some hs" "tp = Some ht" "bp = Some hb" "dp = Some hd"
    by auto
  note p1 = createProgram_Some[OF c1[unfolded h]]
  note p2 = createProgram_Some[OF c2[unfolded h]]
  note p3 = createProgram_Some[OF c3[unfolded h]]
  note p4 = createProgram_Some[OF c4[unfolded h]]
  have ne: "hs \<noteq> ht" "hs \<noteq> hb" "hs \<noteq> hd" "ht \<noteq> hb" "ht \<noteq> hd" "hb \<noteq> hd"
    using p1(1,3) p2(1,3) p3(1,3) p4(1,3) by simp_all
  have progs: "gl_programs gl4 hs = Some \<lparr>prog_vs = VERTEX_SHADER_SRC, prog_fs = STEP_FS, prog_uniforms = (\<lambda>_. [])\<rparr>"
    "gl_programs gl4 ht = Some \<lparr>prog_vs = VERTEX_SHADER_SRC, prog_fs = TRAIL_FADE_FS, prog_uniforms = (\<lambda>_. [])\<rparr>"
    "gl_programs gl4 hb = Some \<lparr>prog_vs = BOID_DRAW_VS, prog_fs = BOID_DRAW_FS, prog_uniforms = (\<lambda>_. [])\<rparr>"
    using p1(2) p2(2) p3(2) p4(2) ne by simp_all
  have b4: "\<not> blend gl4"
    using createProgram_blend[OF c1] createProgram_blend[OF c2] createProgram_blend[OF c3]
      createProgram_blend[OF c4] assms(2) by simp
  show ?thesis
    using vtu c1 c2 c3 c4 h progs b4
    by (simp add: boids_ok_def boids_setup_def Let_def boids_init_def createTexture_def
          createFramebuffer_def createBuffer_def prog_shape_def grid_texture_def attachment_def
          elem_def new_texture_def deref_def)
qed

lemma uniform_of_frame [simp]:
  "uniform_of (useProgram p gl) q n = uniform_of gl q n"
  "uniform_of (bindTexture b gl) q n = uniform_of gl q n"
  "uniform_of (bindFramebuffer b gl) q n = uniform_of gl q n"
  "uniform_of (set_viewport vw vh gl) q n = uniform_of gl q n"
  by (simp_all add: uniform_of_def)

lemma setUniform_other:
  "n' \<noteq> n \<Longrightarrow> uniform_of (setUniform p n t v gl) p n' = uniform_of gl p n'"
  by (cases p) (auto simp add: uniform_of_def setUniform_def deref_def Let_def split: option.splits)

lemma setUniform_same:
  assumes "prog_shape gl p = Some (vs, fs)" and "n \<in> set (uniform_names vs @ uniform_names fs)"
    and "current_program gl = p"
  shows "uniform_of (setUniform p n ''1f'' v gl) p n = [js_arg v 0]"
    and "uniform_of (setUniform p n ''2f'' v gl) p n = [js_arg v 0, js_arg v 1]"
  using assms
  by (cases p; auto simp add: uniform_of_def setUniform_def deref_def Let_def prog_shape_def
        split: option.splits)+

lemma update_bind_frame [simp]:
  "gl_textures (update_bind params touch st gl) = gl_textures gl"
  "gl_framebuffers (update_bind params touch st gl) = gl_framebuffers gl"
  "gl_buffers (update_bind params touch st gl) = gl_buffers gl"
  "blend (update_bind params touch st gl) = blend gl"
  "draws (update_bind params touch st gl) = draws gl"
  "viewport (update_bind params touch st gl) = (AGENT_RES, AGENT_RES)"
  "current_program (update_bind params touch st gl) = stepProg_b st"
  "texture_binding (update_bind params touch st gl) = elem (stateTex st) (curState st)"
  "framebuffer_binding (update_bind params touch st gl) = elem (stateFB st) (1 - curState st)"
  "prog_shape (update_bind params touch st gl) q = prog_shape gl q"
  by (simp_all add: update_bind_def Let_def)

lemma fade_bind_frame [simp]:
  "gl_textures (fade_bind params st gl) = gl_textures gl"
  "gl_framebuffers (fade_bind params st gl) = gl_framebuffers gl"
  "gl_buffers (fade_bind params st gl) = gl_buffers gl"
  "blend (fade_bind params st gl) = blend gl"
  "draws (fade_bind params st gl) = draws gl"
  "viewport (fade_bind params st gl) = (SIM_W, SIM_H)"
  "current_program (fade_bind params st gl) = trailFadeProg st"
  "texture_binding (fade_bind params st gl) = elem (trailTex st) (curTrail st)"
  "framebuffer_binding (fade_bind params st gl) = elem (trailFB st) (1 - curTrail st)"
  "prog_shape (fade_bind params st gl) q = prog_shape gl q"
  by (simp_all add: fade_bind_def Let_def)

lemma blend_update_frame [simp]:
  "gl_textures (gl\<lparr>blend := b\<rparr>) = gl_textures gl"
  "prog_shape (gl\<lparr>blend := b\<rparr>) q = prog_shape gl q"
  "grid_texture (gl\<lparr>blend := b\<rparr>) x w h = grid_texture gl x w h"
  "attachment (gl\<lparr>blend := b\<rparr>) fb = attachment gl fb"
  "texel (gl\<lparr>blend := b\<rparr>) x i j = texel gl x i j"
  "render_target (gl\<lparr>blend := b\<rparr>) = render_target gl"
  "bound_sampler (gl\<lparr>blend := b\<rparr>) = bound_sampler gl"
  "prog_shape (gl\<lparr>array_buffer_binding := a\<rparr>) q = prog_shape gl q"
  "grid_texture (gl\<lparr>array_buffer_binding := a\<rparr>) x w h = grid_texture gl x w h"
  "attachment (gl\<lparr>array_buffer_binding := a\<rparr>) fb = attachment gl fb"
  "texel (gl\<lparr>array_buffer_binding := a\<rparr>) x i j = texel gl x i j"
  "render_target (gl\<lparr>array_buffer_binding := a\<rparr>) = render_target gl"
  "bound_sampler (gl\<lparr>array_buffer_binding := a\<rparr>) = bound_sampler gl"
  by (simp_all add: prog_shape_def grid_texture_def attachment_def texel_def render_target_def
        bound_sampler_def fun_eq_iff)

lemma points_bind_frame [simp]:
  "gl_textures (points_bind params st gl) = gl_textures gl"
  "gl_framebuffers (points_bind params st gl) = gl_framebuffers gl"
  "gl_buffers (points_bind params st gl) = gl_buffers gl"
  "blend (points_bind params st gl) = True"
  "draws (points_bind params st gl) = draws gl"
  "viewport (points_bind params st gl) = viewport gl"
  "current_program (points_bind params st gl) = boidDrawProg st"
  "texture_binding (points_bind params st gl) = elem (stateTex st) (curState st)"
  "framebuffer_binding (points_bind params st gl) = framebuffer_binding gl"
  "array_buffer_binding (points_bind params st gl) = indexBuf st"
  "prog_shape (points_bind params st gl) q = prog_shape gl q"
  by (simp_all add: points_bind_def Let_def)

lemma binds_observers [simp]:
  "grid_texture (update_bind params touch st gl) x w h = grid_texture gl x w h"
  "attachment (update_bind params touch st gl) fb = attachment gl fb"
  "texel (update_bind params touch st gl) x i j = texel gl x i j"
  "render_target (update_bind params touch st gl)
     = attachment gl (elem (stateFB st) (1 - curState st))"
  "grid_texture (fade_bind params st gl) x w h = grid_texture gl x w h"
  "attachment (fade_bind params st gl) fb = attachment gl fb"
  "texel (fade_bind params st gl) x i j = texel gl x i j"
  "render_target (fade_bind params st gl) = attachment gl (elem (trailFB st) (1 - curTrail st))"
  "grid_texture (points_bind params st gl) x w h = grid_texture gl x w h"
  "attachment (points_bind params st gl) fb = attachment gl fb"
  "texel (points_bind params st gl) x i j = texel gl x i j"
  "render_target (points_bind params st gl) = render_target gl"
  by (simp_all add: grid_texture_def attachment_def texel_def render_target_def)

lemma passes_frame [simp]:
  "gl_framebuffers (update_pass params touch st gl) = gl_framebuffers gl"
  "gl_buffers (update_pass params touch st gl) = gl_buffers gl"
  "blend (update_pass params touch st gl) = blend gl"
  "prog_shape (update_pass params touch st gl) q = prog_shape gl q"
  "grid_texture (update_pass params touch st gl) x w h = grid_texture gl x w h"
  "attachment (update_pass params touch st gl) fb = attachment gl fb"
  "gl_framebuffers (fade_pass params st gl) = gl_framebuffers gl"
  "gl_buffers (fade_pass params st gl) = gl_buffers gl"
  "blend (fade_pass params st gl) = blend gl"
  "prog_shape (fade_pass params st gl) q = prog_shape gl q"
  "grid_texture (fade_pass params st gl) x w h = grid_texture gl x w h"
  "attachment (fade_pass params st gl) fb = attachment gl fb"
  "framebuffer_binding (fade_pass params st gl) = elem (trailFB st) (1 - curTrail st)"
  "viewport (fade_pass params st gl) = (SIM_W, SIM_H)"
  "gl_framebuffers (points_pass params st gl) = gl_framebuffers gl"
  "gl_buffers (points_pass params st gl) = gl_buffers gl"
  "blend (points_pass params st gl) = False"
  "prog_shape (points_pass params st gl) q = prog_shape gl q"
  "grid_texture (points_pass params st gl) x w h = grid_texture gl x w h"
  "attachment (points_pass params st gl) fb = attachment gl fb"
  by (simp_all add: update_pass_def fade_pass_def points_pass_def Let_def)

lemma boids_step_preserves:
  assumes "boids_ok s"
  shows "boids_ok (boids_step params touch s)"
proof -
  obtain gl st where s: "s = (gl, st)" by (cases s)
  from assms obtain h where h: "stepProg_b st = Some h"
    unfolding s boids_ok_def by (auto dest: prog_shape_SomeD)
  have c: "1 - curState st < 2" "1 - curTrail st < 2" by simp_all
  show ?thesis
    using assms c unfolding s
    by (simp add: boids_ok_def boids_step_def Let_def h del: One_nat_def)
qed

lemma boids_run_preserves: "boids_ok s \<Longrightarrow> boids_ok (boids_run ins s)"
  unfolding boids_run_def
  by (induction ins arbitrary: s) (simp_all add: boids_step_preserves)

lemma bind_samplers [simp]:
  "bound_sampler (update_bind params touch st gl) = agent_sampler (gl, st)"
  by (simp add: agent_sampler_def bound_sampler_def fun_eq_iff)

lemma drawQuad_texel_uniforms:
  assumes "prog_shape gl (Some h) = Some (vs, fs)" and "frag_main fs = Some main"
    and "render_target gl = Some n" and "grid_texture gl (Some n) w hh" and "\<not> blend gl"
    and "viewport gl = (w, hh)" and "i < w" and "j < hh"
  shows "texel (drawQuad (Some h) gl) (Some n) i j
           = main (uniform_of gl (Some h)) (bound_sampler gl) (frag_uv w hh i j)"
proof -
  from assms(1) obtain p where p: "gl_programs gl h = Some p" "prog_fs p = fs"
    by (auto dest: prog_shape_SomeD)
  from assms(4) obtain t where t: "gl_textures gl n = Some t" "tex_w t = w" "tex_h t = hh"
    by (auto dest: grid_texture_SomeD)
  have "texel (drawQuad (Some h) gl) (Some n) i j =
           main (prog_uniforms p) (bound_sampler gl)
             (frag_uv (fst (viewport gl)) (snd (viewport gl)) i j)"
    by (rule drawQuad_texel[OF p(1) _ assms(3) t(1) assms(5)])
       (simp_all add: p(2) assms(2,6,7,8) t(2,3))
  moreover have "prog_uniforms p = uniform_of gl (Some h)"
    by (simp add: uniform_of_def deref_def p(1) fun_eq_iff)
  ultimately show ?thesis using assms(6) by simp
qed

lemma update_bind_maxSpeed:
  assumes "prog_shape gl (stepProg_b st) = Some (VERTEX_SHADER_SRC, STEP_FS)"
  shows "uniform_of (update_bind params touch st gl) (stepProg_b st) ''u_maxSpeed''
           = [maxSpeed params]"
proof -
  let ?sp = "stepProg_b st"
  let ?g7 = "setUniform ?sp ''u_perception'' ''1f'' [perception params]
      (setUniform ?sp ''u_cohesion'' ''1f'' [cohesion params]
        (setUniform ?sp ''u_alignment'' ''1f'' [alignment params]
          (setUniform ?sp ''u_separation'' ''1f'' [separation params]
            (setUniform ?sp ''u_state'' ''1i'' [0]
              (bindTexture (elem (stateTex st) (curState st)) (useProgram ?sp gl))))))"
  have sh: "prog_shape ?g7 ?sp = Some (VERTEX_SHADER_SRC, STEP_FS)" using assms by simp
  have cp: "current_program ?g7 = ?sp" by simp
  have "uniform_of (setUniform ?sp ''u_maxSpeed'' ''1f'' [maxSpeed params] ?g7) ?sp ''u_maxSpeed''
          = [maxSpeed params]"
    using setUniform_same(1)[OF sh _ cp, of "''u_maxSpeed''" "[maxSpeed params]"]
    by (simp add: js_arg_def)
  then show ?thesis
    by (simp add: update_bind_def Let_def setUniform_other)
qed

lemma fade_bind_persistence:
  assumes "prog_shape gl (trailFadeProg st) = Some (VERTEX_SHADER_SRC, TRAIL_FADE_FS)"
  shows "uniform_of (fade_bind params st gl) (trailFadeProg st) ''u_persistence''
           = [trailPersistence params]"
proof -
  let ?fp = "trailFadeProg st"
  let ?g3 = "setUniform ?fp ''u_trail'' ''1i'' [0]
               (bindTexture (elem (trailTex st) (curTrail st)) (useProgram ?fp gl))"
  have sh: "prog_shape ?g3 ?fp = Some (VERTEX_SHADER_SRC, TRAIL_FADE_FS)" using assms by simp
  have cp: "current_program ?g3 = ?fp" by simp
  have "uniform_of (setUniform ?fp ''u_persistence'' ''1f'' [trailPersistence params] ?g3) ?fp
          ''u_persistence'' = [trailPersistence params]"
    using setUniform_same(1)[OF sh _ cp, of "''u_persistence''" "[trailPersistence params]"]
    by (simp add: js_arg_def)
  then show ?thesis
    by (simp add: fade_bind_def Let_def)
qed

lemma boids_ok_facts:
  assumes "boids_ok (gl, st)"
  shows "curState st = 0 \<or> curState st = 1" and "curTrail st = 0 \<or> curTrail st = 1"
    and "grid_texture gl (elem (stateTex st) (curState st)) AGENT_RES AGENT_RES"
    and "grid_texture gl (elem (stateTex st) (1 - curState st)) AGENT_RES AGENT_RES"
    and "grid_texture gl (elem (trailTex st) (curTrail st)) SIM_W SIM_H"
    and "grid_texture gl (elem (trailTex st) (1 - curTrail st)) SIM_W SIM_H"
    and "attachment gl (elem (stateFB st) (1 - curState st)) = elem (stateTex st) (1 - curState st)"
    and "attachment gl (elem (trailFB st) (1 - curTrail st)) = elem (trailTex st) (1 - curTrail st)"
    and "elem (stateTex st) (curState st) \<noteq> elem (stateTex st) (1 - curState st)"
    and "elem (trailTex st) (curTrail st) \<noteq> elem (trailTex st) (1 - curTrail st)"
    and "elem (stateTex st) a \<noteq> elem (trailTex st) (1 - curTrail st) \<or> 2 \<le> a"
    and "elem (trailTex st) b \<noteq> elem (stateTex st) (1 - curState st) \<or> 2 \<le> b"
    and "\<not> blend gl"
proof -
  from assms have c: "curState st < 2" "curTrail st < 2" unfolding boids_ok_def by auto
  show cs: "curState st = 0 \<or> curState st = 1" using c by auto
  show ct: "curTrail st = 0 \<or> curTrail st = 1" using c by auto
  have a: "a = 0 \<or> a = 1 \<or> 2 \<le> a" by auto
  have b: "b = 0 \<or> b = 1 \<or> 2 \<le> b" by auto
  show "grid_texture gl (elem (stateTex st) (curState st)) AGENT_RES AGENT_RES"
    "grid_texture gl (elem (stateTex st) (1 - curState st)) AGENT_RES AGENT_RES"
    "grid_texture gl (elem (trailTex st) (curTrail st)) SIM_W SIM_H"
    "grid_texture gl (elem (trailTex st) (1 - curTrail st)) SIM_W SIM_H"
    "attachment gl (elem (stateFB st) (1 - curState st)) = elem (stateTex st) (1 - curState st)"
    "attachment gl (elem (trailFB st) (1 - curTrail st)) = elem (trailTex st) (1 - curTrail st)"
    "elem (stateTex st) (curState st) \<noteq> elem (stateTex st) (1 - curState st)"
    "elem (trailTex st) (curTrail st) \<noteq> elem (trailTex st) (1 - curTrail st)"
    "\<not> blend gl"
    using assms cs ct unfolding boids_ok_def by auto
  show "elem (stateTex st) a \<noteq> elem (trailTex st) (1 - curTrail st) \<or> 2 \<le> a"
    using assms ct a unfolding boids_ok_def by auto
  show "elem (trailTex st) b \<noteq> elem (stateTex st) (1 - curState st) \<or> 2 \<le> b"
    using assms cs b unfolding boids_ok_def by auto
qed

lemma update_pass_ok:
  assumes "boids_ok (gl, st)"
  shows "boids_ok (update_pass params touch st gl, st\<lparr>curState := 1 - curState st\<rparr>)"
proof -
  have c: "1 - curState st < 2" by simp
  show ?thesis using assms c by (simp add: boids_ok_def del: One_nat_def)
qed

lemma fade_pass_ok:
  assumes "boids_ok (gl, st)"
  shows "boids_ok (fade_pass params st gl, st)"
  using assms by (simp add: boids_ok_def)

lemma update_pass_cell:
  assumes "boids_ok (gl, st)" and "i < AGENT_RES" and "j < AGENT_RES"
  shows "texel (update_pass params touch st gl) (elem (stateTex st) (1 - curState st)) i j
           = step_fs_main (uniform_of (update_bind params touch st gl) (stepProg_b st))
               (agent_sampler (gl, st)) (frag_uv AGENT_RES AGENT_RES i j)"
proof -
  note f = boids_ok_facts[OF assms(1)]
  from assms(1) have sh: "prog_shape gl (stepProg_b st) = Some (VERTEX_SHADER_SRC, STEP_FS)"
    unfolding boids_ok_def by simp
  then obtain h where h: "stepProg_b st = Some h" by (auto dest: prog_shape_SomeD)
  from f(4) obtain n where n: "elem (stateTex st) (1 - curState st) = Some n"
    by (auto dest: grid_texture_SomeD)
  let ?g = "update_bind params touch st gl"
  have "texel (drawQuad (Some h) ?g) (Some n) i j
          = step_fs_main (uniform_of ?g (Some h)) (bound_sampler ?g)
              (frag_uv AGENT_RES AGENT_RES i j)"
  proof (rule drawQuad_texel_uniforms[where vs = VERTEX_SHADER_SRC and fs = STEP_FS])
    show "prog_shape ?g (Some h) = Some (VERTEX_SHADER_SRC, STEP_FS)" using sh h by simp
    show "render_target ?g = Some n" using f(7) n by simp
    show "grid_texture ?g (Some n) AGENT_RES AGENT_RES" using f(4) n by simp
    show "\<not> blend ?g" using f(13) by simp
  qed (simp_all add: assms(2,3))
  then show ?thesis unfolding update_pass_def h n by simp
qed

lemma update_pass_other:
  assumes "boids_ok (gl, st)" and "x \<noteq> elem (stateTex st) (1 - curState st)"
  shows "texel (update_pass params touch st gl) x i j = texel gl x i j"
proof -
  note f = boids_ok_facts[OF assms(1)]
  have "render_target (update_bind params touch st gl) = elem (stateTex st) (1 - curState st)"
    using f(7) by simp
  then show ?thesis
    unfolding update_pass_def using assms(2) by (simp add: drawQuad_texel_other)
qed

lemma sampler_at_cell:
  assumes "texture_binding gl = x" and "grid_texture gl x w h" and "i < w" and "j < h"
  shows "bound_sampler gl (frag_uv w h i j) = texel gl x i j"
proof -
  from assms(2) obtain n t where n: "x = Some n" "gl_textures gl n = Some t" "tex_w t = w"
      "tex_h t = h" "wrap_s t = CLAMP_TO_EDGE" "wrap_t t = CLAMP_TO_EDGE"
    by (auto dest: grid_texture_SomeD)
  have ij: "i < tex_w t" "j < tex_h t" using assms(3,4) n(3,4) by simp_all
  from clamped_neighbours(1)[OF n(5,6) ij]
  show ?thesis by (simp add: bound_sampler_def texel_def deref_def assms(1) n(1,2,3,4))
qed

lemma fade_pass_cell:
  assumes "boids_ok (gl, st)" and "i < SIM_W" and "j < SIM_H"
  shows "texel (fade_pass params st gl) (elem (trailTex st) (1 - curTrail st)) i j
           = v4scale (texel gl (elem (trailTex st) (curTrail st)) i j) (trailPersistence params)"
proof -
  note f = boids_ok_facts[OF assms(1)]
  from assms(1) have sh: "prog_shape gl (trailFadeProg st) = Some (VERTEX_SHADER_SRC, TRAIL_FADE_FS)"
    unfolding boids_ok_def by simp
  then obtain h where h: "trailFadeProg st = Some h" by (auto dest: prog_shape_SomeD)
  from f(6) obtain n where n: "elem (trailTex st) (1 - curTrail st) = Some n"
    by (auto dest: grid_texture_SomeD)
  let ?g = "fade_bind params st gl"
  have U: "texel (drawQuad (Some h) ?g) (Some n) i j
               = trail_fade_main (uniform_of ?g (Some h)) (bound_sampler ?g)
                   (frag_uv SIM_W SIM_H i j)"
  proof (rule drawQuad_texel_uniforms[where vs = VERTEX_SHADER_SRC and fs = TRAIL_FADE_FS])
    show "prog_shape ?g (Some h) = Some (VERTEX_SHADER_SRC, TRAIL_FADE_FS)" using sh h by simp
    show "render_target ?g = Some n" using f(8) n by simp
    show "grid_texture ?g (Some n) SIM_W SIM_H" using f(6) n by simp
    show "\<not> blend ?g" using f(13) by simp
  qed (simp_all add: assms(2,3))
  have p: "uniform1f (uniform_of ?g (Some h)) ''u_persistence'' = trailPersistence params"
    using fade_bind_persistence[OF sh, of params] h by (simp add: uniform1f_def js_arg_def)
  have "bound_sampler ?g (frag_uv SIM_W SIM_H i j) = texel ?g (elem (trailTex st) (curTrail st)) i j"
    by (rule sampler_at_cell) (simp_all add: f(5) assms(2,3))
  then have "bound_sampler ?g (frag_uv SIM_W SIM_H i j) = texel gl (elem (trailTex st) (curTrail st)) i j"
    by simp
  with U p show ?thesis
    unfolding fade_pass_def h n by (simp add: trail_fade_main_def)
qed

lemma fade_pass_other:
  assumes "boids_ok (gl, st)" and "x \<noteq> elem (trailTex st) (1 - curTrail st)"
  shows "texel (fade_pass params st gl) x i j = texel gl x i j"
proof -
  note f = boids_ok_facts[OF assms(1)]
  have "render_target (fade_bind params st gl) = elem (trailTex st) (1 - curTrail st)"
    using f(8) by simp
  then show ?thesis
    unfolding fade_pass_def using assms(2) by (simp add: drawQuad_texel_other)
qed

lemma points_pass_other:
  assumes "x \<noteq> render_target gl"
  shows "texel (points_pass params st gl) x i j = texel gl x i j"
  using assms by (simp add: points_pass_def Let_def drawPoints_texel_other)

lemma drawPoints_quiet:
  assumes "case deref (gl_programs gl) (current_program gl) of
             None \<Rightarrow> True
           | Some p \<Rightarrow>
               list_all (\<lambda>a. point_coord (viewport gl)
                                (boid_draw_vs (prog_uniforms p) (bound_sampler gl) a) i j = None)
                 (take n (case deref (gl_buffers gl) (array_buffer_binding gl) of
                            None \<Rightarrow> [] | Some d \<Rightarrow> d))"
  shows "texel (drawPoints n gl) x i j = texel gl x i j"
proof (cases "deref (gl_programs gl) (current_program gl)")
  case None
  then show ?thesis by (simp add: drawPoints_def)
next
  case (Some p)
  have v: "viewport (log_draw gl) = viewport gl" by simp
  from assms Some have
    "list_all (\<lambda>a. point_coord (viewport (log_draw gl))
                      (boid_draw_vs (prog_uniforms p) (bound_sampler gl) a) i j = None)
       (take n (case deref (gl_buffers gl) (array_buffer_binding gl) of None \<Rightarrow> [] | Some d \<Rightarrow> d))"
    by (simp add: v)
  from fold_draw_point_texel_none[OF this, of x]
  show ?thesis using Some by (simp add: drawPoints_def Let_def)
qed

lemma points_pass_quiet:
  assumes "case deref (gl_programs (points_bind params st gl))
                  (current_program (points_bind params st gl)) of
             None \<Rightarrow> True
           | Some p \<Rightarrow>
               list_all (\<lambda>a. point_coord (viewport (points_bind params st gl))
                                (boid_draw_vs (prog_uniforms p)
                                   (bound_sampler (points_bind params st gl)) a) i j = None)
                 (take AGENT_COUNT
                    (case deref (gl_buffers (points_bind params st gl))
                            (array_buffer_binding (points_bind params st gl)) of
                       None \<Rightarrow> [] | Some d \<Rightarrow> d))"
  shows "texel (points_pass params st gl) x i j = texel gl x i j"
  using drawPoints_quiet[OF assms, of x] by (simp add: points_pass_def Let_def)

lemma boids_step_unfold:
  assumes "boids_ok (gl, st)"
  shows "boids_step params touch (gl, st) =
           (points_pass params (st\<lparr>curState := 1 - curState st\<rparr>)
              (fade_pass params (st\<lparr>curState := 1 - curState st\<rparr>)
                 (update_pass params touch st gl)),
            st\<lparr>curState := 1 - curState st, curTrail := 1 - curTrail st\<rparr>)"
proof -
  from assms have "prog_shape gl (stepProg_b st) = Some (VERTEX_SHADER_SRC, STEP_FS)"
    unfolding boids_ok_def by simp
  then obtain h where "stepProg_b st = Some h" by (auto dest: prog_shape_SomeD)
  then show ?thesis by (simp add: boids_step_def Let_def)
qed

lemma boids_step_trail_quiet:
  assumes "boids_ok (gl, st)" and "no_contribution params touch (gl, st) i j"
    and "i < SIM_W" and "j < SIM_H"
  shows "trail_cell (boids_step params touch (gl, st)) i j
           = v4scale (trail_cell (gl, st) i j) (trailPersistence params)"
proof -
  let ?st1 = "st\<lparr>curState := 1 - curState st\<rparr>"
  let ?gl1 = "update_pass params touch st gl"
  let ?gl2 = "fade_pass params ?st1 ?gl1"
  let ?gl3 = "points_pass params ?st1 ?gl2"
  let ?x = "elem (trailTex st) (1 - curTrail st)"
  have ok1: "boids_ok (?gl1, ?st1)" by (rule update_pass_ok[OF assms(1)])
  note f = boids_ok_facts[OF assms(1)]
  have "texel ?gl3 ?x i j = texel ?gl2 ?x i j"
    using assms(2)
    by (intro points_pass_quiet) (simp only: no_contribution_def Let_def fst_conv snd_conv)
  also have "\<dots> = v4scale (texel ?gl1 (elem (trailTex st) (curTrail st)) i j)
                     (trailPersistence params)"
    using fade_pass_cell[OF ok1 assms(3,4), of params] by simp
  also have "texel ?gl1 (elem (trailTex st) (curTrail st)) i j
               = texel gl (elem (trailTex st) (curTrail st)) i j"
    using f(12)[of "curTrail st"] f(2) by (intro update_pass_other[OF assms(1)]) auto
  finally show ?thesis
    unfolding boids_step_unfold[OF assms(1)] by (simp add: trail_cell_def)
qed

lemma boids_step_agent_cell:
  assumes "boids_ok (gl, st)" and "i < AGENT_RES" and "j < AGENT_RES"
  shows "agent_cell (boids_step params touch (gl, st)) i j
           = step_fs_main (uniform_of (update_bind params touch st gl) (stepProg_b st))
               (agent_sampler (gl, st)) (frag_uv AGENT_RES AGENT_RES i j)"
proof -
  let ?st1 = "st\<lparr>curState := 1 - curState st\<rparr>"
  let ?gl1 = "update_pass params touch st gl"
  let ?gl2 = "fade_pass params ?st1 ?gl1"
  let ?gl3 = "points_pass params ?st1 ?gl2"
  let ?x = "elem (stateTex st) (1 - curState st)"
  have ok1: "boids_ok (?gl1, ?st1)" by (rule update_pass_ok[OF assms(1)])
  note f = boids_ok_facts[OF assms(1)]
  note f1 = boids_ok_facts[OF ok1]
  have ne: "?x \<noteq> elem (trailTex st) (1 - curTrail st)"
    using f(11)[of "1 - curState st"] f(1) by auto
  have rt: "render_target ?gl2 = elem (trailTex st) (1 - curTrail st)"
    using f1(8) by (simp add: render_target_def)
  have "texel ?gl3 ?x i j = texel ?gl2 ?x i j"
    using ne rt by (intro points_pass_other) simp
  also have "\<dots> = texel ?gl1 ?x i j"
    using ne by (intro fade_pass_other[OF ok1]) simp
  finally have "agent_cell (boids_step params touch (gl, st)) i j = texel ?gl1 ?x i j"
    unfolding boids_step_unfold[OF assms(1)] by (simp add: agent_cell_def)
  then show ?thesis using update_pass_cell[OF assms, of params touch] by simp
qed

section \<open>The agent kernel\<close>

lemma glsl_fract_range: "0 \<le> glsl_fract x \<and> glsl_fract x < 1"
  unfolding glsl_fract_def by linarith

lemma glsl_fract_frac: "glsl_fract x = frac x"
  by (simp add: glsl_fract_def frac_def)

lemma vlength_nonneg: "0 \<le> vlength v"
  by (simp add: vlength_def)

lemma vlength_axis: "vlength (Vec2 a 0) = \<bar>a\<bar>"
  by (simp add: vlength_def)

lemma vlength_zero_iff: "vlength w = 0 \<longleftrightarrow> w = Vec2 0 0"
proof -
  have "vx w * vx w + vy w * vy w = 0 \<longleftrightarrow> vx w = 0 \<and> vy w = 0"
    by (simp add: sum_squares_eq_zero_iff)
  then show ?thesis by (cases w) (simp add: vlength_def)
qed

lemma vlength_scale: "vlength (vscale v k) = \<bar>k\<bar> * vlength v"
proof -
  have "vx v * k * (vx v * k) + vy v * k * (vy v * k) = k\<^sup>2 * (vx v * vx v + vy v * vy v)"
    by (simp add: power2_eq_square algebra_simps)
  then show ?thesis
    by (simp add: vlength_def vscale_def real_sqrt_mult)
qed

lemma vlength_div: "vlength (vdiv v k) = vlength v / \<bar>k\<bar>"
proof -
  have "vdiv v k = vscale v (1 / k)" by (simp add: vdiv_def vscale_def)
  then show ?thesis by (simp add: vlength_scale)
qed

lemma vlength_normalised:
  assumes "0 < vlength v"
  shows "vlength (vscale (vdiv v (vlength v)) m) = \<bar>m\<bar>"
  using assms by (simp add: vlength_scale vlength_div)

text \<open>The stored velocity of the block under \<open>Integrate\<close>.\<close>

lemma integrate_velocity:
  assumes "0 < m"
  shows "vlength (Vec2 (ch_b (integrate p v a m)) (ch_a (integrate p v a m))) = 0 \<or>
         (m * 0.12 \<le> vlength (Vec2 (ch_b (integrate p v a m)) (ch_a (integrate p v a m)))
          \<and> vlength (Vec2 (ch_b (integrate p v a m)) (ch_a (integrate p v a m))) \<le> m)"
proof -
  define v1 where "v1 = vadd v a"
  define spd where "spd = vlength v1"
  have s0: "0 \<le> spd" by (simp add: spd_def vlength_nonneg)
  consider "spd > m" | "spd = 0" | "0 < spd" "spd < m * 0.12" | "m * 0.12 \<le> spd" "spd \<le> m"
    using s0 by fastforce
  then show ?thesis
  proof cases
    case 1
    then have p: "0 < vlength v1" using assms by (simp add: spd_def)
    have "\<not> spd < m * 0.12" using 1 assms by (simp add: field_simps) 
    then have "Vec2 (ch_b (integrate p v a m)) (ch_a (integrate p v a m))
          = vscale (vdiv v1 (vlength v1)) m"
      using 1 by (simp add: integrate_def Let_def v1_def spd_def)
    then show ?thesis using vlength_normalised[OF p, of m] assms by simp
  next
    case 2
    then have "Vec2 (ch_b (integrate p v a m)) (ch_a (integrate p v a m)) = v1"
      using assms by (simp add: integrate_def Let_def v1_def spd_def)
    then show ?thesis using 2 by (simp add: spd_def)
  next
    case 3
    then have p: "0 < vlength v1" by (simp add: spd_def)
    have "\<not> spd > m" using 3 assms by (simp add: field_simps)
    then have "Vec2 (ch_b (integrate p v a m)) (ch_a (integrate p v a m))
          = vscale (vscale (vdiv v1 (vlength v1)) m) 0.12"
      using 3 by (simp add: integrate_def Let_def v1_def spd_def)
    then have "vlength (Vec2 (ch_b (integrate p v a m)) (ch_a (integrate p v a m)))
          = m * 0.12"
      using vlength_normalised[OF p, of m] assms by (simp add: vlength_scale)
    then show ?thesis using assms by simp
  next
    case 4
    then have "Vec2 (ch_b (integrate p v a m)) (ch_a (integrate p v a m)) = v1"
      by (simp add: integrate_def Let_def v1_def spd_def)
    then show ?thesis using 4 by (simp add: spd_def)
  qed
qed

lemma integrate_position:
  "ch_r (integrate p v a m) = glsl_fract (vx p + ch_b (integrate p v a m))"
  "ch_g (integrate p v a m) = glsl_fract (vy p + ch_a (integrate p v a m))"
  by (simp_all add: integrate_def Let_def vfract_def vadd_def)

lemma scan_cell_coincident:
  assumes "ch_r (u_state (vdiv (vadd (Vec2 (fst g) (snd g)) (Vec2 0.5 0.5)) ARES)) = vx p"
    and "ch_g (u_state (vdiv (vadd (Vec2 (fst g) (snd g)) (Vec2 0.5 0.5)) ARES)) = vy p"
  shows "scan_cell u_state p percSq sepRSq g acc = acc"
proof -
  have "\<lfloor>(1 / 2 :: real)\<rfloor> = 0" by simp
  then show ?thesis
    using assms by (simp add: scan_cell_def Let_def vsub_def vadd_def vfloor_def vdot_def)
qed

lemma fold_scan_coincident:
  assumes "\<And>uv. ch_r (u_state uv) = vx p \<and> ch_g (u_state uv) = vy p"
  shows "fold (scan_cell u_state p percSq sepRSq) gs acc = acc"
  by (induction gs arbitrary: acc) (simp_all add: scan_cell_coincident assms)

lemma neighbour_scan_coincident:
  assumes "\<And>uv. ch_r (u_state uv) = vx p \<and> ch_g (u_state uv) = vy p"
  shows "neighbour_scan u_state p percSq sepRSq =
           \<lparr>sepSum = Vec2 0 0, aliSum = Vec2 0 0, cohSum = Vec2 0 0, sepCount = 0, nCount = 0\<rparr>"
  unfolding neighbour_scan_def by (rule fold_scan_coincident[OF assms])

lemma boid_accel_alone:
  assumes "uniform1f U ''u_mode'' = 0" and "uniform1f U ''u_touchActive'' = 0"
  shows "boid_accel U
           \<lparr>sepSum = Vec2 0 0, aliSum = Vec2 0 0, cohSum = Vec2 0 0, sepCount = 0, nCount = 0\<rparr>
           p v = Vec2 0 0"
  using assms by (simp add: boid_accel_def Let_def)

lemma step_fs_coincident:
  assumes "\<And>uv. u_state uv = Vec4 px py wx wy"
    and "uniform1f U ''u_mode'' = 0" and "uniform1f U ''u_touchActive'' = 0"
  shows "step_fs_main U u_state v_uv
           = integrate (Vec2 px py) (Vec2 wx wy) (Vec2 0 0) (uniform1f U ''u_maxSpeed'')"
proof -
  have "neighbour_scan u_state (Vec2 px py) percSq sepRSq =
           \<lparr>sepSum = Vec2 0 0, aliSum = Vec2 0 0, cohSum = Vec2 0 0, sepCount = 0, nCount = 0\<rparr>"
    for percSq sepRSq
    by (rule neighbour_scan_coincident) (simp add: assms(1))
  then show ?thesis
    by (simp add: step_fs_main_def Let_def assms(1) boid_accel_alone[OF assms(2,3)])
qed

lemma integrate_cruise:
  assumes "0 \<le> a" and "m * 0.12 \<le> a" and "a \<le> m"
  shows "integrate (Vec2 px py) (Vec2 a 0) (Vec2 0 0) m
           = Vec4 (glsl_fract (px + a)) (glsl_fract py) a 0"
proof -
  have "vlength (vadd (Vec2 a 0) (Vec2 0 0)) = a"
    using assms(1) by (simp add: vadd_def vlength_axis)
  then show ?thesis
    using assms by (simp add: integrate_def Let_def vfract_def) (simp add: vadd_def)
qed

lemma step_fs_example_wrap:
  "step_fs_main ((\<lambda>_. [])(''u_maxSpeed'' := [0.02], ''u_perception'' := [0.08]))
     (\<lambda>_. Vec4 0.995 0.5 0.02 0) v_uv = Vec4 0.015 0.5 0.02 0"
proof -
  have "step_fs_main ((\<lambda>_. [])(''u_maxSpeed'' := [0.02], ''u_perception'' := [0.08]))
     (\<lambda>_. Vec4 0.995 0.5 0.02 0) v_uv
     = integrate (Vec2 0.995 0.5) (Vec2 0.02 0) (Vec2 0 0) 0.02"
    by (subst step_fs_coincident[where px = "0.995" and py = "0.5" and wx = "0.02" and wy = 0])
       (simp_all add: uniform1f_def js_arg_def)
  also have "\<dots> = Vec4 (glsl_fract (0.995 + 0.02)) (glsl_fract 0.5) 0.02 0"
    by (rule integrate_cruise) simp_all
  also have "\<dots> = Vec4 0.015 0.5 0.02 0"
    by (simp add: glsl_fract_def)
  finally show ?thesis .
qed

lemma setUniform_step:
  assumes "prog_shape gl p = Some (VERTEX_SHADER_SRC, STEP_FS)" and "current_program gl = p"
    and "n \<in> set (uniform_names STEP_FS)"
  shows "uniform_of (setUniform p n ''1f'' v gl) p n' = (if n' = n then [js_arg v 0] else uniform_of gl p n')"
    and "uniform_of (setUniform p n ''2f'' v gl) p n'
           = (if n' = n then [js_arg v 0, js_arg v 1] else uniform_of gl p n')"
  using assms setUniform_same[OF assms(1) _ assms(2), of n v] setUniform_other[of n' n p _ v gl]
  by auto

lemma update_bind_uniforms:
  assumes "prog_shape gl (stepProg_b st) = Some (VERTEX_SHADER_SRC, STEP_FS)"
  shows "uniform_of (update_bind params touch st gl) (stepProg_b st) ''u_separation'' = [separation params]"
    and "uniform_of (update_bind params touch st gl) (stepProg_b st) ''u_alignment'' = [alignment params]"
    and "uniform_of (update_bind params touch st gl) (stepProg_b st) ''u_cohesion'' = [cohesion params]"
    and "uniform_of (update_bind params touch st gl) (stepProg_b st) ''u_perception'' = [perception params]"
    and "uniform_of (update_bind params touch st gl) (stepProg_b st) ''u_maxSpeed'' = [maxSpeed params]"
    and "uniform_of (update_bind params touch st gl) (stepProg_b st) ''u_mode'' = [modeMap (mode params)]"
    and "uniform_of (update_bind params touch st gl) (stepProg_b st) ''u_touch''
           = (if active touch then [fst (pos touch), snd (pos touch)] else [- 1, - 1])"
    and "uniform_of (update_bind params touch st gl) (stepProg_b st) ''u_touchActive''
           = (if active touch then [1] else [0])"
    and "uniform_of (update_bind params touch st gl) (stepProg_b st) ''u_touchButton''
           = (if active touch \<and> button touch = Some 2 then [1] else [0])"
  using assms
  by (simp_all add: update_bind_def Let_def setUniform_step js_arg_def)

lemma step_fs_stall:
  assumes "\<And>uv. u_state uv = Vec4 (1 / 2) (1 / 2) (1 / 500) 0"
    and "uniform1f U ''u_mode'' = 0" and "uniform1f U ''u_touchActive'' = 1"
    and "uniform1f U ''u_touchButton'' = 0" and "uniform2f U ''u_touch'' = Vec2 (9 / 20) (1 / 2)"
    and "uniform1f U ''u_perception'' = 2 / 25" and "uniform1f U ''u_maxSpeed'' = 1 / 250"
  shows "step_fs_main U u_state v_uv = Vec4 (1 / 2) (1 / 2) 0 0"
proof -
  have scan: "neighbour_scan u_state (Vec2 (1 / 2) (1 / 2)) percSq sepRSq =
           \<lparr>sepSum = Vec2 0 0, aliSum = Vec2 0 0, cohSum = Vec2 0 0, sepCount = 0, nCount = 0\<rparr>"
    for percSq sepRSq
    by (rule neighbour_scan_coincident) (simp add: assms(1))
  have fl: "\<lfloor>(9 / 20 :: real)\<rfloor> = 0" "\<lfloor>(1 / 2 :: real)\<rfloor> = 0" by simp_all
  have toT: "vsub (vsub (Vec2 (9 / 20) (1 / 2)) (Vec2 (1 / 2) (1 / 2)))
               (vfloor (vadd (vsub (Vec2 (9 / 20) (1 / 2)) (Vec2 (1 / 2) (1 / 2))) (Vec2 0.5 0.5)))
             = Vec2 (- (1 / 20)) 0"
    by (simp add: vsub_def vadd_def vfloor_def fl)
  have st: "steer (Vec2 (- (1 / 20)) 0) (Vec2 (1 / 500) 0) (1 / 250) (1 / 1250)
              = Vec2 (- (1 / 1250)) 0"
    by (simp add: steer_def Let_def vlength_axis vsub_def vscale_def vdiv_def)
  have acc: "boid_accel U
           \<lparr>sepSum = Vec2 0 0, aliSum = Vec2 0 0, cohSum = Vec2 0 0, sepCount = 0, nCount = 0\<rparr>
           (Vec2 (1 / 2) (1 / 2)) (Vec2 (1 / 500) 0) = Vec2 (- (1 / 500)) 0"
    unfolding boid_accel_def Let_def assms(2-7) toT
    by (simp add: st vlength_axis) (simp add: vadd_def vscale_def)
  have "integrate (Vec2 (1 / 2) (1 / 2)) (Vec2 (1 / 500) 0) (Vec2 (- (1 / 500)) 0) (1 / 250)
          = Vec4 (1 / 2) (1 / 2) 0 0"
    by (simp add: integrate_def Let_def vadd_def vlength_axis vfract_def glsl_fract_def)
  then show ?thesis
    by (simp add: step_fs_main_def Let_def assms(1,6,7) scan acc)
qed

lemma boids_setup_succeeds:
  assumes "\<And>src. compiles gl src" and "\<And>vs fs. links gl vs fs"
    and "1 \<le> max_vertex_texture_image_units gl"
  shows "boids_setup_ok (boids_setup random params (gl, st))"
  using assms
  by (simp add: boids_setup_ok_def boids_setup_def createProgram_def compileShader_def Let_def
        createTexture_def createFramebuffer_def createBuffer_def split: prod.splits)

lemma flock_random_simps:
  "flock_random (4 * k) = 0" "flock_random (4 * k + 1) = 1 / 2"
  "flock_random (4 * k + 2) = 1 / 2" "flock_random (4 * k + 3) = 1 / 2"
proof -
  have m: "(4 * k) mod 4 = 0" "(4 * k + 1) mod 4 = 1" "(4 * k + 2) mod 4 = 2"
    "(4 * k + 3) mod 4 = 3"
    by presburger+
  show "flock_random (4 * k) = 0" "flock_random (4 * k + 1) = 1 / 2"
    "flock_random (4 * k + 2) = 1 / 2" "flock_random (4 * k + 3) = 1 / 2"
    unfolding flock_random_def m by simp_all
qed

lemma stateData_flock:
  "stateData flock_random (k * 4) = 1 / 2"
  "stateData flock_random (k * 4 + 1) = 1 / 2"
  "stateData flock_random (k * 4 + 2) = 1 / 500"
  "stateData flock_random (k * 4 + 3) = 0"
proof -
  have d: "(k * 4) div 4 = k" "(k * 4 + 1) div 4 = k" "(k * 4 + 2) div 4 = k" "(k * 4 + 3) div 4 = k"
    by presburger+
  have m: "(k * 4) mod 4 = 0" "(k * 4 + 1) mod 4 = 1" "(k * 4 + 2) mod 4 = 2" "(k * 4 + 3) mod 4 = 3"
    by presburger+
  show "stateData flock_random (k * 4) = 1 / 2"
    unfolding stateData_def Let_def d m flock_random_simps by simp
  show "stateData flock_random (k * 4 + 1) = 1 / 2"
    unfolding stateData_def Let_def d m flock_random_simps by simp
  show "stateData flock_random (k * 4 + 2) = 1 / 500"
    unfolding stateData_def Let_def d m flock_random_simps by simp
  show "stateData flock_random (k * 4 + 3) = 0"
    unfolding stateData_def Let_def d m flock_random_simps by simp
qed

lemma flock_texel: "texImage2D w (stateData flock_random) i j = Vec4 (1 / 2) (1 / 2) (1 / 500) 0"
  unfolding texImage2D_def stateData_flock by (rule refl)

lemma flock_setup_ok:
  "boids_ok (boids_setup flock_random params (demo_gl, boids_init))"
  by (rule boids_setup_establishes) (simp_all add: boids_setup_succeeds)

lemma flock_setup_sampler:
  "agent_sampler (boids_setup flock_random params (demo_gl, boids_init)) uv
     = Vec4 (1 / 2) (1 / 2) (1 / 500) 0"
  by (simp add: agent_sampler_def bound_sampler_def bindTexture_def boids_setup_def
        createProgram_def compileShader_def Let_def createTexture_def createFramebuffer_def
        createBuffer_def boids_init_def elem_def deref_def new_texture_def texture2D_def
        flock_texel split: prod.splits)

lemma flock_stall:
  "agent_cell (boids_step boids_defaults touch_behind
      (boids_setup flock_random boids_defaults (demo_gl, boids_init))) 0 0
     = Vec4 (1 / 2) (1 / 2) 0 0"
proof -
  obtain gl st where s: "boids_setup flock_random boids_defaults (demo_gl, boids_init) = (gl, st)"
    by (cases "boids_setup flock_random boids_defaults (demo_gl, boids_init)")
  have ok: "boids_ok (gl, st)" using flock_setup_ok[of boids_defaults] s by simp
  then have sh: "prog_shape gl (stepProg_b st) = Some (VERTEX_SHADER_SRC, STEP_FS)"
    by (simp add: boids_ok_def)
  have smp: "\<And>uv. agent_sampler (gl, st) uv = Vec4 (1 / 2) (1 / 2) (1 / 500) 0"
    using flock_setup_sampler[of boids_defaults] s by simp
  note u = update_bind_uniforms[OF sh, of boids_defaults touch_behind]
  have "agent_cell (boids_step boids_defaults touch_behind (gl, st)) 0 0
          = step_fs_main (uniform_of (update_bind boids_defaults touch_behind st gl) (stepProg_b st))
               (agent_sampler (gl, st)) (frag_uv AGENT_RES AGENT_RES 0 0)"
    by (rule boids_step_agent_cell[OF ok]) (simp_all add: AGENT_RES_def)
  also have "\<dots> = Vec4 (1 / 2) (1 / 2) 0 0"
    by (rule step_fs_stall[OF smp])
       (simp_all add: u uniform1f_def uniform2f_def,
        simp_all add: js_arg_def boids_defaults_def touch_behind_def modeMap_def)
  finally show ?thesis unfolding s .
qed

section \<open>Double-buffer separation\<close>

lemma drawQuad_draws_shape:
  assumes "prog_shape gl p = Some x"
  shows "draws (drawQuad p gl) =
           \<lparr> draw_program = p, draw_uniforms = uniform_of gl p,
             draw_source = texture_binding gl,
             draw_framebuffer = framebuffer_binding gl, draw_target = render_target gl \<rparr>
           # draws gl"
proof -
  from assms obtain h q where "p = Some h" "gl_programs gl h = Some q"
    by (auto dest: prog_shape_SomeD)
  then show ?thesis using drawQuad_draws[of gl h q] by simp
qed

lemma drawPoints_draws_shape:
  assumes "prog_shape gl (current_program gl) = Some x"
  shows "draws (drawPoints n gl) =
           \<lparr> draw_program = current_program gl,
             draw_uniforms = uniform_of gl (current_program gl),
             draw_source = texture_binding gl,
             draw_framebuffer = framebuffer_binding gl, draw_target = render_target gl \<rparr>
           # draws gl"
proof -
  from assms obtain p where "deref (gl_programs gl) (current_program gl) = Some p"
    by (auto simp add: prog_shape_def split: option.splits)
  then show ?thesis by (rule drawPoints_draws)
qed

lemma boids_step_draws:
  assumes "boids_ok (gl, st)"
  shows "draws (fst (boids_step params touch (gl, st))) =
    \<lparr> draw_program = boidDrawProg st,
      draw_uniforms = uniform_of
        (points_bind params (st\<lparr>curState := 1 - curState st\<rparr>)
           (fade_pass params (st\<lparr>curState := 1 - curState st\<rparr>) (update_pass params touch st gl))) (boidDrawProg st),
      draw_source = elem (stateTex st) (1 - curState st),
      draw_framebuffer = elem (trailFB st) (1 - curTrail st),
      draw_target = elem (trailTex st) (1 - curTrail st) \<rparr> #
    \<lparr> draw_program = trailFadeProg st,
      draw_uniforms = uniform_of
        (fade_bind params (st\<lparr>curState := 1 - curState st\<rparr>) (update_pass params touch st gl)) (trailFadeProg st),
      draw_source = elem (trailTex st) (curTrail st),
      draw_framebuffer = elem (trailFB st) (1 - curTrail st),
      draw_target = elem (trailTex st) (1 - curTrail st) \<rparr> #
    \<lparr> draw_program = stepProg_b st,
      draw_uniforms = uniform_of (update_bind params touch st gl) (stepProg_b st),
      draw_source = elem (stateTex st) (curState st),
      draw_framebuffer = elem (stateFB st) (1 - curState st),
      draw_target = elem (stateTex st) (1 - curState st) \<rparr> # draws gl"
proof -
  let ?st1 = "st\<lparr>curState := 1 - curState st\<rparr>"
  let ?gl1 = "update_pass params touch st gl"
  let ?gl2 = "fade_pass params ?st1 ?gl1"
  note f = boids_ok_facts[OF assms]
  from assms have sh: "prog_shape gl (stepProg_b st) = Some (VERTEX_SHADER_SRC, STEP_FS)"
      "prog_shape gl (trailFadeProg st) = Some (VERTEX_SHADER_SRC, TRAIL_FADE_FS)"
      "prog_shape gl (boidDrawProg st) = Some (BOID_DRAW_VS, BOID_DRAW_FS)"
    unfolding boids_ok_def by simp_all
  have d1: "draws ?gl1 =
      \<lparr> draw_program = stepProg_b st,
        draw_uniforms = uniform_of (update_bind params touch st gl) (stepProg_b st),
        draw_source = elem (stateTex st) (curState st),
        draw_framebuffer = elem (stateFB st) (1 - curState st),
        draw_target = elem (stateTex st) (1 - curState st) \<rparr> # draws gl"
    unfolding update_pass_def
    using f(7)
    by (subst drawQuad_draws_shape[where x = "(VERTEX_SHADER_SRC, STEP_FS)"])
       (simp_all add: sh)
  have d2: "draws ?gl2 =
      \<lparr> draw_program = trailFadeProg st,
        draw_uniforms = uniform_of (fade_bind params ?st1 ?gl1) (trailFadeProg st),
        draw_source = elem (trailTex st) (curTrail st),
        draw_framebuffer = elem (trailFB st) (1 - curTrail st),
        draw_target = elem (trailTex st) (1 - curTrail st) \<rparr> # draws ?gl1"
    unfolding fade_pass_def
    using f(8)
    by (subst drawQuad_draws_shape[where x = "(VERTEX_SHADER_SRC, TRAIL_FADE_FS)"])
       (simp_all add: sh)
  have rt2: "render_target ?gl2 = elem (trailTex st) (1 - curTrail st)"
    using f(8) by (simp add: render_target_def)
  have d3: "draws (points_pass params ?st1 ?gl2) =
      \<lparr> draw_program = boidDrawProg st,
        draw_uniforms = uniform_of (points_bind params ?st1 ?gl2) (boidDrawProg st),
        draw_source = elem (stateTex st) (1 - curState st),
        draw_framebuffer = elem (trailFB st) (1 - curTrail st),
        draw_target = elem (trailTex st) (1 - curTrail st) \<rparr> # draws ?gl2"
    unfolding points_pass_def Let_def
    using rt2
    by (simp, subst drawPoints_draws_shape[where x = "(BOID_DRAW_VS, BOID_DRAW_FS)"])
       (simp_all add: sh)
  show ?thesis
    unfolding boids_step_unfold[OF assms] by (simp only: fst_conv d3 d2 d1)
qed

section \<open>Agent position and speed\<close>

lemma boids_reach_ok:
  assumes "boids_setup_ok (boids_setup random params0 (gl0, boids_init))" and "\<not> blend gl0"
  shows "boids_ok (boids_run ins (boids_setup random params0 (gl0, boids_init)))"
  by (rule boids_run_preserves) (rule boids_setup_establishes[OF assms])

lemma agent_sampler_at_cell:
  assumes "boids_ok s" and "i < AGENT_RES" and "j < AGENT_RES"
  shows "agent_sampler s (frag_uv AGENT_RES AGENT_RES i j) = agent_cell s i j"
proof -
  obtain gl st where s: "s = (gl, st)" by (cases s)
  note f = boids_ok_facts[OF assms(1)[unfolded s]]
  let ?g = "bindTexture (elem (stateTex st) (curState st)) gl"
  have "bound_sampler ?g (frag_uv AGENT_RES AGENT_RES i j)
          = texel ?g (elem (stateTex st) (curState st)) i j"
    by (rule sampler_at_cell) (simp_all add: f(3) assms(2,3))
  then show ?thesis by (simp add: s agent_sampler_def agent_cell_def)
qed

lemma step_fs_position:
  "ch_r (step_fs_main U smp uv) = glsl_fract (ch_r (smp uv) + ch_b (step_fs_main U smp uv))"
  "ch_g (step_fs_main U smp uv) = glsl_fract (ch_g (smp uv) + ch_a (step_fs_main U smp uv))"
  unfolding step_fs_main_def Let_def
  by (subst integrate_position; simp)+

lemma flock_cruise:
  "agent_cell (boids_step boids_defaults touch_up
      (boids_setup flock_random boids_defaults (demo_gl, boids_init))) 0 0
     = Vec4 (251 / 500) (1 / 2) (1 / 500) 0"
proof -
  obtain gl st where s: "boids_setup flock_random boids_defaults (demo_gl, boids_init) = (gl, st)"
    by (cases "boids_setup flock_random boids_defaults (demo_gl, boids_init)")
  have ok: "boids_ok (gl, st)" using flock_setup_ok[of boids_defaults] s by simp
  then have sh: "prog_shape gl (stepProg_b st) = Some (VERTEX_SHADER_SRC, STEP_FS)"
    by (simp add: boids_ok_def)
  have smp: "\<And>uv. agent_sampler (gl, st) uv = Vec4 (1 / 2) (1 / 2) (1 / 500) 0"
    using flock_setup_sampler[of boids_defaults] s by simp
  note u = update_bind_uniforms[OF sh, of boids_defaults touch_up]
  let ?U = "uniform_of (update_bind boids_defaults touch_up st gl) (stepProg_b st)"
  have m: "uniform1f ?U ''u_maxSpeed'' = 1 / 250"
    by (simp add: u uniform1f_def) (simp add: js_arg_def boids_defaults_def)
  have "agent_cell (boids_step boids_defaults touch_up (gl, st)) 0 0
          = step_fs_main ?U (agent_sampler (gl, st)) (frag_uv AGENT_RES AGENT_RES 0 0)"
    by (rule boids_step_agent_cell[OF ok]) (simp_all add: AGENT_RES_def)
  also have "\<dots> = integrate (Vec2 (1 / 2) (1 / 2)) (Vec2 (1 / 500) 0) (Vec2 0 0) (1 / 250)"
    unfolding m[symmetric]
    by (rule step_fs_coincident[OF smp])
       (simp_all add: u uniform1f_def,
        simp_all add: js_arg_def boids_defaults_def touch_up_def modeMap_def)
  also have "\<dots> = Vec4 (glsl_fract (1 / 2 + 1 / 500)) (glsl_fract (1 / 2)) (1 / 500) 0"
    by (rule integrate_cruise) simp_all
  also have "\<dots> = Vec4 (251 / 500) (1 / 2) (1 / 500) 0"
    by (simp add: glsl_fract_def)
  finally show ?thesis unfolding s .
qed

text \<open>
  C8. In an agent engine that was set up, after any number of steps, one more step stores
  for the agent of cell \<open>(i, j)\<close> the position \<open>fract(old position + new velocity)\<close> in
  each axis, where \<open>fract x = x - floor x\<close> is the value modulo 1, so both coordinates
  lie in \<open>[0, 1)\<close>. An agent at \<open>(0.995, 0.5)\<close> that moves with velocity \<open>(0.02, 0)\<close>
  (alone within its perception radius, no touch, the speed within the clamp's bounds) is
  stored at \<open>(0.015, 0.5)\<close>.
\<close>

theorem position_wraps_into_unit_square:
  assumes "boids_setup_ok (boids_setup random params0 (gl0, boids_init))" and "\<not> blend gl0"
    and "i < AGENT_RES" and "j < AGENT_RES"
    and "s = boids_run ins (boids_setup random params0 (gl0, boids_init))"
    and "c = agent_cell (boids_step params touch s) i j"
  shows "ch_r c = glsl_fract (ch_r (agent_cell s i j) + ch_b c) \<and>
         ch_g c = glsl_fract (ch_g (agent_cell s i j) + ch_a c) \<and>
         0 \<le> ch_r c \<and> ch_r c < 1 \<and> 0 \<le> ch_g c \<and> ch_g c < 1 \<and>
         step_fs_main ((\<lambda>_. [])(''u_maxSpeed'' := [0.02], ''u_perception'' := [0.08]))
           (\<lambda>_. Vec4 0.995 0.5 0.02 0) v_uv = Vec4 0.015 0.5 0.02 0"
proof -
  obtain gl st where s: "s = (gl, st)" by (cases s)
  have ok: "boids_ok (gl, st)"
    using boids_reach_ok[OF assms(1,2), of ins] assms(5) s by simp
  have c: "c = step_fs_main (uniform_of (update_bind params touch st gl) (stepProg_b st))
                 (agent_sampler (gl, st)) (frag_uv AGENT_RES AGENT_RES i j)"
    unfolding assms(6) s by (rule boids_step_agent_cell[OF ok assms(3,4)])
  have old: "agent_sampler (gl, st) (frag_uv AGENT_RES AGENT_RES i j) = agent_cell s i j"
    unfolding s by (rule agent_sampler_at_cell[OF ok assms(3,4)])
  have p: "ch_r c = glsl_fract (ch_r (agent_cell s i j) + ch_b c)"
          "ch_g c = glsl_fract (ch_g (agent_cell s i j) + ch_a c)"
    using step_fs_position[of "uniform_of (update_bind params touch st gl) (stepProg_b st)"
        "agent_sampler (gl, st)" "frag_uv AGENT_RES AGENT_RES i j"]
    unfolding c[symmetric] old by simp_all
  have r: "0 \<le> ch_r c \<and> ch_r c < 1" "0 \<le> ch_g c \<and> ch_g c < 1"
    using glsl_fract_range[of "ch_r (agent_cell s i j) + ch_b c"]
      glsl_fract_range[of "ch_g (agent_cell s i j) + ch_a c"] p by simp_all
  show ?thesis using p r step_fs_example_wrap by simp
qed

text \<open>The theorem at the first tick of a flock whose agents all start at the centre.\<close>

theorem position_wraps_into_unit_square_witness:
  "boids_setup_ok (boids_setup flock_random boids_defaults (demo_gl, boids_init)) \<and>
   \<not> blend demo_gl \<and> (0 :: nat) < AGENT_RES \<and>
   agent_cell (boids_run [] (boids_setup flock_random boids_defaults (demo_gl, boids_init))) 0 0
     = Vec4 (1 / 2) (1 / 2) (1 / 500) 0 \<and>
   agent_cell (boids_step boids_defaults touch_up
      (boids_run [] (boids_setup flock_random boids_defaults (demo_gl, boids_init)))) 0 0
     = Vec4 (251 / 500) (1 / 2) (1 / 500) 0 \<and>
   (251 / 500 :: real) = glsl_fract (1 / 2 + 1 / 500) \<and> (1 / 2 :: real) = glsl_fract (1 / 2 + 0)"
proof -
  let ?s0 = "boids_setup flock_random boids_defaults (demo_gl, boids_init)"
  have ok: "boids_setup_ok ?s0" by (rule boids_setup_succeeds) simp_all
  have r: "boids_run [] ?s0 = ?s0" by (simp add: boids_run_def)
  have a: "(0 :: nat) < AGENT_RES" by (simp add: AGENT_RES_def)
  have old: "agent_cell ?s0 0 0 = Vec4 (1 / 2) (1 / 2) (1 / 500) 0"
    using agent_sampler_at_cell[OF flock_setup_ok a a, of boids_defaults]
      flock_setup_sampler[of boids_defaults] by simp
  from position_wraps_into_unit_square[OF ok _ a a r[symmetric] refl,
      of boids_defaults touch_up]
  show ?thesis using ok a old flock_cruise by (simp add: r)
qed

section \<open>Double buffering\<close>

lemma osc_setup_names:
  "textures (snd (field_setup (osc_config osc_ramp) osc_defaults (demo_gl, field_init))) = [Some 7, Some 8]"
  "currentTex (snd (field_setup (osc_config osc_ramp) osc_defaults (demo_gl, field_init))) = 0"
  "draws (fst (field_setup (osc_config osc_ramp) osc_defaults (demo_gl, field_init))) = []"
  by (simp_all add: field_setup_def createProgram_def compileShader_def Let_def
        createTexture_def createFramebuffer_def field_init_def 
        demo_gl_def initWebGL_def createBuffer_def split: prod.splits)

lemma flock_setup_names:
  "stateTex (snd (boids_setup flock_random boids_defaults (demo_gl, boids_init))) = [Some 13, Some 14]"
  "trailTex (snd (boids_setup flock_random boids_defaults (demo_gl, boids_init))) = [Some 17, Some 18]"
  "curState (snd (boids_setup flock_random boids_defaults (demo_gl, boids_init))) = 0"
  "curTrail (snd (boids_setup flock_random boids_defaults (demo_gl, boids_init))) = 0"
  "draws (fst (boids_setup flock_random boids_defaults (demo_gl, boids_init))) = []"
  by (simp_all add: boids_setup_def createProgram_def compileShader_def Let_def
        createTexture_def createFramebuffer_def createBuffer_def boids_init_def 
        demo_gl_def initWebGL_def split: prod.splits)

text \<open>
  C2. In a field engine that was set up, after any number of steps, one more step issues
  exactly one draw call, whose source texture (the one bound for sampling) is the current
  buffer and whose render target (the colour attachment of the bound framebuffer) is the
  other buffer; both exist and they are different objects; afterwards the current index
  has flipped and designates the texture just written. In an agent engine that was set
  up, one more step issues three draw calls: the state update reads the current state
  texture and writes the other one, the trail fade reads the current trail texture and
  writes the other one, the point pass reads the state texture just written and writes
  the same trail target; in each the source differs from the target, and afterwards both
  indices have flipped and designate the textures just written.
\<close>

theorem double_buffer_separation:
  assumes "field_setup_ok (field_setup config params0 (gl0, field_init))" and "\<not> blend gl0"
    and "s = field_run config ins (field_setup config params0 (gl0, field_init))"
    and "s' = field_step config params touch s"
    and "boids_setup_ok (boids_setup random bparams0 (bgl0, boids_init))" and "\<not> blend bgl0"
    and "b = boids_run bins (boids_setup random bparams0 (bgl0, boids_init))"
    and "b' = boids_step bparams btouch b"
  shows "(\<exists>d. draws (fst s') = d # draws (fst s) \<and>
            draw_source d = elem (textures (snd s)) (currentTex (snd s)) \<and>
            draw_target d = elem (textures (snd s)) (1 - currentTex (snd s)) \<and>
            draw_source d \<noteq> None \<and> draw_target d \<noteq> None \<and> draw_source d \<noteq> draw_target d \<and>
            currentTex (snd s) < 2 \<and> currentTex (snd s') = 1 - currentTex (snd s) \<and>
            textures (snd s') = textures (snd s) \<and>
            elem (textures (snd s')) (currentTex (snd s')) = draw_target d) \<and>
         (\<exists>d1 d2 d3. draws (fst b') = d3 # d2 # d1 # draws (fst b) \<and>
            draw_source d1 = elem (stateTex (snd b)) (curState (snd b)) \<and>
            draw_target d1 = elem (stateTex (snd b)) (1 - curState (snd b)) \<and>
            draw_source d2 = elem (trailTex (snd b)) (curTrail (snd b)) \<and>
            draw_target d2 = elem (trailTex (snd b)) (1 - curTrail (snd b)) \<and>
            draw_source d3 = elem (stateTex (snd b)) (1 - curState (snd b)) \<and>
            draw_target d3 = elem (trailTex (snd b)) (1 - curTrail (snd b)) \<and>
            draw_source d1 \<noteq> draw_target d1 \<and> draw_source d2 \<noteq> draw_target d2 \<and>
            draw_source d3 \<noteq> draw_target d3 \<and>
            curState (snd b) < 2 \<and> curTrail (snd b) < 2 \<and>
            curState (snd b') = 1 - curState (snd b) \<and>
            curTrail (snd b') = 1 - curTrail (snd b) \<and>
            stateTex (snd b') = stateTex (snd b) \<and> trailTex (snd b') = trailTex (snd b) \<and>
            elem (stateTex (snd b')) (curState (snd b')) = draw_target d1 \<and>
            elem (trailTex (snd b')) (curTrail (snd b')) = draw_target d2 \<and>
            elem (trailTex (snd b')) (curTrail (snd b')) = draw_target d3)"
proof
  obtain gl st where s: "s = (gl, st)" by (cases s)
  have ok: "field_ok config (gl, st)"
    using field_reach_ok[OF assms(1,2), of ins] assms(3) s by simp
  note d = field_step_draws(1,2)[OF ok, of params touch] field_step_draws(3,4,5)[OF ok]
  have c: "currentTex st < 2" using ok by (simp add: field_ok_def)
  show "\<exists>d. draws (fst s') = d # draws (fst s) \<and>
            draw_source d = elem (textures (snd s)) (currentTex (snd s)) \<and>
            draw_target d = elem (textures (snd s)) (1 - currentTex (snd s)) \<and>
            draw_source d \<noteq> None \<and> draw_target d \<noteq> None \<and> draw_source d \<noteq> draw_target d \<and>
            currentTex (snd s) < 2 \<and> currentTex (snd s') = 1 - currentTex (snd s) \<and>
            textures (snd s') = textures (snd s) \<and>
            elem (textures (snd s')) (currentTex (snd s')) = draw_target d"
    unfolding assms(4) s d(1,2) using d(3,4,5) c by simp
next
  obtain bgl bst where b: "b = (bgl, bst)" by (cases b)
  have ok: "boids_ok (bgl, bst)"
    using boids_reach_ok[OF assms(5,6), of bins] assms(7) b by simp
  note f = boids_ok_facts[OF ok]
  note d = boids_step_draws[OF ok, of bparams btouch]
  have u: "snd (boids_step bparams btouch (bgl, bst))
             = bst\<lparr>curState := 1 - curState bst, curTrail := 1 - curTrail bst\<rparr>"
    using boids_step_unfold[OF ok, of bparams btouch] by simp
  have c: "curState bst < 2" "curTrail bst < 2" using f(1,2) by auto
  have x: "elem (stateTex bst) (1 - curState bst) \<noteq> elem (trailTex bst) (1 - curTrail bst)"
    using f(11)[of "1 - curState bst"] by auto
  show "\<exists>d1 d2 d3. draws (fst b') = d3 # d2 # d1 # draws (fst b) \<and>
            draw_source d1 = elem (stateTex (snd b)) (curState (snd b)) \<and>
            draw_target d1 = elem (stateTex (snd b)) (1 - curState (snd b)) \<and>
            draw_source d2 = elem (trailTex (snd b)) (curTrail (snd b)) \<and>
            draw_target d2 = elem (trailTex (snd b)) (1 - curTrail (snd b)) \<and>
            draw_source d3 = elem (stateTex (snd b)) (1 - curState (snd b)) \<and>
            draw_target d3 = elem (trailTex (snd b)) (1 - curTrail (snd b)) \<and>
            draw_source d1 \<noteq> draw_target d1 \<and> draw_source d2 \<noteq> draw_target d2 \<and>
            draw_source d3 \<noteq> draw_target d3 \<and>
            curState (snd b) < 2 \<and> curTrail (snd b) < 2 \<and>
            curState (snd b') = 1 - curState (snd b) \<and>
            curTrail (snd b') = 1 - curTrail (snd b) \<and>
            stateTex (snd b') = stateTex (snd b) \<and> trailTex (snd b') = trailTex (snd b) \<and>
            elem (stateTex (snd b')) (curState (snd b')) = draw_target d1 \<and>
            elem (trailTex (snd b')) (curTrail (snd b')) = draw_target d2 \<and>
            elem (trailTex (snd b')) (curTrail (snd b')) = draw_target d3"
    unfolding assms(8) b d u using f(9,10) x c by simp
qed

text \<open>The theorem at the first tick of the oscillator field and of the flock.\<close>

theorem double_buffer_separation_witness:
  "field_setup_ok (field_setup (osc_config osc_ramp) osc_defaults (demo_gl, field_init)) \<and>
   boids_setup_ok (boids_setup flock_random boids_defaults (demo_gl, boids_init)) \<and>
   \<not> blend demo_gl \<and>
   map (\<lambda>d. (draw_source d, draw_target d))
     (draws (fst (field_step (osc_config osc_ramp) osc_defaults touch_up
        (field_run (osc_config osc_ramp) []
           (field_setup (osc_config osc_ramp) osc_defaults (demo_gl, field_init))))))
     = [(Some 7, Some 8)] \<and>
   currentTex (snd (field_step (osc_config osc_ramp) osc_defaults touch_up
        (field_run (osc_config osc_ramp) []
           (field_setup (osc_config osc_ramp) osc_defaults (demo_gl, field_init))))) = 1 \<and>
   map (\<lambda>d. (draw_source d, draw_target d))
     (draws (fst (boids_step boids_defaults touch_up
        (boids_run [] (boids_setup flock_random boids_defaults (demo_gl, boids_init))))))
     = [(Some 14, Some 18), (Some 17, Some 18), (Some 13, Some 14)] \<and>
   curState (snd (boids_step boids_defaults touch_up
        (boids_run [] (boids_setup flock_random boids_defaults (demo_gl, boids_init))))) = 1 \<and>
   curTrail (snd (boids_step boids_defaults touch_up
        (boids_run [] (boids_setup flock_random boids_defaults (demo_gl, boids_init))))) = 1"
proof -
  let ?s0 = "field_setup (osc_config osc_ramp) osc_defaults (demo_gl, field_init)"
  let ?b0 = "boids_setup flock_random boids_defaults (demo_gl, boids_init)"
  have ok: "field_setup_ok ?s0" by (simp add: field_setup_succeeds)
  have bok: "boids_setup_ok ?b0" by (rule boids_setup_succeeds) simp_all
  have nb: "\<not> blend demo_gl" by simp
  have r: "field_run (osc_config osc_ramp) [] ?s0 = ?s0" "boids_run [] ?b0 = ?b0"
    by (simp_all add: field_run_def boids_run_def)
  from double_buffer_separation[OF ok nb r(1)[symmetric] refl bok nb r(2)[symmetric] refl,
      of osc_defaults touch_up boids_defaults touch_up]
  show ?thesis
    unfolding r using ok bok
    by (auto simp add: osc_setup_names flock_setup_names elem_def)
qed

section \<open>Trail decay\<close>

lemma v4scale_mult: "v4scale (v4scale c a) b = v4scale c (a * b)"
  by (simp add: v4scale_def mult.assoc)

lemma v4scale_one: "v4scale c 1 = c"
  by (simp add: v4scale_def)

lemma quiet_decay:
  assumes "boids_ok s" and "quiet_run ins s i j"
    and "\<forall>x\<in>set ins. trailPersistence (fst x) = p" and "i < SIM_W" and "j < SIM_H"
  shows "trail_cell (boids_run ins s) i j = v4scale (trail_cell s i j) (p ^ length ins)"
  using assms(1,2,3)
proof (induction ins arbitrary: s)
  case Nil
  then show ?case by (simp add: boids_run_def v4scale_one)
next
  case (Cons x xs)
  obtain gl st where s: "s = (gl, st)" by (cases s)
  let ?s1 = "boids_step (fst x) (snd x) s"
  have ok1: "boids_ok ?s1" by (rule boids_step_preserves[OF Cons.prems(1)])
  have q: "no_contribution (fst x) (snd x) (gl, st) i j" "quiet_run xs ?s1 i j"
    using Cons.prems(2) s by simp_all
  have p: "trailPersistence (fst x) = p" "\<forall>x\<in>set xs. trailPersistence (fst x) = p"
    using Cons.prems(3) by simp_all
  have "trail_cell (boids_run (x # xs) s) i j = trail_cell (boids_run xs ?s1) i j"
    by (simp add: boids_run_def)
  also have "\<dots> = v4scale (trail_cell ?s1 i j) (p ^ length xs)"
    by (rule Cons.IH[OF ok1 q(2) p(2)])
  also have "trail_cell ?s1 i j = v4scale (trail_cell s i j) p"
    using boids_step_trail_quiet[OF Cons.prems(1)[unfolded s] q(1) assms(4,5)] p(1) s by simp
  finally show ?case by (simp add: v4scale_mult)
qed

lemma texel_index_bound:
  assumes "0 < n"
  shows "texel_index CLAMP_TO_EDGE n x < n"
proof -
  have n: "1 \<le> real n" using assms by simp
  let ?lo = "1 / (2 * real n)"
  let ?hi = "1 - 1 / (2 * real n)"
  have "?lo \<le> 1 / 2" using n by (simp add: field_simps)
  then have lh: "?lo \<le> ?hi" by linarith
  have c: "?lo \<le> glsl_clamp x ?lo ?hi" "glsl_clamp x ?lo ?hi \<le> ?hi"
    using lh by (simp_all add: glsl_clamp_def min_def max_def)
  have "glsl_clamp x ?lo ?hi * real n \<le> ?hi * real n"
    using c(2) n by (intro mult_right_mono) simp_all
  also have "\<dots> = real n - 1 / 2" using n by (simp add: field_simps)
  finally have u: "glsl_clamp x ?lo ?hi * real n < real n" by linarith
  have "0 \<le> ?lo" by simp
  then have "0 \<le> glsl_clamp x ?lo ?hi" using c(1) by linarith
  then have "0 \<le> glsl_clamp x ?lo ?hi * real n"
    by (intro mult_nonneg_nonneg) simp_all
  then have "nat \<lfloor>glsl_clamp x ?lo ?hi * real n\<rfloor> < n"
    using u by linarith
  then show ?thesis by (simp add: texel_index_def wrap_coord_def)
qed

lemma sampler_some_cell:
  assumes "texture_binding gl = x" and "grid_texture gl x w h" and "0 < w" and "0 < h"
  shows "\<exists>i j. i < w \<and> j < h \<and> bound_sampler gl uv = texel gl x i j"
proof -
  from assms(2) obtain n t where n: "x = Some n" "gl_textures gl n = Some t" "tex_w t = w"
      "tex_h t = h" "wrap_s t = CLAMP_TO_EDGE" "wrap_t t = CLAMP_TO_EDGE"
    by (auto dest: grid_texture_SomeD)
  let ?i = "texel_index CLAMP_TO_EDGE w (vx uv)"
  let ?j = "texel_index CLAMP_TO_EDGE h (vy uv)"
  have "bound_sampler gl uv = texel gl x ?i ?j"
    by (simp add: bound_sampler_def texel_def deref_def assms(1) n texture2D_def texel_at_def)
  moreover have "?i < w" "?j < h" using texel_index_bound assms(3,4) by simp_all
  ultimately show ?thesis by blast
qed

lemma agent_sampler_const:
  assumes "boids_ok (gl, st)"
    and "\<And>i j. i < AGENT_RES \<Longrightarrow> j < AGENT_RES \<Longrightarrow> agent_cell (gl, st) i j = c"
  shows "agent_sampler (gl, st) uv = c"
proof -
  note f = boids_ok_facts[OF assms(1)]
  let ?g = "bindTexture (elem (stateTex st) (curState st)) gl"
  have "\<exists>i j. i < AGENT_RES \<and> j < AGENT_RES \<and>
          bound_sampler ?g uv = texel ?g (elem (stateTex st) (curState st)) i j"
    by (rule sampler_some_cell) (simp_all add: f(3), simp_all add: AGENT_RES_def)
  then show ?thesis using assms(2) by (auto simp add: agent_sampler_def agent_cell_def)
qed

lemma setUniform_draw:
  assumes "prog_shape gl p = Some (BOID_DRAW_VS, BOID_DRAW_FS)" and "current_program gl = p"
    and "n \<in> set (uniform_names BOID_DRAW_VS)"
  shows "uniform_of (setUniform p n ''1f'' v gl) p n'
           = (if n' = n then [js_arg v 0] else uniform_of gl p n')"
  using assms setUniform_same(1)[OF assms(1) _ assms(2), of n v] setUniform_other[of n' n p _ v gl]
  by auto

lemma uniform_of_flags [simp]:
  "uniform_of (gl\<lparr>blend := b\<rparr>) q n = uniform_of gl q n"
  "uniform_of (gl\<lparr>array_buffer_binding := a\<rparr>) q n = uniform_of gl q n"
  by (simp_all add: uniform_of_def)

lemma points_bind_uniforms:
  assumes "prog_shape gl (boidDrawProg st) = Some (BOID_DRAW_VS, BOID_DRAW_FS)"
  shows "uniform_of (points_bind params st gl) (boidDrawProg st) ''u_stateRes'' = [real AGENT_RES]"
    and "uniform_of (points_bind params st gl) (boidDrawProg st) ''u_pointSize'' = [5]"
  using assms
  by (simp_all add: points_bind_def Let_def setUniform_draw js_arg_def)

text \<open>A flock whose agents all sit at \<open>(px, 1/2)\<close> and head right at speed 0.002.\<close>

lemma flock_advance:
  assumes "boids_ok (gl, st)"
    and "\<And>i j. i < AGENT_RES \<Longrightarrow> j < AGENT_RES \<Longrightarrow>
           agent_cell (gl, st) i j = Vec4 px (1 / 2) (1 / 500) 0"
    and "0 \<le> px" and "px + 1 / 500 < 1"
  shows "step_fs_main (uniform_of (update_bind boids_defaults touch_up st gl) (stepProg_b st))
           (agent_sampler (gl, st)) uv = Vec4 (px + 1 / 500) (1 / 2) (1 / 500) 0"
proof -
  from assms(1) have sh: "prog_shape gl (stepProg_b st) = Some (VERTEX_SHADER_SRC, STEP_FS)"
    by (simp add: boids_ok_def)
  have smp: "\<And>uv. agent_sampler (gl, st) uv = Vec4 px (1 / 2) (1 / 500) 0"
    by (rule agent_sampler_const[OF assms(1)]) (rule assms(2))
  note u = update_bind_uniforms[OF sh, of boids_defaults touch_up]
  let ?U = "uniform_of (update_bind boids_defaults touch_up st gl) (stepProg_b st)"
  have m: "uniform1f ?U ''u_maxSpeed'' = 1 / 250"
    by (simp add: u uniform1f_def) (simp add: js_arg_def boids_defaults_def)
  have "step_fs_main ?U (agent_sampler (gl, st)) uv
          = integrate (Vec2 px (1 / 2)) (Vec2 (1 / 500) 0) (Vec2 0 0) (1 / 250)"
    unfolding m[symmetric]
    by (rule step_fs_coincident[OF smp])
       (simp_all add: u uniform1f_def,
        simp_all add: js_arg_def boids_defaults_def touch_up_def modeMap_def)
  also have "\<dots> = Vec4 (glsl_fract (px + 1 / 500)) (glsl_fract (1 / 2)) (1 / 500) 0"
    by (rule integrate_cruise) simp_all
  also have "\<lfloor>px + 1 / 500\<rfloor> = 0" using assms(3,4) by linarith
  then have "glsl_fract (px + 1 / 500) = px + 1 / 500" by (simp add: glsl_fract_def)
  also have "glsl_fract (1 / 2 :: real) = 1 / 2" by (simp add: glsl_fract_def)
  finally show ?thesis .
qed

lemma flock_advance_cell:
  assumes "boids_ok (gl, st)"
    and "\<And>i j. i < AGENT_RES \<Longrightarrow> j < AGENT_RES \<Longrightarrow>
           agent_cell (gl, st) i j = Vec4 px (1 / 2) (1 / 500) 0"
    and "0 \<le> px" and "px + 1 / 500 < 1" and "i < AGENT_RES" and "j < AGENT_RES"
  shows "agent_cell (boids_step boids_defaults touch_up (gl, st)) i j
           = Vec4 (px + 1 / 500) (1 / 2) (1 / 500) 0"
  unfolding boids_step_agent_cell[OF assms(1,5,6)]
  by (rule flock_advance[OF assms(1) _ assms(3,4)]) (rule assms(2))

lemma flock_point_vertices:
  assumes "boids_ok (gl, st)"
    and "\<And>i j. i < AGENT_RES \<Longrightarrow> j < AGENT_RES \<Longrightarrow>
           agent_cell (gl, st) i j = Vec4 px (1 / 2) (1 / 500) 0"
    and "0 \<le> px" and "px + 1 / 500 < 1"
    and "g8 = points_bind boids_defaults (st\<lparr>curState := 1 - curState st\<rparr>)
                (fade_pass boids_defaults (st\<lparr>curState := 1 - curState st\<rparr>)
                   (update_pass boids_defaults touch_up st gl))"
  shows "\<exists>q. deref (gl_programs g8) (current_program g8) = Some q \<and>
             prog_vs q = BOID_DRAW_VS \<and> prog_fs q = BOID_DRAW_FS \<and>
             (\<forall>a. gl_Position (boid_draw_vs (prog_uniforms q) (bound_sampler g8) a)
                    = Vec2 ((px + 1 / 500) * 2 - 1) 0 \<and>
                  gl_PointSize (boid_draw_vs (prog_uniforms q) (bound_sampler g8) a) = 5)"
proof -
  let ?st1 = "st\<lparr>curState := 1 - curState st\<rparr>"
  let ?gl1 = "update_pass boids_defaults touch_up st gl"
  let ?gl2 = "fade_pass boids_defaults ?st1 ?gl1"
  let ?g8 = "points_bind boids_defaults ?st1 ?gl2"
  let ?x = "elem (stateTex st) (1 - curState st)"
  let ?c = "Vec4 (px + 1 / 500) (1 / 2) (1 / 500) 0"
  note f = boids_ok_facts[OF assms(1)]
  have ok1: "boids_ok (?gl1, ?st1)" by (rule update_pass_ok[OF assms(1)])
  from assms(1) have "prog_shape gl (boidDrawProg st) = Some (BOID_DRAW_VS, BOID_DRAW_FS)"
    by (simp add: boids_ok_def)
  then have sh: "prog_shape ?gl2 (boidDrawProg ?st1) = Some (BOID_DRAW_VS, BOID_DRAW_FS)"
    by simp
  have sh8: "prog_shape ?g8 (boidDrawProg st) = Some (BOID_DRAW_VS, BOID_DRAW_FS)"
    using sh by simp
  from prog_shape_SomeD[OF sh8]
  obtain h q where h: "boidDrawProg st = Some h" "gl_programs ?g8 h = Some q"
      "prog_vs q = BOID_DRAW_VS" "prog_fs q = BOID_DRAW_FS"
    by auto
  have d: "deref (gl_programs ?g8) (current_program ?g8) = Some q"
    using h by (simp add: deref_def)
  have uo: "prog_uniforms q n = uniform_of ?g8 (boidDrawProg ?st1) n" for n
    using h by (simp add: uniform_of_def deref_def)
  have sz: "uniform1f (prog_uniforms q) ''u_pointSize'' = 5"
    unfolding uniform1f_def uo points_bind_uniforms(2)[OF sh] by (simp add: js_arg_def)
  have xt: "?x \<noteq> elem (trailTex st) (1 - curTrail st)"
    using f(11)[of "1 - curState st"] by auto
  have smp: "bound_sampler ?g8 uv = ?c" for uv
  proof -
    have tb: "texture_binding ?g8 = ?x" by simp
    have g: "grid_texture ?g8 ?x AGENT_RES AGENT_RES" using f(4) by simp
    have "\<exists>i j. i < AGENT_RES \<and> j < AGENT_RES \<and> bound_sampler ?g8 uv = texel ?g8 ?x i j"
      by (rule sampler_some_cell[OF tb g]) (simp_all add: AGENT_RES_def)
    then obtain a b where ab: "a < AGENT_RES" "b < AGENT_RES"
        "bound_sampler ?g8 uv = texel ?g8 ?x a b"
      by blast
    have "texel ?g8 ?x a b = texel ?gl2 ?x a b" by simp
    also have "\<dots> = texel ?gl1 ?x a b"
      using xt by (intro fade_pass_other[OF ok1]) simp
    also have "\<dots> = ?c"
      unfolding update_pass_cell[OF assms(1) ab(1,2)]
      by (rule flock_advance[OF assms(1) _ assms(3,4)]) (rule assms(2))
    finally show ?thesis using ab(3) by simp
  qed
  have pv: "gl_Position (boid_draw_vs (prog_uniforms q) (bound_sampler ?g8) a)
              = Vec2 ((px + 1 / 500) * 2 - 1) 0"
       "gl_PointSize (boid_draw_vs (prog_uniforms q) (bound_sampler ?g8) a) = 5" for a
    unfolding boid_draw_vs_def Let_def smp sz
    by (simp_all add: vsub_def vscale_def)
  show ?thesis unfolding assms(5) using d h(3,4) pv by blast
qed

lemma flock_quiet:
  assumes "boids_ok (gl, st)"
    and "\<And>i j. i < AGENT_RES \<Longrightarrow> j < AGENT_RES \<Longrightarrow>
           agent_cell (gl, st) i j = Vec4 px (1 / 2) (1 / 500) 0"
    and "0 \<le> px" and "px + 1 / 500 < 1"
    and "5 / 2 \<le> \<bar>real i + 1 / 2 - (px + 1 / 500) * 768\<bar>"
  shows "no_contribution boids_defaults touch_up (gl, st) i j"
proof -
  let ?st1 = "st\<lparr>curState := 1 - curState st\<rparr>"
  let ?g8 = "points_bind boids_defaults ?st1
               (fade_pass boids_defaults ?st1 (update_pass boids_defaults touch_up st gl))"
  from flock_point_vertices[OF assms(1,2,3,4) refl]
  obtain q where d: "deref (gl_programs ?g8) (current_program ?g8) = Some q"
    and pv: "\<And>a. gl_Position (boid_draw_vs (prog_uniforms q) (bound_sampler ?g8) a)
                    = Vec2 ((px + 1 / 500) * 2 - 1) 0"
            "\<And>a. gl_PointSize (boid_draw_vs (prog_uniforms q) (bound_sampler ?g8) a) = 5"
    by blast
  have vp: "viewport ?g8 = (SIM_W, SIM_H)" by simp
  have pc: "point_coord (SIM_W, SIM_H) (boid_draw_vs (prog_uniforms q) (bound_sampler ?g8) a) i j
              = None" for a
  proof -
    have ex: "real i + 1 / 2 - ((px + 1 / 500) * 2 - 1 + 1) / 2 * real SIM_W
                = real i + 1 / 2 - (px + 1 / 500) * 768"
      unfolding SIM_W_def by (simp add: field_simps)
    have nx: "\<not> \<bar>real i + 1 / 2 - ((px + 1 / 500) * 2 - 1 + 1) / 2 * real SIM_W\<bar> < 5 / 2"
      unfolding ex using assms(5) by linarith
    show ?thesis
      unfolding point_coord_def Let_def pv vec2.sel fst_conv snd_conv using nx by simp
  qed
  show ?thesis
    unfolding no_contribution_def Let_def fst_conv snd_conv d vp option.case pc
    by (simp add: list_all_iff)
qed

lemma write_pixels_texel_blend:
  assumes "render_target gl = x" and "grid_texture gl x w h" and "viewport gl = (w, h)"
    and "blend gl" and "i < w" and "j < h" and "f i j = Some c"
  shows "texel (write_pixels f gl) x i j = v4add (texel gl x i j) c"
proof -
  from assms(2) obtain n t where n: "x = Some n" "gl_textures gl n = Some t" "tex_w t = w"
      "tex_h t = h"
    by (auto dest: grid_texture_SomeD)
  show ?thesis
    using assms(1,3-7) n by (simp add: texel_def write_pixels_def deref_def)
qed

lemma boid_draw_fs_glow:
  "ch_r (boid_draw_fs pv pc) = exp (- (vlength (vsub pc (Vec2 0.5 0.5)) * 2)
                                     * (vlength (vsub pc (Vec2 0.5 0.5)) * 2) * 3.5)"
  by (simp add: boid_draw_fs_def Let_def)

lemma fold_draw_point_glow:
  assumes "render_target gl = x" and "grid_texture gl x w h" and "viewport gl = (w, h)"
    and "blend gl" and "i < w" and "j < h"
    and "\<And>a. point_coord (w, h) (boid_draw_vs U smp a) i j = Some pc"
    and "\<And>pv. ch_r (boid_draw_fs pv pc) = k"
  shows "ch_r (texel (fold (draw_point U smp) as gl) x i j)
           = ch_r (texel gl x i j) + real (length as) * k"
  using assms(1-4)
proof (induction as arbitrary: gl)
  case Nil
  then show ?case by simp
next
  case (Cons a as)
  let ?g = "draw_point U smp a gl"
  let ?f = "\<lambda>i j. case point_coord (viewport gl) (boid_draw_vs U smp a) i j of
                   None \<Rightarrow> None
                 | Some pc \<Rightarrow> Some (boid_draw_fs (boid_draw_vs U smp a) pc)"
  have e: "?g = write_pixels ?f gl" by (simp add: draw_point_def Let_def)
  have fi: "?f i j = Some (boid_draw_fs (boid_draw_vs U smp a) pc)"
    by (simp add: Cons.prems(3) assms(7))
  have "texel ?g x i j = v4add (texel gl x i j) (boid_draw_fs (boid_draw_vs U smp a) pc)"
    unfolding e
    by (rule write_pixels_texel_blend[where f = ?f, OF Cons.prems assms(5,6) fi])
  then have s: "ch_r (texel ?g x i j) = ch_r (texel gl x i j) + k"
    by (simp add: v4add_def assms(8))
  have "ch_r (texel (fold (draw_point U smp) as ?g) x i j)
          = ch_r (texel ?g x i j) + real (length as) * k"
    using Cons.prems by (intro Cons.IH) simp_all
  then show ?case by (simp add: s algebra_simps)
qed

lemma flock_glow:
  assumes "boids_ok (gl, st)"
    and "\<And>i j. i < AGENT_RES \<Longrightarrow> j < AGENT_RES \<Longrightarrow>
           agent_cell (gl, st) i j = Vec4 px (1 / 2) (1 / 500) 0"
    and "0 \<le> px" and "px + 1 / 500 < 1"
    and "\<bar>real i + 1 / 2 - (px + 1 / 500) * 768\<bar> < 5 / 2"
    and "\<bar>real j + 1 / 2 - 256\<bar> < 5 / 2" and "i < SIM_W" and "j < SIM_H"
  shows "ch_r (trail_cell (gl, st) i j) * trailPersistence boids_defaults
           < ch_r (trail_cell (boids_step boids_defaults touch_up (gl, st)) i j)"
proof -
  let ?st1 = "st\<lparr>curState := 1 - curState st\<rparr>"
  let ?gl1 = "update_pass boids_defaults touch_up st gl"
  let ?gl2 = "fade_pass boids_defaults ?st1 ?gl1"
  let ?g8 = "points_bind boids_defaults ?st1 ?gl2"
  let ?gl3 = "points_pass boids_defaults ?st1 ?gl2"
  let ?y = "elem (trailTex st) (1 - curTrail st)"
  note f = boids_ok_facts[OF assms(1)]
  have ok1: "boids_ok (?gl1, ?st1)" by (rule update_pass_ok[OF assms(1)])
  from flock_point_vertices[OF assms(1,2,3,4) refl]
  obtain q where d: "deref (gl_programs ?g8) (current_program ?g8) = Some q"
    and sh: "prog_vs q = BOID_DRAW_VS" "prog_fs q = BOID_DRAW_FS"
    and pv: "\<And>a. gl_Position (boid_draw_vs (prog_uniforms q) (bound_sampler ?g8) a)
                    = Vec2 ((px + 1 / 500) * 2 - 1) 0"
            "\<And>a. gl_PointSize (boid_draw_vs (prog_uniforms q) (bound_sampler ?g8) a) = 5"
    by blast
  let ?U = "prog_uniforms q"
  let ?smp = "bound_sampler ?g8"
  let ?ex = "real i + 1 / 2 - (px + 1 / 500) * 768"
  let ?ey = "real j + 1 / 2 - 256"
  let ?pc = "Vec2 (1 / 2 + ?ex / 5) (1 / 2 - ?ey / 5)"
  let ?k = "exp (- (vlength (vsub ?pc (Vec2 0.5 0.5)) * 2)
                 * (vlength (vsub ?pc (Vec2 0.5 0.5)) * 2) * 3.5)"
  have ib: "deref (gl_buffers ?g8) (array_buffer_binding ?g8) = Some (map real [0..<AGENT_COUNT])"
    using assms(1) by (simp add: boids_ok_def)
  have dp: "drawPoints AGENT_COUNT ?g8
              = fold (draw_point ?U ?smp) (map real [0..<AGENT_COUNT]) (log_draw ?g8)"
    unfolding drawPoints_def d ib option.case Let_def using sh by simp
  have pc: "point_coord (SIM_W, SIM_H) (boid_draw_vs ?U ?smp a) i j = Some ?pc" for a
  proof -
    have ex: "real i + 1 / 2 - ((px + 1 / 500) * 2 - 1 + 1) / 2 * real SIM_W = ?ex"
      unfolding SIM_W_def by (simp add: field_simps)
    have ey: "real j + 1 / 2 - (0 + 1) / 2 * real SIM_H = ?ey"
      unfolding SIM_H_def by simp
    have c: "\<bar>(px + 1 / 500) * 2 - 1\<bar> \<le> 1" using assms(3,4) by (simp add: abs_le_iff)
    show ?thesis
      unfolding point_coord_def Let_def pv vec2.sel fst_conv snd_conv ex ey
      using assms(5,6) c by simp
  qed
  have rt: "render_target (log_draw ?g8) = ?y"
    using f(8) by (simp add: render_target_def)
  have gt: "grid_texture (log_draw ?g8) ?y SIM_W SIM_H" using f(6) by simp
  have vp: "viewport (log_draw ?g8) = (SIM_W, SIM_H)" by simp
  have bl: "blend (log_draw ?g8)" by simp
  have "texel ?gl3 ?y i j = texel (drawPoints AGENT_COUNT ?g8) ?y i j"
    by (simp add: points_pass_def Let_def)
  then have "ch_r (texel ?gl3 ?y i j)
          = ch_r (texel (log_draw ?g8) ?y i j) + real (length (map real [0..<AGENT_COUNT])) * ?k"
    unfolding dp
    using fold_draw_point_glow[OF rt gt vp bl assms(7,8), of ?U ?smp ?pc ?k
        "map real [0..<AGENT_COUNT]"] pc boid_draw_fs_glow
    by simp
  also have "texel (log_draw ?g8) ?y i j = texel ?gl2 ?y i j" by simp
  also have "\<dots> = v4scale (texel ?gl1 (elem (trailTex st) (curTrail st)) i j)
                     (trailPersistence boids_defaults)"
    using fade_pass_cell[OF ok1 assms(7,8), of boids_defaults] by simp
  also have "texel ?gl1 (elem (trailTex st) (curTrail st)) i j
               = texel gl (elem (trailTex st) (curTrail st)) i j"
    using f(12)[of "curTrail st"] f(2) by (intro update_pass_other[OF assms(1)]) auto
  finally have e: "ch_r (texel ?gl3 ?y i j)
      = ch_r (trail_cell (gl, st) i j) * trailPersistence boids_defaults
        + real AGENT_COUNT * ?k"
    by (simp add: trail_cell_def v4scale_def)
  have "0 < real AGENT_COUNT * ?k" by (simp add: AGENT_COUNT_def AGENT_RES_def)
  then show ?thesis
    unfolding boids_step_unfold[OF assms(1)] using e by (simp add: trail_cell_def)
qed

lemma flock_trail_empty:
  "trail_cell (boids_setup flock_random boids_defaults (demo_gl, boids_init)) i j = Vec4 0 0 0 0"
  by (simp add: trail_cell_def texel_def boids_setup_def createProgram_def compileShader_def
        Let_def createTexture_def createFramebuffer_def createBuffer_def boids_init_def
        elem_def deref_def new_texture_def texImage2D_def split: prod.splits)

lemma flock_cells:
  "i < AGENT_RES \<Longrightarrow> j < AGENT_RES \<Longrightarrow>
     agent_cell (boids_setup flock_random boids_defaults (demo_gl, boids_init)) i j
       = Vec4 (1 / 2) (1 / 2) (1 / 500) 0"
  using agent_sampler_at_cell[OF flock_setup_ok, of i j boids_defaults]
    flock_setup_sampler[of boids_defaults] by simp

text \<open>
  C10. In an agent engine that was set up, after any number of steps, let \<open>n\<close> further
  steps run with the same persistence \<open>p\<close>, during which no point of the point pass
  produces a fragment at the pixel \<open>(i, j)\<close>. Then the trail texel of that pixel after the
  \<open>n\<close> steps is its value \<open>V\<close> before them times \<open>p\<close> to the power \<open>n\<close>, channel by
  channel. The arithmetic is that of the reals, so the equality is exact.
\<close>

theorem trail_decay_exponential:
  assumes "boids_setup_ok (boids_setup random params0 (gl0, boids_init))" and "\<not> blend gl0"
    and "s = boids_run pre (boids_setup random params0 (gl0, boids_init))"
    and "quiet_run ins s i j" and "\<forall>x\<in>set ins. trailPersistence (fst x) = p"
    and "i < SIM_W" and "j < SIM_H"
  shows "trail_cell (boids_run ins s) i j = v4scale (trail_cell s i j) (p ^ length ins)"
proof -
  have ok: "boids_ok s"
    unfolding assms(3) by (rule boids_reach_ok[OF assms(1,2)])
  show ?thesis by (rule quiet_decay[OF ok assms(4,5,6,7)])
qed

text \<open>
  The theorem for two ticks at the pixel \<open>(383, 255)\<close>, just behind the flock: the
  first tick of the run left a positive intensity there, and the flock has moved on.
\<close>

theorem trail_decay_exponential_witness:
  "boids_setup_ok (boids_setup flock_random boids_defaults (demo_gl, boids_init)) \<and>
   \<not> blend demo_gl \<and>
   quiet_run [(boids_defaults, touch_up), (boids_defaults, touch_up)]
     (boids_run [(boids_defaults, touch_up)]
        (boids_setup flock_random boids_defaults (demo_gl, boids_init))) 383 255 \<and>
   (383 :: nat) < SIM_W \<and> (255 :: nat) < SIM_H \<and>
   trail_cell (boids_run [(boids_defaults, touch_up), (boids_defaults, touch_up)]
     (boids_run [(boids_defaults, touch_up)]
        (boids_setup flock_random boids_defaults (demo_gl, boids_init)))) 383 255
     = v4scale (trail_cell (boids_run [(boids_defaults, touch_up)]
                  (boids_setup flock_random boids_defaults (demo_gl, boids_init))) 383 255)
         ((24 / 25) ^ 2) \<and>
   0 < ch_r (trail_cell (boids_run [(boids_defaults, touch_up)]
               (boids_setup flock_random boids_defaults (demo_gl, boids_init))) 383 255)"
proof -
  let ?b0 = "boids_setup flock_random boids_defaults (demo_gl, boids_init)"
  let ?b1 = "boids_step boids_defaults touch_up ?b0"
  let ?b2 = "boids_step boids_defaults touch_up ?b1"
  have sok: "boids_setup_ok ?b0" by (rule boids_setup_succeeds) simp_all
  have nb: "\<not> blend demo_gl" by simp
  have ok0: "boids_ok ?b0" by (rule flock_setup_ok)
  have ok1: "boids_ok ?b1" by (rule boids_step_preserves[OF ok0])
  have ok2: "boids_ok ?b2" by (rule boids_step_preserves[OF ok1])
  obtain g0 t0 where b0: "?b0 = (g0, t0)" by (cases ?b0)
  obtain g1 t1 where b1: "?b1 = (g1, t1)" by (cases ?b1)
  obtain g2 t2 where b2: "?b2 = (g2, t2)" by (cases ?b2)
  have c0: "\<And>i j. i < AGENT_RES \<Longrightarrow> j < AGENT_RES \<Longrightarrow>
              agent_cell (g0, t0) i j = Vec4 (1 / 2) (1 / 2) (1 / 500) 0"
    using flock_cells b0 by simp
  have c1: "\<And>i j. i < AGENT_RES \<Longrightarrow> j < AGENT_RES \<Longrightarrow>
              agent_cell (g1, t1) i j = Vec4 (251 / 500) (1 / 2) (1 / 500) 0"
    using flock_advance_cell[OF ok0[unfolded b0], where px = "1 / 2", OF c0] b0 b1 by simp
  have c2: "\<And>i j. i < AGENT_RES \<Longrightarrow> j < AGENT_RES \<Longrightarrow>
              agent_cell (g2, t2) i j = Vec4 (63 / 125) (1 / 2) (1 / 500) 0"
    using flock_advance_cell[OF ok1[unfolded b1], where px = "251 / 500", OF c1] b1 b2 by simp
  have q1: "no_contribution boids_defaults touch_up ?b1 383 255"
    unfolding b1 by (rule flock_quiet[OF ok1[unfolded b1] c1]) simp_all
  have q2: "no_contribution boids_defaults touch_up ?b2 383 255"
    unfolding b2 by (rule flock_quiet[OF ok2[unfolded b2] c2]) simp_all
  have r: "boids_run [(boids_defaults, touch_up)] ?b0 = ?b1" by (simp add: boids_run_def)
  have q: "quiet_run [(boids_defaults, touch_up), (boids_defaults, touch_up)]
             (boids_run [(boids_defaults, touch_up)] ?b0) 383 255"
    unfolding r using q1 q2 by simp
  have p: "\<forall>x\<in>set [(boids_defaults, touch_up), (boids_defaults, touch_up)].
             trailPersistence (fst x) = 24 / 25"
    by (simp add: boids_defaults_def)
  have d: "(383 :: nat) < SIM_W" "(255 :: nat) < SIM_H" by (simp_all add: SIM_W_def SIM_H_def)
  have l: "length [(boids_defaults, touch_up), (boids_defaults, touch_up)] = 2" by simp
  note t = trail_decay_exponential[OF sok nb refl q p d, unfolded l]
  have "ch_r (trail_cell (g0, t0) 383 255) * trailPersistence boids_defaults
          < ch_r (trail_cell (boids_step boids_defaults touch_up (g0, t0)) 383 255)"
    by (rule flock_glow[OF ok0[unfolded b0], where px = "1 / 2", OF c0])
       (simp_all add: SIM_W_def SIM_H_def)
  then have v: "0 < ch_r (trail_cell (boids_run [(boids_defaults, touch_up)] ?b0) 383 255)"
    unfolding r b0[symmetric] by (simp add: flock_trail_empty)
  show ?thesis using sok nb q d t v by blast
qed

section \<open>The step kernels on the lattice\<close>

lemma lattice_reads_points:
  "lattice_reads nxt prv cell i j (frag_uv SIM_W SIM_H i j) = cell i j"
  "lattice_reads nxt prv cell i j (vadd (frag_uv SIM_W SIM_H i j) (Vec2 0 (1 / real SIM_H)))
     = cell i (nxt SIM_H j)"
  "lattice_reads nxt prv cell i j (vsub (frag_uv SIM_W SIM_H i j) (Vec2 0 (1 / real SIM_H)))
     = cell i (prv SIM_H j)"
  "lattice_reads nxt prv cell i j (vsub (frag_uv SIM_W SIM_H i j) (Vec2 (1 / real SIM_W) 0))
     = cell (prv SIM_W i) j"
  "lattice_reads nxt prv cell i j (vadd (frag_uv SIM_W SIM_H i j) (Vec2 (1 / real SIM_W) 0))
     = cell (nxt SIM_W i) j"
  by (simp_all add: lattice_reads_def Let_def frag_uv_def vadd_def vsub_def SIM_W_def SIM_H_def
        add_divide_distrib)

lemma rd_main_reads:
  assumes "uniform2f U ''u_resolution'' = Vec2 w h"
    and "smp v_uv = smp' v_uv"
    and "smp (vadd v_uv (Vec2 0 (1 / h))) = smp' (vadd v_uv (Vec2 0 (1 / h)))"
    and "smp (vsub v_uv (Vec2 0 (1 / h))) = smp' (vsub v_uv (Vec2 0 (1 / h)))"
    and "smp (vsub v_uv (Vec2 (1 / w) 0)) = smp' (vsub v_uv (Vec2 (1 / w) 0))"
    and "smp (vadd v_uv (Vec2 (1 / w) 0)) = smp' (vadd v_uv (Vec2 (1 / w) 0))"
  shows "rd_main U smp v_uv = rd_main U smp' v_uv"
  using assms(2-6) by (simp add: rd_main_def Let_def assms(1))

lemma osc_main_reads:
  assumes "uniform2f U ''u_resolution'' = Vec2 w h"
    and "smp v_uv = smp' v_uv"
    and "smp (vadd v_uv (Vec2 0 (1 / h))) = smp' (vadd v_uv (Vec2 0 (1 / h)))"
    and "smp (vsub v_uv (Vec2 0 (1 / h))) = smp' (vsub v_uv (Vec2 0 (1 / h)))"
    and "smp (vsub v_uv (Vec2 (1 / w) 0)) = smp' (vsub v_uv (Vec2 (1 / w) 0))"
    and "smp (vadd v_uv (Vec2 (1 / w) 0)) = smp' (vadd v_uv (Vec2 (1 / w) 0))"
  shows "osc_main U smp v_uv = osc_main U smp' v_uv"
  using assms(2-6) by (simp add: osc_main_def Let_def assms(1))

lemma setUniform_quad:
  assumes "prog_shape gl p = Some (VERTEX_SHADER_SRC, fs)" and "current_program gl = p"
    and "n \<in> set (uniform_names fs)"
  shows "uniform_of (setUniform p n ''1f'' v gl) p n'
           = (if n' = n then [js_arg v 0] else uniform_of gl p n')"
    and "uniform_of (setUniform p n ''2f'' v gl) p n'
           = (if n' = n then [js_arg v 0, js_arg v 1] else uniform_of gl p n')"
  using assms setUniform_same[OF assms(1) _ assms(2), of n v] setUniform_other[of n' n p _ v gl]
  by auto

lemma rd_bind_uniforms:
  assumes "prog_shape gl (stepProg st) = Some (VERTEX_SHADER_SRC, RD_STEP_SHADER)"
  shows "uniform_of (field_bind (rd_config init) params t st gl) (stepProg st) ''u_resolution''
           = [real SIM_W, real SIM_H]"
    and "uniform_of (field_bind (rd_config init) params t st gl) (stepProg st) ''u_touchRadius''
           = [0.03]"
    and "uniform_of (field_bind (rd_config init) params t st gl) (stepProg st) ''u_touch''
           = (if active t then [fst (pos t), snd (pos t)] else [- 1, - 1])"
    and "uniform_of (field_bind (rd_config init) params t st gl) (stepProg st) ''u_f'' = [p_f params]"
    and "uniform_of (field_bind (rd_config init) params t st gl) (stepProg st) ''u_k'' = [p_k params]"
    and "uniform_of (field_bind (rd_config init) params t st gl) (stepProg st) ''u_Du'' = [0.16]"
    and "uniform_of (field_bind (rd_config init) params t st gl) (stepProg st) ''u_Dv'' = [0.08]"
  using assms
  by (simp_all add: field_bind_def rd_config_def Let_def setUniform_quad setUniform_other js_arg_def)

lemma osc_bind_uniforms:
  assumes "prog_shape gl (stepProg st) = Some (VERTEX_SHADER_SRC, OSC_STEP_SHADER)"
  shows "uniform_of (field_bind (osc_config init) params t st gl) (stepProg st) ''u_resolution''
           = [real SIM_W, real SIM_H]"
    and "uniform_of (field_bind (osc_config init) params t st gl) (stepProg st) ''u_touchRadius''
           = [0.06]"
    and "uniform_of (field_bind (osc_config init) params t st gl) (stepProg st) ''u_touch''
           = (if active t then [fst (pos t), snd (pos t)] else [- 1, - 1])"
    and "uniform_of (field_bind (osc_config init) params t st gl) (stepProg st) ''u_K'' = [p_K params]"
    and "uniform_of (field_bind (osc_config init) params t st gl) (stepProg st) ''u_dt'' = [0.12]"
  using assms
  by (simp_all add: field_bind_def osc_config_def Let_def setUniform_quad setUniform_other js_arg_def)

lemma field_step_kernel:
  assumes "field_ok config s" and "frag_main (shader_step config) = Some main"
    and "i < SIM_W" and "j < SIM_H"
  shows "\<exists>d. draws (fst (field_step config params t s)) = d # draws (fst s) \<and>
             draw_uniforms d
               = uniform_of (field_bind config params t (snd s) (fst s)) (stepProg (snd s)) \<and>
             current_cell (field_step config params t s) i j
               = main (draw_uniforms d) (current_sampler s) (frag_uv SIM_W SIM_H i j)"
proof -
  obtain gl st where s: "s = (gl, st)" by (cases s)
  note d = field_step_draws(1)[OF assms(1)[unfolded s], of params t]
  note c = field_step_cell[OF assms(1)[unfolded s] assms(2,3,4), of params t]
  show ?thesis unfolding s using d c by simp
qed

lemma clamped_lattice:
  assumes "field_ok config s" and "i < SIM_W" and "j < SIM_H"
  shows "current_sampler s (frag_uv SIM_W SIM_H i j)
           = lattice_reads clamp_next clamp_prev (current_cell s) i j (frag_uv SIM_W SIM_H i j)"
    and "current_sampler s (vadd (frag_uv SIM_W SIM_H i j) (Vec2 0 (1 / real SIM_H)))
           = lattice_reads clamp_next clamp_prev (current_cell s) i j
               (vadd (frag_uv SIM_W SIM_H i j) (Vec2 0 (1 / real SIM_H)))"
    and "current_sampler s (vsub (frag_uv SIM_W SIM_H i j) (Vec2 0 (1 / real SIM_H)))
           = lattice_reads clamp_next clamp_prev (current_cell s) i j
               (vsub (frag_uv SIM_W SIM_H i j) (Vec2 0 (1 / real SIM_H)))"
    and "current_sampler s (vsub (frag_uv SIM_W SIM_H i j) (Vec2 (1 / real SIM_W) 0))
           = lattice_reads clamp_next clamp_prev (current_cell s) i j
               (vsub (frag_uv SIM_W SIM_H i j) (Vec2 (1 / real SIM_W) 0))"
    and "current_sampler s (vadd (frag_uv SIM_W SIM_H i j) (Vec2 (1 / real SIM_W) 0))
           = lattice_reads clamp_next clamp_prev (current_cell s) i j
               (vadd (frag_uv SIM_W SIM_H i j) (Vec2 (1 / real SIM_W) 0))"
  unfolding lattice_reads_points field_ok_sampler[OF assms] clamp_next_def clamp_prev_def
  by (rule refl)+

lemma rd_step_clamped:
  assumes "field_ok (rd_config init) s" and "i < SIM_W" and "j < SIM_H"
  shows "\<exists>d. draws (fst (field_step (rd_config init) params t s)) = d # draws (fst s) \<and>
             uniform2f (draw_uniforms d) ''u_resolution'' = Vec2 (real SIM_W) (real SIM_H) \<and>
             current_cell (field_step (rd_config init) params t s) i j
               = rd_main (draw_uniforms d)
                   (lattice_reads clamp_next clamp_prev (current_cell s) i j)
                   (frag_uv SIM_W SIM_H i j)"
proof -
  have m: "frag_main (shader_step (rd_config init)) = Some rd_main"
    by (simp add: rd_config_def)
  from field_step_kernel[OF assms(1) m assms(2,3), of params t]
  obtain d where d: "draws (fst (field_step (rd_config init) params t s)) = d # draws (fst s)"
    and u: "draw_uniforms d
              = uniform_of (field_bind (rd_config init) params t (snd s) (fst s)) (stepProg (snd s))"
    and c: "current_cell (field_step (rd_config init) params t s) i j
              = rd_main (draw_uniforms d) (current_sampler s) (frag_uv SIM_W SIM_H i j)"
    by blast
  have sh: "prog_shape (fst s) (stepProg (snd s)) = Some (VERTEX_SHADER_SRC, RD_STEP_SHADER)"
    using assms(1) by (cases s) (simp add: field_ok_def rd_config_def)
  have r: "uniform2f (draw_uniforms d) ''u_resolution'' = Vec2 (real SIM_W) (real SIM_H)"
    unfolding u uniform2f_def rd_bind_uniforms(1)[OF sh] by (simp add: js_arg_def)
  have "rd_main (draw_uniforms d) (current_sampler s) (frag_uv SIM_W SIM_H i j)
          = rd_main (draw_uniforms d) (lattice_reads clamp_next clamp_prev (current_cell s) i j)
              (frag_uv SIM_W SIM_H i j)"
    by (rule rd_main_reads[OF r clamped_lattice[OF assms]])
  then show ?thesis using d r c by auto
qed

lemma osc_step_clamped:
  assumes "field_ok (osc_config init) s" and "i < SIM_W" and "j < SIM_H"
  shows "\<exists>d. draws (fst (field_step (osc_config init) params t s)) = d # draws (fst s) \<and>
             uniform2f (draw_uniforms d) ''u_resolution'' = Vec2 (real SIM_W) (real SIM_H) \<and>
             current_cell (field_step (osc_config init) params t s) i j
               = osc_main (draw_uniforms d)
                   (lattice_reads clamp_next clamp_prev (current_cell s) i j)
                   (frag_uv SIM_W SIM_H i j)"
proof -
  have m: "frag_main (shader_step (osc_config init)) = Some osc_main"
    by (simp add: osc_config_def)
  from field_step_kernel[OF assms(1) m assms(2,3), of params t]
  obtain d where d: "draws (fst (field_step (osc_config init) params t s)) = d # draws (fst s)"
    and u: "draw_uniforms d
              = uniform_of (field_bind (osc_config init) params t (snd s) (fst s)) (stepProg (snd s))"
    and c: "current_cell (field_step (osc_config init) params t s) i j
              = osc_main (draw_uniforms d) (current_sampler s) (frag_uv SIM_W SIM_H i j)"
    by blast
  have sh: "prog_shape (fst s) (stepProg (snd s)) = Some (VERTEX_SHADER_SRC, OSC_STEP_SHADER)"
    using assms(1) by (cases s) (simp add: field_ok_def osc_config_def)
  have r: "uniform2f (draw_uniforms d) ''u_resolution'' = Vec2 (real SIM_W) (real SIM_H)"
    unfolding u uniform2f_def osc_bind_uniforms(1)[OF sh] by (simp add: js_arg_def)
  have "osc_main (draw_uniforms d) (current_sampler s) (frag_uv SIM_W SIM_H i j)
          = osc_main (draw_uniforms d) (lattice_reads clamp_next clamp_prev (current_cell s) i j)
              (frag_uv SIM_W SIM_H i j)"
    by (rule osc_main_reads[OF r clamped_lattice[OF assms]])
  then show ?thesis using d r c by auto
qed

text \<open>
  C1, as the code has it. In a reaction-diffusion or oscillator simulation that was set
  up, after any number of steps, the next step issues one draw call with
  \<open>u_resolution = (768, 512)\<close>, and the value it stores at the cell \<open>(i, j)\<close> is the value
  of the step kernel (\<open>rd_main\<close>, \<open>osc_main\<close>) under that draw's uniforms when its five
  reads \<open>v_uv\<close>, \<open>v_uv \<plusminus> dy\<close>, \<open>v_uv \<plusminus> dx\<close> are answered by the cell itself and by the
  adjacent cells with the index clamped at the edges: past the last row or column the read
  returns the boundary cell itself, as it does before the first. \<open>createTexture\<close> gives
  every grid buffer the wrap mode \<open>CLAMP_TO_EDGE\<close>, and the kernels add the offsets
  \<open>dx\<close> and \<open>dy\<close> to \<open>v_uv\<close> without reducing the sum, so no read wraps to the opposite
  edge.
\<close>

theorem lattice_reads_clamp_to_edge:
  assumes "field_setup_ok (field_setup (rd_config rinit) rp0 (rgl0, field_init))"
    and "\<not> blend rgl0"
    and "rs = field_run (rd_config rinit) rins (field_setup (rd_config rinit) rp0 (rgl0, field_init))"
    and "field_setup_ok (field_setup (osc_config oinit) op0 (ogl0, field_init))"
    and "\<not> blend ogl0"
    and "os = field_run (osc_config oinit) oins
                (field_setup (osc_config oinit) op0 (ogl0, field_init))"
    and "i < SIM_W" and "j < SIM_H"
  shows "(\<exists>d. draws (fst (field_step (rd_config rinit) rp rt rs)) = d # draws (fst rs) \<and>
              uniform2f (draw_uniforms d) ''u_resolution'' = Vec2 (real SIM_W) (real SIM_H) \<and>
              current_cell (field_step (rd_config rinit) rp rt rs) i j
                = rd_main (draw_uniforms d)
                    (lattice_reads clamp_next clamp_prev (current_cell rs) i j)
                    (frag_uv SIM_W SIM_H i j)) \<and>
         (\<exists>d. draws (fst (field_step (osc_config oinit) opm ot os)) = d # draws (fst os) \<and>
              uniform2f (draw_uniforms d) ''u_resolution'' = Vec2 (real SIM_W) (real SIM_H) \<and>
              current_cell (field_step (osc_config oinit) opm ot os) i j
                = osc_main (draw_uniforms d)
                    (lattice_reads clamp_next clamp_prev (current_cell os) i j)
                    (frag_uv SIM_W SIM_H i j)) \<and>
         clamp_next SIM_W (SIM_W - 1) = SIM_W - 1 \<and> clamp_prev SIM_W 0 = 0 \<and>
         clamp_next SIM_H (SIM_H - 1) = SIM_H - 1 \<and> clamp_prev SIM_H 0 = 0"
proof -
  have rok: "field_ok (rd_config rinit) rs"
    unfolding assms(3) by (rule field_reach_ok[OF assms(1,2)])
  have ook: "field_ok (osc_config oinit) os"
    unfolding assms(6) by (rule field_reach_ok[OF assms(4,5)])
  show ?thesis
    using rd_step_clamped[OF rok assms(7,8), of rp rt]
      osc_step_clamped[OF ook assms(7,8), of opm ot]
    by (simp add: clamp_next_def clamp_prev_def)
qed

lemma rd_ramp_setup:
  "current_cell (field_setup (rd_config rd_ramp) rd_defaults (demo_gl, field_init)) i j
     = texImage2D SIM_W (rd_ramp SIM_W SIM_H rd_defaults) i j"
  "draws (fst (field_setup (rd_config rd_ramp) rd_defaults (demo_gl, field_init))) = []"
  by (simp_all add: field_setup_def createProgram_def compileShader_def Let_def
        createTexture_def createFramebuffer_def current_cell_def texel_def deref_def
        field_init_def elem_def new_texture_def rd_config_def demo_gl_def initWebGL_def
        createBuffer_def split: prod.splits)

lemma rd_ramp_cells:
  "texImage2D SIM_W (rd_ramp SIM_W SIM_H p) 767 0 = Vec4 (767 / 768) 0 0 1"
  "texImage2D SIM_W (rd_ramp SIM_W SIM_H p) 767 1 = Vec4 (767 / 768) 0 0 1"
  "texImage2D SIM_W (rd_ramp SIM_W SIM_H p) 767 511 = Vec4 (767 / 768) 0 0 1"
  "texImage2D SIM_W (rd_ramp SIM_W SIM_H p) 766 0 = Vec4 (766 / 768) 0 0 1"
  "texImage2D SIM_W (rd_ramp SIM_W SIM_H p) 0 0 = Vec4 0 0 0 1"
  by (simp_all add: texImage2D_def rd_ramp_def SIM_W_def)

lemma rd_ramp_step:
  fixes nxt prv
  assumes "U = draw_uniforms (hd (draws (fst (field_step (rd_config rd_ramp) rd_defaults touch_up
                 (field_setup (rd_config rd_ramp) rd_defaults (demo_gl, field_init))))))"
  shows "current_cell (field_step (rd_config rd_ramp) rd_defaults touch_up
           (field_setup (rd_config rd_ramp) rd_defaults (demo_gl, field_init))) 767 0
         = rd_main U (lattice_reads clamp_next clamp_prev
             (current_cell (field_setup (rd_config rd_ramp) rd_defaults (demo_gl, field_init)))
             767 0) (frag_uv SIM_W SIM_H 767 0)"
    and "uniform2f U ''u_resolution'' = Vec2 (real SIM_W) (real SIM_H)"
    and "uniform2f U ''u_touch'' = Vec2 (- 1) (- 1)"
    and "uniform1f U ''u_touchRadius'' = 3 / 100"
    and "uniform1f U ''u_f'' = 21 / 500" and "uniform1f U ''u_k'' = 63 / 1000"
    and "uniform1f U ''u_Du'' = 4 / 25" and "uniform1f U ''u_Dv'' = 2 / 25"
proof -
  let ?s = "field_setup (rd_config rd_ramp) rd_defaults (demo_gl, field_init)"
  have ok: "field_ok (rd_config rd_ramp) ?s"
    by (rule field_setup_establishes) (simp_all add: field_setup_succeeds)
  have ij: "767 < SIM_W" "0 < SIM_H" by (simp_all add: SIM_W_def SIM_H_def)
  have m: "frag_main (shader_step (rd_config rd_ramp)) = Some rd_main"
    by (simp add: rd_config_def)
  from field_step_kernel[OF ok m ij, of rd_defaults touch_up]
  obtain d where d: "draws (fst (field_step (rd_config rd_ramp) rd_defaults touch_up ?s))
                       = d # draws (fst ?s)"
    and u: "draw_uniforms d = uniform_of
              (field_bind (rd_config rd_ramp) rd_defaults touch_up (snd ?s) (fst ?s))
              (stepProg (snd ?s))"
    by blast
  have U: "U = draw_uniforms d" unfolding assms d by simp
  from rd_step_clamped[OF ok ij, of rd_defaults touch_up]
  show "current_cell (field_step (rd_config rd_ramp) rd_defaults touch_up ?s) 767 0
         = rd_main U (lattice_reads clamp_next clamp_prev (current_cell ?s) 767 0)
             (frag_uv SIM_W SIM_H 767 0)"
    unfolding U d by auto
  have sh: "prog_shape (fst ?s) (stepProg (snd ?s)) = Some (VERTEX_SHADER_SRC, RD_STEP_SHADER)"
    using ok by (cases ?s) (simp add: field_ok_def rd_config_def)
  note b = rd_bind_uniforms[OF sh, of rd_ramp rd_defaults touch_up]
  show "uniform2f U ''u_resolution'' = Vec2 (real SIM_W) (real SIM_H)"
    "uniform2f U ''u_touch'' = Vec2 (- 1) (- 1)"
    "uniform1f U ''u_touchRadius'' = 3 / 100"
    "uniform1f U ''u_f'' = 21 / 500" "uniform1f U ''u_k'' = 63 / 1000"
    "uniform1f U ''u_Du'' = 4 / 25" "uniform1f U ''u_Dv'' = 2 / 25"
    unfolding U u uniform2f_def uniform1f_def b
    by (simp_all add: js_arg_def touch_up_def rd_defaults_def)
qed

lemma rd_ramp_values:
  assumes "uniform2f U ''u_resolution'' = Vec2 (real SIM_W) (real SIM_H)"
    and "uniform2f U ''u_touch'' = Vec2 (- 1) (- 1)"
    and "uniform1f U ''u_touchRadius'' = 3 / 100"
    and "uniform1f U ''u_f'' = 21 / 500" and "uniform1f U ''u_k'' = 63 / 1000"
    and "uniform1f U ''u_Du'' = 4 / 25" and "uniform1f U ''u_Dv'' = 2 / 25"
  shows "rd_main U (lattice_reads clamp_next clamp_prev
           (current_cell (field_setup (rd_config rd_ramp) rd_defaults (demo_gl, field_init)))
           767 0) (frag_uv SIM_W SIM_H 767 0) = Vec4 (383441 / 384000) 0 0 1"
    and "rd_main U (lattice_reads torus_next torus_prev
           (current_cell (field_setup (rd_config rd_ramp) rd_defaults (demo_gl, field_init)))
           767 0) (frag_uv SIM_W SIM_H 767 0) = Vec4 (322081 / 384000) 0 0 1"
proof -
  have n: "clamp_next SIM_H 0 = 1" "clamp_prev SIM_H 0 = 0" "clamp_prev SIM_W 767 = 766"
    "clamp_next SIM_W 767 = 767"
    "torus_next SIM_H 0 = 1" "torus_prev SIM_H 0 = 511" "torus_prev SIM_W 767 = 766"
    "torus_next SIM_W 767 = 0"
    by (simp_all add: clamp_next_def clamp_prev_def torus_next_def torus_prev_def
          SIM_W_def SIM_H_def)
  show "rd_main U (lattice_reads clamp_next clamp_prev
           (current_cell (field_setup (rd_config rd_ramp) rd_defaults (demo_gl, field_init)))
           767 0) (frag_uv SIM_W SIM_H 767 0) = Vec4 (383441 / 384000) 0 0 1"
    unfolding rd_main_def Let_def assms vec2.sel lattice_reads_points n rd_ramp_setup
      rd_ramp_cells vec4.sel
    by (simp add: glsl_clamp_def)
  show "rd_main U (lattice_reads torus_next torus_prev
           (current_cell (field_setup (rd_config rd_ramp) rd_defaults (demo_gl, field_init)))
           767 0) (frag_uv SIM_W SIM_H 767 0) = Vec4 (322081 / 384000) 0 0 1"
    unfolding rd_main_def Let_def assms vec2.sel lattice_reads_points n rd_ramp_setup
      rd_ramp_cells vec4.sel
    by (simp add: glsl_clamp_def)
qed

text \<open>
  The claim as stated fails: on the grid whose \<open>u\<close> grows along each row, the value that
  the first reaction-diffusion step stores at the last cell of row 0 is not the value of
  the step kernel when its reads wrap around the torus, where the right neighbour of that
  cell is the first cell of the row.
\<close>

theorem lattice_reads_wrap_counterexample:
  "torus_next SIM_W 767 = 0 \<and>
   current_cell (field_step (rd_config rd_ramp) rd_defaults touch_up
      (field_setup (rd_config rd_ramp) rd_defaults (demo_gl, field_init))) 767 0
   \<noteq> rd_main
       (draw_uniforms (hd (draws (fst (field_step (rd_config rd_ramp) rd_defaults touch_up
          (field_setup (rd_config rd_ramp) rd_defaults (demo_gl, field_init)))))))
       (lattice_reads torus_next torus_prev
          (current_cell (field_setup (rd_config rd_ramp) rd_defaults (demo_gl, field_init)))
          767 0)
       (frag_uv SIM_W SIM_H 767 0)"
proof -
  note s = rd_ramp_step[OF refl]
  note v = rd_ramp_values[OF s(2-8)]
  have "torus_next SIM_W 767 = 0" by (simp add: torus_next_def SIM_W_def)
  then show ?thesis unfolding s(1) v by simp
qed

lemma osc_main_frequency: "ch_g (osc_main U smp uv) = ch_g (smp uv)"
  by (simp add: osc_main_def Let_def)

text \<open>
  The theorem at the first step of the two simulations, at the last cell of row 0: the
  reaction-diffusion kernel reads \<open>u = 767/768\<close> to the right and \<open>766/768\<close> to the left,
  and the oscillator keeps its frequency.
\<close>

theorem lattice_reads_clamp_to_edge_witness:
  "field_setup_ok (field_setup (rd_config rd_ramp) rd_defaults (demo_gl, field_init)) \<and>
   field_setup_ok (field_setup (osc_config osc_ramp) osc_defaults (demo_gl, field_init)) \<and>
   \<not> blend demo_gl \<and> (767 :: nat) < SIM_W \<and> (0 :: nat) < SIM_H \<and>
   clamp_next SIM_W 767 = 767 \<and>
   current_cell (field_setup (rd_config rd_ramp) rd_defaults (demo_gl, field_init)) 767 0
     = Vec4 (767 / 768) 0 0 1 \<and>
   current_cell (field_setup (rd_config rd_ramp) rd_defaults (demo_gl, field_init)) 766 0
     = Vec4 (766 / 768) 0 0 1 \<and>
   current_cell (field_step (rd_config rd_ramp) rd_defaults touch_up
      (field_run (rd_config rd_ramp) []
         (field_setup (rd_config rd_ramp) rd_defaults (demo_gl, field_init)))) 767 0
     = Vec4 (383441 / 384000) 0 0 1 \<and>
   ch_g (current_cell (field_step (osc_config osc_ramp) osc_defaults touch_up
      (field_run (osc_config osc_ramp) []
         (field_setup (osc_config osc_ramp) osc_defaults (demo_gl, field_init)))) 767 0)
     = 3 / 5"
proof -
  let ?r = "field_setup (rd_config rd_ramp) rd_defaults (demo_gl, field_init)"
  let ?o = "field_setup (osc_config osc_ramp) osc_defaults (demo_gl, field_init)"
  have rok: "field_setup_ok ?r" by (simp add: field_setup_succeeds)
  have ook: "field_setup_ok ?o" by (simp add: field_setup_succeeds)
  have b: "\<not> blend demo_gl" by simp
  have ij: "(767 :: nat) < SIM_W" "(0 :: nat) < SIM_H" by (simp_all add: SIM_W_def SIM_H_def)
  have e: "field_run (rd_config rd_ramp) [] ?r = ?r" "field_run (osc_config osc_ramp) [] ?o = ?o"
    by (simp_all add: field_run_def)
  note t = lattice_reads_clamp_to_edge[OF rok b e(1)[symmetric] ook b e(2)[symmetric] ij,
      of rd_defaults touch_up osc_defaults touch_up]
  from t obtain d where d: "draws (fst (field_step (rd_config rd_ramp) rd_defaults touch_up ?r))
                              = d # draws (fst ?r)"
    and c: "current_cell (field_step (rd_config rd_ramp) rd_defaults touch_up ?r) 767 0
              = rd_main (draw_uniforms d)
                  (lattice_reads clamp_next clamp_prev (current_cell ?r) 767 0)
                  (frag_uv SIM_W SIM_H 767 0)"
    by blast
  have h: "draw_uniforms d
             = draw_uniforms (hd (draws (fst (field_step (rd_config rd_ramp) rd_defaults touch_up ?r))))"
    unfolding d by simp
  note s = rd_ramp_step[OF h]
  have r: "current_cell (field_step (rd_config rd_ramp) rd_defaults touch_up ?r) 767 0
             = Vec4 (383441 / 384000) 0 0 1"
    unfolding c by (rule rd_ramp_values(1)[OF s(2-8)])
  from t[THEN conjunct2, THEN conjunct1] obtain d' :: draw where c':
    "current_cell (field_step (osc_config osc_ramp) osc_defaults touch_up ?o) 767 0
       = osc_main (draw_uniforms d')
           (lattice_reads clamp_next clamp_prev (current_cell ?o) 767 0)
           (frag_uv SIM_W SIM_H 767 0)"
    by blast
  have "ch_g (current_cell (field_step (osc_config osc_ramp) osc_defaults touch_up ?o) 767 0)
          = ch_g (current_cell ?o 767 0)"
    unfolding c' osc_main_frequency lattice_reads_points by (rule refl)
  also have "\<dots> = 3 / 5"
    unfolding osc_setup_cell by (simp add: texImage2D_def osc_ramp_def SIM_W_def)
  finally have o:
    "ch_g (current_cell (field_step (osc_config osc_ramp) osc_defaults touch_up ?o) 767 0) = 3 / 5" .
  have n: "clamp_next SIM_W 767 = 767" by (simp add: clamp_next_def SIM_W_def)
  show ?thesis
    unfolding e using rok ook b ij n r o by (simp add: rd_ramp_setup rd_ramp_cells)
qed

section \<open>Phase wraparound\<close>

















section \<open>The touch sentinel\<close>







lemma boids_step_kernel:
  assumes "boids_ok s" and "i < AGENT_RES" and "j < AGENT_RES"
  shows "\<exists>d1 d2 d3. draws (fst (boids_step params t s)) = d3 # d2 # d1 # draws (fst s) \<and>
           draw_uniforms d1 = uniform_of (update_bind params t (snd s) (fst s)) (stepProg_b (snd s)) \<and>
           agent_cell (boids_step params t s) i j
             = step_fs_main (draw_uniforms d1) (agent_sampler s) (frag_uv AGENT_RES AGENT_RES i j)"
proof -
  obtain gl st where s: "s = (gl, st)" by (cases s)
  note d = boids_step_draws[OF assms(1)[unfolded s], of params t]
  note c = boids_step_agent_cell[OF assms(1)[unfolded s] assms(2,3), of params t]
  show ?thesis unfolding s using d c by simp
qed




section \<open>The speed clamp\<close>

lemma vscale_vdiv_self:
  assumes "0 < vlength w"
  shows "vscale (vdiv w (vlength w)) (vlength w) = w"
  using assms by (cases w) (simp add: vscale_def vdiv_def)

lemma integrate_clamp:
  assumes "0 < m" and "w = vadd v a"
  shows "Vec2 (ch_b (integrate p v a m)) (ch_a (integrate p v a m))
           = (if w = Vec2 0 0 then Vec2 0 0
              else vscale (vdiv w (vlength w)) (glsl_clamp (vlength w) (m * 0.12) m))"
proof -
  define spd where "spd = vlength w"
  have s0: "0 \<le> spd" by (simp add: spd_def vlength_nonneg)
  have z: "spd = 0 \<longleftrightarrow> w = Vec2 0 0" unfolding spd_def by (rule vlength_zero_iff)
  consider "spd > m" | "spd = 0" | "0 < spd" "spd < m * 0.12" | "m * 0.12 \<le> spd" "spd \<le> m" "0 < spd"
    using s0 by fastforce
  then show ?thesis
  proof cases
    case 1
    have n: "\<not> spd < m * 0.12" using 1 assms(1) by (simp add: field_simps)
    have nz: "w \<noteq> Vec2 0 0" using 1 assms(1) z by auto
    have cl: "glsl_clamp (vlength w) (m * 0.12) m = m"
      using 1 n by (simp add: glsl_clamp_def spd_def)
    have e: "Vec2 (ch_b (integrate p v a m)) (ch_a (integrate p v a m))
          = vscale (vdiv w (vlength w)) m"
      using 1 n by (simp add: integrate_def Let_def assms(2) spd_def)
    show ?thesis unfolding e cl using nz by (simp only: if_False)
  next
    case 2
    then have "Vec2 (ch_b (integrate p v a m)) (ch_a (integrate p v a m)) = w"
      using assms(1) by (simp add: integrate_def Let_def assms(2) spd_def)
    then show ?thesis using 2 z by simp
  next
    case 3
    have n: "\<not> spd > m" using 3 assms(1) by (simp add: field_simps)
    have nz: "w \<noteq> Vec2 0 0" using 3 z by auto
    have cl: "glsl_clamp (vlength w) (m * 0.12) m = m * 0.12"
      using 3 n assms(1) by (simp add: glsl_clamp_def spd_def)
    have e: "Vec2 (ch_b (integrate p v a m)) (ch_a (integrate p v a m))
          = vscale (vscale (vdiv w (vlength w)) m) 0.12"
      using 3 n by (simp add: integrate_def Let_def assms(2) spd_def)
    have k: "vscale (vscale (vdiv w (vlength w)) m) 0.12 = vscale (vdiv w (vlength w)) (m * 0.12)"
      by (simp add: vscale_def)
    show ?thesis unfolding e k cl using nz by (simp only: if_False)
  next
    case 4
    have nz: "w \<noteq> Vec2 0 0" using 4 z by auto
    have cl: "glsl_clamp (vlength w) (m * 0.12) m = vlength w"
      using 4 by (simp add: glsl_clamp_def spd_def)
    have e: "Vec2 (ch_b (integrate p v a m)) (ch_a (integrate p v a m)) = w"
      using 4 by (simp add: integrate_def Let_def assms(2) spd_def)
    have "0 < vlength w" using 4 by (simp add: spd_def)
    then have k: "vscale (vdiv w (vlength w)) (vlength w) = w" by (rule vscale_vdiv_self)
    show ?thesis unfolding e cl k using nz by (simp only: if_False)
  qed
qed

lemma glsl_clamp_range:
  assumes "lo \<le> hi"
  shows "lo \<le> glsl_clamp x lo hi" and "glsl_clamp x lo hi \<le> hi"
  using assms by (simp_all add: glsl_clamp_def)

lemma integrate_speed:
  assumes "0 < m" and "w = vadd v a"
  shows "speed (integrate p v a m)
           = (if w = Vec2 0 0 then 0 else glsl_clamp (vlength w) (m * 0.12) m)"
proof (cases "w = Vec2 0 0")
  case True
  then show ?thesis
    unfolding speed_def integrate_clamp[OF assms] by (simp add: vlength_def)
next
  case False
  then have p: "0 < vlength w"
    using vlength_zero_iff[of w] vlength_nonneg[of w] by simp
  have "0 \<le> glsl_clamp (vlength w) (m * 0.12) m"
    using glsl_clamp_range(1)[of "m * 0.12" m "vlength w"] assms(1) by simp
  then show ?thesis
    unfolding speed_def integrate_clamp[OF assms] using False vlength_normalised[OF p] by simp
qed

lemma step_fs_integrated:
  "step_fs_main U smp uv
     = integrate (Vec2 (ch_r (smp uv)) (ch_g (smp uv))) (Vec2 (ch_b (smp uv)) (ch_a (smp uv)))
         (boid_accel U
            (neighbour_scan smp (Vec2 (ch_r (smp uv)) (ch_g (smp uv)))
               (uniform1f U ''u_perception'' * uniform1f U ''u_perception'')
               (uniform1f U ''u_perception'' * 0.45 * (uniform1f U ''u_perception'' * 0.45)))
            (Vec2 (ch_r (smp uv)) (ch_g (smp uv))) (Vec2 (ch_b (smp uv)) (ch_a (smp uv))))
         (uniform1f U ''u_maxSpeed'')"
  "integrated_velocity U smp uv
     = vadd (Vec2 (ch_b (smp uv)) (ch_a (smp uv)))
         (boid_accel U
            (neighbour_scan smp (Vec2 (ch_r (smp uv)) (ch_g (smp uv)))
               (uniform1f U ''u_perception'' * uniform1f U ''u_perception'')
               (uniform1f U ''u_perception'' * 0.45 * (uniform1f U ''u_perception'' * 0.45)))
            (Vec2 (ch_r (smp uv)) (ch_g (smp uv))) (Vec2 (ch_b (smp uv)) (ch_a (smp uv))))"
  by (simp_all only: step_fs_main_def integrated_velocity_def Let_def)

lemma step_fs_clamp:
  assumes "0 < uniform1f U ''u_maxSpeed''" and "w = integrated_velocity U smp uv"
  shows "speed (step_fs_main U smp uv)
           = (if w = Vec2 0 0 then 0
              else glsl_clamp (vlength w) (uniform1f U ''u_maxSpeed'' * 0.12)
                     (uniform1f U ''u_maxSpeed''))"
    and "Vec2 (ch_b (step_fs_main U smp uv)) (ch_a (step_fs_main U smp uv))
           = (if w = Vec2 0 0 then Vec2 0 0
              else vscale (vdiv w (vlength w))
                     (glsl_clamp (vlength w) (uniform1f U ''u_maxSpeed'' * 0.12)
                        (uniform1f U ''u_maxSpeed'')))"
  unfolding step_fs_integrated(1)
  by (rule integrate_speed[OF assms(1)] integrate_clamp[OF assms(1)],
      simp only: assms(2) step_fs_integrated(2))+

lemma step_fs_slow:
  assumes "\<And>uv. u_state uv = Vec4 (1 / 2) (1 / 2) (1 / 500) 0"
    and "uniform1f U ''u_mode'' = 0" and "uniform1f U ''u_touchActive'' = 1"
    and "uniform1f U ''u_touchButton'' = 0" and "uniform2f U ''u_touch'' = Vec2 (9 / 20) (1 / 2)"
    and "uniform1f U ''u_perception'' = 2 / 25" and "uniform1f U ''u_maxSpeed'' = 1 / 200"
  shows "integrated_velocity U u_state v_uv = Vec2 (- (1 / 2000)) 0"
proof -
  have scan: "neighbour_scan u_state (Vec2 (1 / 2) (1 / 2)) percSq sepRSq =
           \<lparr>sepSum = Vec2 0 0, aliSum = Vec2 0 0, cohSum = Vec2 0 0, sepCount = 0, nCount = 0\<rparr>"
    for percSq sepRSq
    by (rule neighbour_scan_coincident) (simp add: assms(1))
  have fl: "\<lfloor>(9 / 20 :: real)\<rfloor> = 0" "\<lfloor>(1 / 2 :: real)\<rfloor> = 0" by simp_all
  have toT: "vsub (vsub (Vec2 (9 / 20) (1 / 2)) (Vec2 (1 / 2) (1 / 2)))
               (vfloor (vadd (vsub (Vec2 (9 / 20) (1 / 2)) (Vec2 (1 / 2) (1 / 2))) (Vec2 0.5 0.5)))
             = Vec2 (- (1 / 20)) 0"
    by (simp add: vsub_def vadd_def vfloor_def fl)
  have st: "steer (Vec2 (- (1 / 20)) 0) (Vec2 (1 / 500) 0) (1 / 200) (1 / 1000)
              = Vec2 (- (1 / 1000)) 0"
    by (simp add: steer_def Let_def vlength_axis vsub_def vscale_def vdiv_def)
  have acc: "boid_accel U
           \<lparr>sepSum = Vec2 0 0, aliSum = Vec2 0 0, cohSum = Vec2 0 0, sepCount = 0, nCount = 0\<rparr>
           (Vec2 (1 / 2) (1 / 2)) (Vec2 (1 / 500) 0) = Vec2 (- (1 / 400)) 0"
    unfolding boid_accel_def Let_def assms(2-7) toT
    by (simp add: st vlength_axis) (simp add: vadd_def vscale_def)
  show ?thesis
    by (simp add: integrated_velocity_def Let_def assms(1,6,7) scan acc) (simp add: vadd_def)
qed

text \<open>
  C9, as the code has it. In an agent engine that was set up, after any number of steps,
  one more step with \<open>maxSpeed > 0\<close> runs the step kernel with \<open>u_maxSpeed = maxSpeed\<close>,
  and for the agent of cell \<open>(i, j)\<close>, with \<open>w\<close> the velocity that the kernel has
  integrated (\<open>vel += accel\<close>) from the current buffer: if \<open>w\<close> is not zero, the stored
  velocity has the direction of \<open>w\<close> and the length of \<open>w\<close> clamped into
  \<open>[0.12 \<times> maxSpeed, maxSpeed]\<close>, so a slower nonzero speed is raised to the floor and a
  faster one lowered to \<open>maxSpeed\<close>; if \<open>w\<close> is zero, the stored velocity is zero. The
  stored speed is zero only in that case: the floor is applied only to a nonzero speed
  (the kernel's guard is \<open>spd > 0.0\<close>).
\<close>

theorem speed_clamped_unless_zero:
  assumes "boids_setup_ok (boids_setup random params0 (gl0, boids_init))" and "\<not> blend gl0"
    and "i < AGENT_RES" and "j < AGENT_RES" and "0 < maxSpeed params"
    and "s = boids_run ins (boids_setup random params0 (gl0, boids_init))"
    and "c = agent_cell (boids_step params touch s) i j"
  shows "\<exists>d1 d2 d3 w.
           draws (fst (boids_step params touch s)) = d3 # d2 # d1 # draws (fst s) \<and>
           uniform1f (draw_uniforms d1) ''u_maxSpeed'' = maxSpeed params \<and>
           w = integrated_velocity (draw_uniforms d1) (agent_sampler s)
                 (frag_uv AGENT_RES AGENT_RES i j) \<and>
           speed c = (if w = Vec2 0 0 then 0
                      else glsl_clamp (vlength w) (maxSpeed params * 0.12) (maxSpeed params)) \<and>
           Vec2 (ch_b c) (ch_a c)
             = (if w = Vec2 0 0 then Vec2 0 0 else vscale (vdiv w (vlength w)) (speed c)) \<and>
           (speed c = 0 \<longleftrightarrow> w = Vec2 0 0) \<and>
           (speed c = 0 \<or> (maxSpeed params * 0.12 \<le> speed c \<and> speed c \<le> maxSpeed params))"
proof -
  have ok: "boids_ok s" unfolding assms(6) by (rule boids_reach_ok[OF assms(1,2)])
  then have sh: "prog_shape (fst s) (stepProg_b (snd s)) = Some (VERTEX_SHADER_SRC, STEP_FS)"
    by (cases s) (simp add: boids_ok_def)
  from boids_step_kernel[OF ok assms(3,4), of params touch]
  obtain d1 d2 d3 :: draw where
        d: "draws (fst (boids_step params touch s)) = d3 # d2 # d1 # draws (fst s)"
    and u: "draw_uniforms d1 = uniform_of (update_bind params touch (snd s) (fst s)) (stepProg_b (snd s))"
    and k: "agent_cell (boids_step params touch s) i j
              = step_fs_main (draw_uniforms d1) (agent_sampler s) (frag_uv AGENT_RES AGENT_RES i j)"
    by blast
  define w where "w = integrated_velocity (draw_uniforms d1) (agent_sampler s)
                        (frag_uv AGENT_RES AGENT_RES i j)"
  have m: "uniform1f (draw_uniforms d1) ''u_maxSpeed'' = maxSpeed params"
    unfolding u by (simp add: update_bind_uniforms(5)[OF sh] uniform1f_def js_arg_def)
  have p: "0 < uniform1f (draw_uniforms d1) ''u_maxSpeed''" unfolding m by (rule assms(5))
  have c: "c = step_fs_main (draw_uniforms d1) (agent_sampler s) (frag_uv AGENT_RES AGENT_RES i j)"
    unfolding assms(7) by (rule k)
  note f = step_fs_clamp[OF p w_def, folded c, unfolded m]
  have lo: "maxSpeed params * 0.12 \<le> maxSpeed params" using assms(5) by simp
  note r = glsl_clamp_range[OF lo, of "vlength w"]
  have sp: "speed c = (if w = Vec2 0 0 then 0
                      else glsl_clamp (vlength w) (maxSpeed params * 0.12) (maxSpeed params))"
    by (rule f(1))
  have ve: "Vec2 (ch_b c) (ch_a c)
             = (if w = Vec2 0 0 then Vec2 0 0 else vscale (vdiv w (vlength w)) (speed c))"
    unfolding f(2) sp by simp
  have z: "speed c = 0 \<longleftrightarrow> w = Vec2 0 0"
    unfolding sp using r(1) assms(5) by auto
  have b: "speed c = 0 \<or> (maxSpeed params * 0.12 \<le> speed c \<and> speed c \<le> maxSpeed params)"
    unfolding sp using r by simp
  show ?thesis using d m w_def sp ve z b by blast
qed

text \<open>
  The claim as stated fails: with the pointer held down just behind a flock that heads
  right at half the maximum speed, the attraction cancels the velocity and every agent is
  stored with speed 0, below the floor; and an agent at rest with no neighbour in range
  and no pointer stays at rest.
\<close>

theorem speed_floor_counterexample:
  "speed (agent_cell (boids_step boids_defaults touch_behind
      (boids_setup flock_random boids_defaults (demo_gl, boids_init))) 0 0)
     < 0.12 * maxSpeed boids_defaults \<and>
   uniform1f rest_uniforms ''u_maxSpeed'' = 0.004 \<and>
   speed (step_fs_main rest_uniforms flock_at_rest (frag_uv AGENT_RES AGENT_RES 0 0))
     < 0.12 * 0.004"
proof -
  have "step_fs_main rest_uniforms flock_at_rest (frag_uv AGENT_RES AGENT_RES 0 0)
     = integrate (Vec2 0.5 0.5) (Vec2 0 0) (Vec2 0 0) (uniform1f rest_uniforms ''u_maxSpeed'')"
    by (rule step_fs_coincident)
       (simp_all add: flock_at_rest_def rest_uniforms_def uniform1f_def js_arg_def)
  also have "\<dots> = Vec4 0.5 0.5 0 0"
    by (simp add: integrate_def Let_def vadd_def vlength_def vdot_def vfract_def glsl_fract_def
          rest_uniforms_def uniform1f_def js_arg_def)
  finally have k: "speed (step_fs_main rest_uniforms flock_at_rest
                     (frag_uv AGENT_RES AGENT_RES 0 0)) = 0"
    by (simp add: speed_def vlength_def vdot_def)
  have e: "speed (agent_cell (boids_step boids_defaults touch_behind
      (boids_setup flock_random boids_defaults (demo_gl, boids_init))) 0 0) = 0"
    unfolding flock_stall by (simp add: speed_def vlength_def vdot_def)
  have m: "maxSpeed boids_defaults = 1 / 250" by (simp add: boids_defaults_def)
  have u: "uniform1f rest_uniforms ''u_maxSpeed'' = 0.004"
    by (simp add: rest_uniforms_def uniform1f_def js_arg_def)
  show ?thesis unfolding k e m u by simp
qed

text \<open>
  The theorem at the first tick of a flock that heads right at 0.002, with the maximum
  speed 0.005 and the pointer held down just behind it: the attraction turns the velocity
  to \<open>(-0.0005, 0)\<close>, slower than the floor 0.0006, and the agent is stored with the speed
  of the floor.
\<close>

theorem speed_clamped_unless_zero_witness:
  "boids_setup_ok (boids_setup flock_random boids_defaults (demo_gl, boids_init)) \<and>
   \<not> blend demo_gl \<and> (0 :: nat) < AGENT_RES \<and> 0 < maxSpeed boids_brisk \<and>
   integrated_velocity
     (draw_uniforms (hd (tl (tl (draws (fst (boids_step boids_brisk touch_behind
        (boids_run [] (boids_setup flock_random boids_defaults (demo_gl, boids_init)))))))))) 
     (agent_sampler (boids_run [] (boids_setup flock_random boids_defaults (demo_gl, boids_init))))
     (frag_uv AGENT_RES AGENT_RES 0 0) = Vec2 (- (1 / 2000)) 0 \<and>
   vlength (Vec2 (- (1 / 2000)) 0) < maxSpeed boids_brisk * 0.12 \<and>
   speed (agent_cell (boids_step boids_brisk touch_behind
      (boids_run [] (boids_setup flock_random boids_defaults (demo_gl, boids_init)))) 0 0)
     = maxSpeed boids_brisk * 0.12"
proof -
  let ?b = "boids_setup flock_random boids_defaults (demo_gl, boids_init)"
  let ?s = "boids_run [] ?b"
  let ?c = "agent_cell (boids_step boids_brisk touch_behind ?s) 0 0"
  have ok: "boids_setup_ok ?b" by (rule boids_setup_succeeds) simp_all
  have nb: "\<not> blend demo_gl" by simp
  have r: "?s = ?b" by (simp add: boids_run_def)
  have a: "(0 :: nat) < AGENT_RES" by (simp add: AGENT_RES_def)
  have m: "0 < maxSpeed boids_brisk" "maxSpeed boids_brisk = 1 / 200"
    by (simp_all add: boids_brisk_def)
  from speed_clamped_unless_zero[where ins = "[]" and touch = touch_behind and params = boids_brisk,
      OF ok nb a a m(1) refl refl]
  obtain d1 d2 d3 :: draw and w where
        d: "draws (fst (boids_step boids_brisk touch_behind ?s)) = d3 # d2 # d1 # draws (fst ?s)"
    and w: "w = integrated_velocity (draw_uniforms d1) (agent_sampler ?s)
                  (frag_uv AGENT_RES AGENT_RES 0 0)"
    and sp: "speed ?c = (if w = Vec2 0 0 then 0
                         else glsl_clamp (vlength w) (maxSpeed boids_brisk * 0.12)
                                (maxSpeed boids_brisk))"
    by blast
  have bok: "boids_ok ?s" unfolding r by (rule flock_setup_ok)
  then have sh: "prog_shape (fst ?s) (stepProg_b (snd ?s)) = Some (VERTEX_SHADER_SRC, STEP_FS)"
    by (cases ?s) (simp add: boids_ok_def)
  from boids_step_kernel[OF bok a a, of boids_brisk touch_behind]
  obtain e1 e2 e3 :: draw where
        e: "draws (fst (boids_step boids_brisk touch_behind ?s)) = e3 # e2 # e1 # draws (fst ?s)"
    and u: "draw_uniforms e1
              = uniform_of (update_bind boids_brisk touch_behind (snd ?s) (fst ?s))
                  (stepProg_b (snd ?s))"
    by blast
  have d1: "d1 = e1" using d e by simp
  have h: "hd (tl (tl (draws (fst (boids_step boids_brisk touch_behind ?s))))) = d1"
    unfolding d by simp
  note b = update_bind_uniforms[OF sh, of boids_brisk touch_behind]
  have smp: "\<And>uv. agent_sampler ?s uv = Vec4 (1 / 2) (1 / 2) (1 / 500) 0"
    unfolding r by (rule flock_setup_sampler)
  have wv: "w = Vec2 (- (1 / 2000)) 0"
    unfolding w d1
    by (rule step_fs_slow[OF smp])
       (simp_all add: u b uniform1f_def uniform2f_def,
        simp_all add: js_arg_def boids_brisk_def touch_behind_def modeMap_def)
  have l: "vlength (Vec2 (- (1 / 2000)) 0) = 1 / 2000" by (simp add: vlength_axis)
  have s: "speed ?c = maxSpeed boids_brisk * 0.12"
    unfolding sp wv l m(2) by (simp add: glsl_clamp_def)
  have i: "integrated_velocity (draw_uniforms (hd (tl (tl (draws (fst (boids_step boids_brisk
             touch_behind ?s))))))) (agent_sampler ?s) (frag_uv AGENT_RES AGENT_RES 0 0)
           = Vec2 (- (1 / 2000)) 0"
    unfolding h using w wv by simp
  have lt: "vlength (Vec2 (- (1 / 2000)) 0) < maxSpeed boids_brisk * 0.12"
    unfolding l m(2) by simp
  show ?thesis using ok nb a m(1) i lt s by blast
qed

section \<open>A failed setup\<close>










end
